theory Spec2Isabelle
  imports Main "HOL-Library.Multiset" "HOL-Library.AList"
begin

section \<open>JavaScript values and outcomes\<close>

text \<open>
  Both components are JavaScript. The meta model walks metadata that was parsed from
  JSON, so a value is \<open>undefined\<close>, \<open>null\<close>, a boolean, a number, a string, an
  array or an object. Numbers are integers here (the code never computes with a
  number of the metadata; it only prints one into a message or a path). An object keeps
  its keys in insertion order; a read takes the first entry of a key.
\<close>

datatype jsval =
    JUndefined
  | JNull
  | JBool bool
  | JNum int
  | JStr string
  | JArr "jsval list"
  | JObj "(string \<times> jsval) list"

text \<open>
  An error is kept with its constructor and its message: \<open>Error\<close> is what the source's
  own \<open>error\<close> function throws, \<open>TypeError\<close> is what the language throws on a
  property read of \<open>undefined\<close> or \<open>null\<close>, on \<open>in\<close> applied to a primitive and
  on \<open>Object.keys\<close> of \<open>undefined\<close> or \<open>null\<close> (the message of a \<open>TypeError\<close>
  differs between engines and is only indicative). \<open>Outside\<close> marks the places
  where the model does not follow the language: the numeric conversion of a \<open>length\<close>
  that is a string or an array, the use of a member that a value inherits from its
  prototype, and the conversion to a string of a number beyond \<open>2^53\<close> or of an object
  with a \<open>toString\<close> of its own where the type mapper looks a property up by the
  result.
\<close>

datatype jserr = Error string | TypeError string | Outside string

text \<open>
  A function of the source returns a promise that is later resolved or rejected, or it
  throws before it has returned anything.
\<close>

datatype 'a outcome = Thrown jserr | Rejected jserr | Resolved 'a

definition isDigit :: "char \<Rightarrow> bool" where
  \<comment> \<open>\<open>\d\<close>\<close>
  "isDigit c = (c \<in> set ''0123456789'')"

definition isWord :: "char \<Rightarrow> bool" where
  \<comment> \<open>\<open>\w\<close>\<close>
  "isWord c = (c \<in> set ''abcdefghijklmnopqrstuvwxyzABCDEFGHIJKLMNOPQRSTUVWXYZ0123456789_'')"

definition digitValue :: "char \<Rightarrow> nat" where
  \<comment> \<open>the position of a digit among the ten digits\<close>
  "digitValue c = length (takeWhile (\<lambda>d. d \<noteq> c) ''0123456789'')"

fun natToString :: "nat \<Rightarrow> string" where
  "natToString n =
     (if n < 10 then [''0123456789'' ! n]
      else natToString (n div 10) @ [''0123456789'' ! (n mod 10)])"

declare natToString.simps [simp del]

definition intToString :: "int \<Rightarrow> string" where
  "intToString n = (if n < 0 then CHR ''-'' # natToString (nat (- n)) else natToString (nat n))"

definition arrayIndex :: "string \<Rightarrow> nat option" where
  \<comment> \<open>a property name that is an array index: decimal digits without a leading zero\<close>
  "arrayIndex s =
     (if s \<noteq> [] \<and> list_all isDigit s \<and> (s = ''0'' \<or> hd s \<noteq> CHR ''0'')
      then Some (foldl (\<lambda>a c. 10 * a + digitValue c) 0 s)
      else None)"

fun truthy :: "jsval \<Rightarrow> bool" where
  "truthy JUndefined = False"
| "truthy JNull = False"
| "truthy (JBool b) = b"
| "truthy (JNum n) = (n \<noteq> 0)"
| "truthy (JStr s) = (s \<noteq> [])"
| "truthy (JArr xs) = True"
| "truthy (JObj kvs) = True"

fun isArray :: "jsval \<Rightarrow> bool" where
  \<comment> \<open>\<open>Array.isArray(v)\<close>\<close>
  "isArray (JArr xs) = True"
| "isArray v = False"

fun typeofObject :: "jsval \<Rightarrow> bool" where
  \<comment> \<open>\<open>typeof v === "object"\<close>, which holds of \<open>null\<close> too\<close>
  "typeofObject JNull = True"
| "typeofObject (JArr xs) = True"
| "typeofObject (JObj kvs) = True"
| "typeofObject v = False"

text \<open>
  The \<open>in\<close> operator and a property read also see the members that a value inherits
  from its prototype, such as \<open>constructor\<close>. These members are functions and objects
  of the engine, which a value of the metadata cannot be, so the model stops where one
  of them is used. An object that was parsed from JSON, and an object literal of the
  source, inherit the members of \<open>Object.prototype\<close>, whose names the language fixes.
  What an array, a string, a number or a boolean inherits differs between engines; every
  such member has a name that begins with a lower-case letter or an underscore.
\<close>

definition objectPrototype :: "string list" where
  \<comment> \<open>the names of the members of \<open>Object.prototype\<close>\<close>
  "objectPrototype =
     [''constructor'', ''hasOwnProperty'', ''isPrototypeOf'', ''propertyIsEnumerable'',
      ''toLocaleString'', ''toString'', ''valueOf'', ''__proto__'', ''__defineGetter__'',
      ''__defineSetter__'', ''__lookupGetter__'', ''__lookupSetter__'']"

definition memberName :: "string \<Rightarrow> bool" where
  \<comment> \<open>a name that begins like the name of a built-in member\<close>
  "memberName p = (case p of [] \<Rightarrow> False | c # cs \<Rightarrow> c \<in> set ''abcdefghijklmnopqrstuvwxyz_'')"

definition inheritedMember :: jserr where
  "inheritedMember = Outside ''a member inherited from the prototype''"

fun inherits :: "jsval \<Rightarrow> string \<Rightarrow> bool" where
  \<comment> \<open>\<open>p\<close> is not a property of \<open>v\<close> itself and is, or may be, a member \<open>v\<close> inherits\<close>
  "inherits JUndefined p = False"
| "inherits JNull p = False"
| "inherits (JObj kvs) p = (p \<notin> set (map fst kvs) \<and> p \<in> set objectPrototype)"
| "inherits (JArr xs) p = (p \<noteq> ''length'' \<and> memberName p)"
| "inherits (JStr s) p = (p \<noteq> ''length'' \<and> memberName p)"
| "inherits v p = memberName p"

fun js_in :: "string \<Rightarrow> jsval \<Rightarrow> jserr + bool" where
  \<comment> \<open>\<open>p in v\<close>\<close>
  "js_in p (JObj kvs) =
     (if inherits (JObj kvs) p then Inl inheritedMember else Inr (p \<in> set (map fst kvs)))"
| "js_in p (JArr xs) =
     (if inherits (JArr xs) p then Inl inheritedMember
      else Inr (p = ''length''
                \<or> (case arrayIndex p of None \<Rightarrow> False | Some n \<Rightarrow> n < length xs)))"
| "js_in p v = Inl (TypeError ''Cannot use in operator to search for a key in a primitive'')"

fun js_get :: "jsval \<Rightarrow> string \<Rightarrow> jserr + jsval" where
  \<comment> \<open>\<open>v[p]\<close>, \<open>v.p\<close>\<close>
  "js_get JUndefined p = Inl (TypeError ''Cannot read properties of undefined'')"
| "js_get JNull p = Inl (TypeError ''Cannot read properties of null'')"
| "js_get (JObj kvs) p =
     (if inherits (JObj kvs) p then Inl inheritedMember
      else Inr (case map_of kvs p of None \<Rightarrow> JUndefined | Some v \<Rightarrow> v))"
| "js_get (JArr xs) p =
     (if inherits (JArr xs) p then Inl inheritedMember
      else Inr (if p = ''length'' then JNum (int (length xs))
                else case arrayIndex p of
                       None \<Rightarrow> JUndefined
                     | Some n \<Rightarrow> if n < length xs then xs ! n else JUndefined))"
| "js_get (JStr s) p =
     (if inherits (JStr s) p then Inl inheritedMember
      else Inr (if p = ''length'' then JNum (int (length s))
                else case arrayIndex p of
                       None \<Rightarrow> JUndefined
                     | Some n \<Rightarrow> if n < length s then JStr [s ! n] else JUndefined))"
| "js_get v p = (if inherits v p then Inl inheritedMember else Inr JUndefined)"

text \<open>
  \<open>o[p]\<close> and \<open>p in o\<close> for an object literal \<open>o\<close> of the source, which is given
  as the list of its entries: the entry of the key, or none.
\<close>

definition lookup :: "(string \<times> 'a) list \<Rightarrow> string \<Rightarrow> jserr + 'a option" where
  "lookup tbl p =
     (case map_of tbl p of
        Some v \<Rightarrow> Inr (Some v)
      | None \<Rightarrow> if p \<in> set objectPrototype then Inl inheritedMember else Inr None)"

fun keysLength :: "jsval \<Rightarrow> jserr + nat" where
  \<comment> \<open>\<open>Object.keys(v).length\<close>\<close>
  "keysLength JUndefined = Inl (TypeError ''Cannot convert undefined or null to object'')"
| "keysLength JNull = Inl (TypeError ''Cannot convert undefined or null to object'')"
| "keysLength (JObj kvs) = Inr (length (remdups (map fst kvs)))"
| "keysLength (JArr xs) = Inr (length xs)"
| "keysLength (JStr s) = Inr (length s)"
| "keysLength v = Inr 0"

fun joinWith :: "string \<Rightarrow> string list \<Rightarrow> string" where
  "joinWith sep [] = []"
| "joinWith sep [x] = x"
| "joinWith sep (x # y # ys) = x @ sep @ joinWith sep (y # ys)"

fun toString :: "jsval \<Rightarrow> string" where
  \<comment> \<open>the conversion \<open>+\<close> applies to an operand next to a string\<close>
  "toString JUndefined = ''undefined''"
| "toString JNull = ''null''"
| "toString (JBool b) = (if b then ''true'' else ''false'')"
| "toString (JNum n) = intToString n"
| "toString (JStr s) = s"
| "toString (JArr xs) =
     joinWith '','' (map (\<lambda>x. if x = JUndefined \<or> x = JNull then [] else toString x) xs)"
| "toString (JObj kvs) = ''[object Object]''"

text \<open>
  A number of the language is a double: beyond \<open>2^53\<close> it prints the shortest digits
  that identify it, followed by zeros, and from \<open>1e21\<close> on it is printed in exponent
  notation. The conversion of an object to a string calls the \<open>toString\<close> of the
  object, which fails for an object that has a property of this name. \<open>toString\<close>
  above does neither. \<open>printable\<close> holds of the values that the language converts as
  \<open>toString\<close> does. \<open>toPropertyKey\<close> is the conversion of a value that is used as
  a property name or joined to a string, and is outside the model for the other values.
\<close>

fun printable :: "jsval \<Rightarrow> bool" where
  "printable (JNum n) = (\<bar>n\<bar> \<le> 2 ^ 53)"
| "printable (JArr xs) = list_all printable xs"
| "printable (JObj kvs) = (''toString'' \<notin> set (map fst kvs))"
| "printable v = True"

definition toPropertyKey :: "jsval \<Rightarrow> jserr + string" where
  "toPropertyKey v =
     (if printable v then Inr (toString v)
      else Inl (Outside ''a conversion to a string that is not followed''))"

definition apostrophe :: string where
  "apostrophe = [CHR 0x27]"

section \<open>ODataMetaModel: collaborators\<close>

text \<open>
  What \<open>Helper.parseSegment\<close> returns: \<open>{segment, property, name}\<close>, where
  \<open>name\<close> is only there for a segment like \<open>EntitySets('Employees')\<close>.
\<close>

record part =
  segment :: string
  property :: string
  name :: "string option"

text \<open>
  The module \<open>sap/ui/model/odata/v4/_ODataHelper\<close>, the base class
  \<open>sap/ui/model/MetaModel\<close> (\<open>resolve\<close>, \<open>getContext\<close>) and the global
  \<open>encodeURIComponent\<close> are not part of the excerpt; the meta model is modelled over
  any implementation of them. A helper that returns a promise is given by what the
  promise settles to; a helper that returns a value may throw instead.
  \<open>requestEntityContainer\<close> and \<open>requestTypeForNavigationProperty\<close> take the meta
  model itself as their first argument, which is this record.
\<close>

record 'ctx metamodel =
  splitPath :: "string \<Rightarrow> jserr + string list"
  parseSegment :: "string \<Rightarrow> jserr + part"
  findInArray :: "jsval \<Rightarrow> string \<Rightarrow> jsval \<Rightarrow> jserr + jsval"
  requestEntityContainer :: "jserr + jsval"
  requestTypeForNavigationProperty :: "jsval \<Rightarrow> string \<Rightarrow> jserr + jsval"
  getKeyPredicate :: "jsval \<Rightarrow> jsval \<Rightarrow> jserr + string"
  resolve :: "string \<Rightarrow> 'ctx option \<Rightarrow> string option"
  getContext :: "string \<Rightarrow> 'ctx"
  encodeURIComponent :: "string \<Rightarrow> string"

text \<open>
  Every call of \<open>Helper.requestTypeForNavigationProperty\<close> is recorded with the object
  and the property name it was handed.
\<close>

type_synonym load = "jsval \<times> string"

definition logged :: "load \<Rightarrow> load list \<times> 'a \<Rightarrow> load list \<times> 'a" where
  "logged l r = (l # fst r, snd r)"

definition error :: "string \<Rightarrow> string \<Rightarrow> jserr" where
  \<comment> \<open>\<open>throw new Error(sError + ": " + sPath)\<close>\<close>
  "error sError sPath = Error (sError @ '': '' @ sPath)"

definition settle :: "load list \<times> (jserr + 'a) \<Rightarrow> load list \<times> 'a outcome" where
  \<comment> \<open>a \<open>then\<close> callback that throws rejects the promise\<close>
  "settle r = (fst r, case snd r of Inl e \<Rightarrow> Rejected e | Inr v \<Rightarrow> Resolved v)"

section \<open>ODataMetaModel.prototype.requestObject\<close>

definition unknown :: "string \<Rightarrow> string \<Rightarrow> jserr" where
  "unknown sPath sSegment = error (''Unknown '' @ sSegment) sPath"

fun requestObject_followPath ::
  "'ctx metamodel \<Rightarrow> string \<Rightarrow> string list \<Rightarrow> jsval \<Rightarrow> load list \<times> (jserr + jsval)" where
  "requestObject_followPath that sPath [] oObject = ([], Inr oObject)"
| "requestObject_followPath that sPath (s # aSegments) oObject =
     (case parseSegment that s of
        Inl e \<Rightarrow> ([], Inl e)
      | Inr oPart \<Rightarrow>
          (case js_in (property oPart) oObject of
             Inl e \<Rightarrow> ([], Inl e)
           | Inr False \<Rightarrow> ([], Inl (unknown sPath (segment oPart)))
           | Inr True \<Rightarrow>
               (case js_get oObject (property oPart) of
                  Inl e \<Rightarrow> ([], Inl e)
                | Inr oNextObject \<Rightarrow>
                    (case name oPart of
                       Some (c # cs) \<Rightarrow>
                         if \<not> isArray oNextObject
                         then ([], Inl (error ([CHR 0x22] @ property oPart @ [CHR 0x22]
                                                @ '' is not an array'') sPath))
                         else
                           (case findInArray that oNextObject ''Name'' (JStr (c # cs)) of
                              Inl e \<Rightarrow> ([], Inl e)
                            | Inr oFound \<Rightarrow>
                                if \<not> truthy oFound
                                then ([], Inl (unknown sPath (segment oPart)))
                                else requestObject_followPath that sPath aSegments oFound)
                     | _ \<Rightarrow>
                         if typeofObject oNextObject \<and> \<not> isArray oNextObject
                         then
                           (case keysLength oNextObject of
                              Inl e \<Rightarrow> ([], Inl e)
                            | Inr n \<Rightarrow>
                                if n = 1
                                then logged (oObject, property oPart)
                                  (case requestTypeForNavigationProperty that oObject
                                          (property oPart) of
                                     Inl e \<Rightarrow> ([], Inl e)
                                   | Inr oType \<Rightarrow>
                                       requestObject_followPath that sPath aSegments oType)
                                else requestObject_followPath that sPath aSegments oNextObject)
                         else requestObject_followPath that sPath aSegments oNextObject))))"

definition requestObject ::
  "'ctx metamodel \<Rightarrow> string \<Rightarrow> 'ctx option \<Rightarrow> load list \<times> jsval outcome" where
  "requestObject that sPath oContext =
     (case resolve that sPath oContext of
        None \<Rightarrow> ([], Thrown (error ''Not an absolute path'' sPath))
      | Some [] \<Rightarrow> ([], Thrown (error ''Not an absolute path'' sPath))
      | Some sResolvedPath \<Rightarrow>
          (case splitPath that sResolvedPath of
             Inl e \<Rightarrow> ([], Thrown e)
           | Inr aSegments \<Rightarrow>
               (case requestEntityContainer that of
                  Inl e \<Rightarrow> ([], Rejected e)
                | Inr oEntityContainer \<Rightarrow>
                    settle (requestObject_followPath that sPath aSegments oEntityContainer))))"

section \<open>ODataMetaModel.prototype.requestMetaContext\<close>

definition rNumber_test :: "jsval \<Rightarrow> bool" where
  \<comment> \<open>\<open>/^\d+$/.test(v)\<close>; the argument is converted to a string first\<close>
  "rNumber_test v = (toString v \<noteq> [] \<and> list_all isDigit (toString v))"

definition rEntitySetName_exec :: "string \<Rightarrow> string option" where
  \<comment> \<open>\<open>/^(\w+)(\[|\(|$)/.exec(s)\<close>: the first group, or \<open>None\<close> for \<open>null\<close>\<close>
  "rEntitySetName_exec s =
     (if takeWhile isWord s \<noteq> []
         \<and> (dropWhile isWord s = []
            \<or> hd (dropWhile isWord s) = CHR ''[''
            \<or> hd (dropWhile isWord s) = CHR ''('')
      then Some (takeWhile isWord s)
      else None)"

definition seg :: "string list \<Rightarrow> nat \<Rightarrow> jsval" where
  \<comment> \<open>\<open>aSegments[i]\<close>, which is \<open>undefined\<close> beyond the end of the array\<close>
  "seg aSegments i = (if i < length aSegments then JStr (aSegments ! i) else JUndefined)"

definition skipIndex :: "string list \<Rightarrow> nat \<Rightarrow> nat" where
  \<comment> \<open>\<open>if (rNumber.test(aSegments[i])) { i += 1; }\<close>\<close>
  "skipIndex aSegments i = (if rNumber_test (seg aSegments i) then i + 1 else i)"

text \<open>
  \<open>findChild\<close> extends the variable \<open>sMetaPath\<close> of the enclosing function; here it
  takes the meta path and returns it with the child it found.
\<close>

fun findChild ::
  "'ctx metamodel \<Rightarrow> string \<Rightarrow> jsval \<Rightarrow> string list \<Rightarrow> jsval \<Rightarrow> bool
     \<Rightarrow> jserr + ((jsval \<times> string) option \<times> string)" where
  "findChild that sMetaPath oObject [] sName bHidden = Inr (None, sMetaPath)"
| "findChild that sMetaPath oObject (sProperty # aProperties) sName bHidden =
     (case js_in sProperty oObject of
        Inl e \<Rightarrow> Inl e
      | Inr False \<Rightarrow> findChild that sMetaPath oObject aProperties sName bHidden
      | Inr True \<Rightarrow>
          (case js_get oObject sProperty of
             Inl e \<Rightarrow> Inl e
           | Inr aArray \<Rightarrow>
               (case findInArray that aArray ''Name'' sName of
                  Inl e \<Rightarrow> Inl e
                | Inr oChild \<Rightarrow>
                    if truthy oChild
                    then
                      (if \<not> bHidden
                       then
                         (case js_get oChild ''Name'' of
                            Inl e \<Rightarrow> Inl e
                          | Inr vName \<Rightarrow>
                              Inr (Some (oChild, sProperty),
                                   sMetaPath @ ''/'' @ sProperty @ ''('' @ apostrophe
                                     @ toString vName @ apostrophe @ '')''))
                       else Inr (Some (oChild, sProperty), sMetaPath))
                    else findChild that sMetaPath oObject aProperties sName bHidden)))"

definition findSetOrSingleton ::
  "'ctx metamodel \<Rightarrow> string \<Rightarrow> string \<Rightarrow> jsval \<Rightarrow> jsval \<Rightarrow> bool
     \<Rightarrow> jserr + ((jsval \<times> string) \<times> string)" where
  "findSetOrSingleton that sPath sMetaPath oEntityContainer sName bHidden =
     (case findChild that sMetaPath oEntityContainer [''EntitySets'', ''Singletons''] sName bHidden of
        Inl e \<Rightarrow> Inl e
      | Inr (None, m) \<Rightarrow>
          Inl (error (''No EntitySet or Singleton with name '' @ apostrophe @ toString sName
                        @ apostrophe @ '' found'') sPath)
      | Inr (Some oResult, m) \<Rightarrow> Inr (oResult, m))"

text \<open>
  \<open>followPath\<close> reads and advances the variable \<open>i\<close> and extends \<open>sMetaPath\<close>;
  both are arguments here. The body of its \<open>for (;;)\<close> loop ends by going round with
  the next type, where \<open>aSegments[i]\<close> is known to be truthy, or by handing itself to
  the promise of the type that is loaded, which starts with the test of \<open>aSegments[i]\<close>;
  one recursive function covers both.
\<close>

function requestMetaContext_followPath ::
  "'ctx metamodel \<Rightarrow> string \<Rightarrow> string list \<Rightarrow> nat \<Rightarrow> string \<Rightarrow> jsval
     \<Rightarrow> load list \<times> (jserr + string)" where
  "requestMetaContext_followPath that sPath aSegments i sMetaPath oType =
     (if \<not> truthy (seg aSegments i) then ([], Inr sMetaPath)
      else
        case findChild that sMetaPath oType [''Properties'', ''NavigationProperties'']
               (seg aSegments i) False of
          Inl e \<Rightarrow> ([], Inl e)
        | Inr (None, m) \<Rightarrow>
            (case js_get oType ''QualifiedName'' of
               Inl e \<Rightarrow> ([], Inl e)
             | Inr vQualifiedName \<Rightarrow>
                 ([], Inl (error (''Unknown property: '' @ toString vQualifiedName @ ''/''
                                    @ toString (seg aSegments i)) sPath)))
        | Inr (Some (oProperty, sProperty), sMetaPath1) \<Rightarrow>
            if \<not> truthy (seg aSegments (skipIndex aSegments (i + 1)))
            then ([], Inr sMetaPath1)
            else
              (case js_get oProperty ''Type'' of
                 Inl e \<Rightarrow> ([], Inl e)
               | Inr vType \<Rightarrow>
                   (case keysLength vType of
                      Inl e \<Rightarrow> ([], Inl e)
                    | Inr n \<Rightarrow>
                        if n = 1
                        then logged (oProperty, ''Type'')
                          (case requestTypeForNavigationProperty that oProperty ''Type'' of
                             Inl e \<Rightarrow> ([], Inl e)
                           | Inr oLoaded \<Rightarrow>
                               requestMetaContext_followPath that sPath aSegments
                                 (skipIndex aSegments (i + 1)) (sMetaPath1 @ ''/Type'') oLoaded)
                        else
                          requestMetaContext_followPath that sPath aSegments
                            (skipIndex aSegments (i + 1)) (sMetaPath1 @ ''/Type'') vType)))"
  by pat_completeness auto
termination
  by (relation "measure (\<lambda>(that, sPath, aSegments, i, sMetaPath, oType). Suc (length aSegments) - i)")
     (auto simp: seg_def skipIndex_def split: if_splits)

text \<open>
  The \<open>for (;;)\<close> loop of the callback that \<open>requestMetaContext\<close> hands to the promise
  of the entity container; \<open>oResult\<close> is the pair \<open>{object, property}\<close>.
\<close>

function followBindings ::
  "'ctx metamodel \<Rightarrow> string \<Rightarrow> string list \<Rightarrow> jsval \<Rightarrow> nat \<Rightarrow> string \<Rightarrow> jsval \<times> string
     \<Rightarrow> load list \<times> (jserr + string)" where
  "followBindings that sPath aSegments oEntityContainer i sMetaPath oResult =
     (if \<not> truthy (seg aSegments (skipIndex aSegments (i + 1))) then ([], Inr sMetaPath)
      else
        case findChild that sMetaPath (fst oResult) [''NavigationPropertyBindings'']
               (seg aSegments (skipIndex aSegments (i + 1))) False of
          Inl e \<Rightarrow> ([], Inl e)
        | Inr (None, m) \<Rightarrow>
            logged (fst oResult, if snd oResult = ''EntitySets'' then ''EntityType'' else ''Type'')
              (case requestTypeForNavigationProperty that (fst oResult)
                      (if snd oResult = ''EntitySets'' then ''EntityType'' else ''Type'') of
                 Inl e \<Rightarrow> ([], Inl e)
               | Inr oType \<Rightarrow>
                   requestMetaContext_followPath that sPath aSegments
                     (skipIndex aSegments (i + 1))
                     (sMetaPath @ ''/''
                        @ (if snd oResult = ''EntitySets'' then ''EntityType'' else ''Type''))
                     oType)
        | Inr (Some oNavigationResult, sMetaPath1) \<Rightarrow>
            (case js_get (fst oNavigationResult) ''Target'' of
               Inl e \<Rightarrow> ([], Inl e)
             | Inr vTarget \<Rightarrow>
                 (case js_get vTarget ''Name'' of
                    Inl e \<Rightarrow> ([], Inl e)
                  | Inr sName \<Rightarrow>
                      if \<not> truthy sName
                      then ([], Inl (error ''Unsupported cross-service reference'' sPath))
                      else
                        (case findSetOrSingleton that sPath sMetaPath1 oEntityContainer sName True of
                           Inl e \<Rightarrow> ([], Inl e)
                         | Inr (oResult1, sMetaPath2) \<Rightarrow>
                             followBindings that sPath aSegments oEntityContainer
                               (skipIndex aSegments (i + 1)) (sMetaPath2 @ ''/Target'') oResult1))))"
  by pat_completeness auto
termination
  by (relation "measure (\<lambda>(that, sPath, aSegments, oEntityContainer, i, sMetaPath, oResult).
                  Suc (length aSegments) - i)")
     (auto simp: seg_def skipIndex_def split: if_splits)

definition requestMetaContext :: "'ctx metamodel \<Rightarrow> string \<Rightarrow> load list \<times> 'ctx outcome" where
  "requestMetaContext that sPath =
     (case splitPath that sPath of
        Inl e \<Rightarrow> ([], Thrown e)
      | Inr aSegments \<Rightarrow>
          if length aSegments = 0 then ([], Thrown (error ''Unsupported'' sPath))
          else
            (case rEntitySetName_exec (aSegments ! 0) of
               None \<Rightarrow> ([], Thrown (error ''Unsupported'' sPath))
             | Some sName \<Rightarrow>
                 (case requestEntityContainer that of
                    Inl e \<Rightarrow> ([], Rejected e)
                  | Inr oEntityContainer \<Rightarrow>
                      settle
                        (case
                           (case findSetOrSingleton that sPath [] oEntityContainer (JStr sName) False of
                              Inl e \<Rightarrow> ([], Inl e)
                            | Inr (oResult, sMetaPath) \<Rightarrow>
                                followBindings that sPath aSegments oEntityContainer 0 sMetaPath oResult)
                         of
                           (ls, Inl e) \<Rightarrow> (ls, Inl e)
                         | (ls, Inr sMetaPath) \<Rightarrow> (ls, Inr (getContext that sMetaPath))))))"

section \<open>ODataMetaModel.prototype.requestUI5Type\<close>

record ui5entry =
  ui5_type :: string
  ui5_facets :: "(string \<times> string) list option"

definition mUi5TypeForEdmType :: "(string \<times> ui5entry) list" where
  "mUi5TypeForEdmType =
     [(''Edm.Boolean'', \<lparr> ui5_type = ''sap.ui.model.odata.type.Boolean'', ui5_facets = None \<rparr>),
      (''Edm.Byte'', \<lparr> ui5_type = ''sap.ui.model.odata.type.Byte'', ui5_facets = None \<rparr>),
      (''Edm.Date'', \<lparr> ui5_type = ''sap.ui.model.odata.type.Date'', ui5_facets = None \<rparr>),
      (''Edm.Decimal'', \<lparr> ui5_type = ''sap.ui.model.odata.type.Decimal'',
          ui5_facets = Some [(''Precision'', ''precision''), (''Scale'', ''scale'')] \<rparr>),
      (''Edm.Double'', \<lparr> ui5_type = ''sap.ui.model.odata.type.Double'', ui5_facets = None \<rparr>),
      (''Edm.Guid'', \<lparr> ui5_type = ''sap.ui.model.odata.type.Guid'', ui5_facets = None \<rparr>),
      (''Edm.Int16'', \<lparr> ui5_type = ''sap.ui.model.odata.type.Int16'', ui5_facets = None \<rparr>),
      (''Edm.Int32'', \<lparr> ui5_type = ''sap.ui.model.odata.type.Int32'', ui5_facets = None \<rparr>),
      (''Edm.Int64'', \<lparr> ui5_type = ''sap.ui.model.odata.type.Int64'', ui5_facets = None \<rparr>),
      (''Edm.SByte'', \<lparr> ui5_type = ''sap.ui.model.odata.type.SByte'', ui5_facets = None \<rparr>),
      (''Edm.Single'', \<lparr> ui5_type = ''sap.ui.model.odata.type.Single'', ui5_facets = None \<rparr>),
      (''Edm.String'', \<lparr> ui5_type = ''sap.ui.model.odata.type.String'',
          ui5_facets = Some [(''MaxLength'', ''maxLength'')] \<rparr>)]"

definition setConstraint ::
  "(string \<times> jsval) list option \<Rightarrow> string \<Rightarrow> jsval \<Rightarrow> (string \<times> jsval) list option" where
  \<comment> \<open>\<open>oConstraints = oConstraints || {}; oConstraints[sKey] = vValue;\<close>\<close>
  "setConstraint oConstraints sKey vValue =
     Some (AList.update sKey vValue (case oConstraints of None \<Rightarrow> [] | Some c \<Rightarrow> c))"

text \<open>
  The values \<open>oProperty.Facets[i]\<close> for \<open>0 \<le> i < oProperty.Facets.length\<close>, which the
  \<open>for\<close> loop visits in this order. An array gives its elements and a string its
  characters; any other primitive has no \<open>length\<close> and the loop does not run. An object
  with a numeric \<open>length\<close> is visited like an array.
\<close>

definition facetsOf :: "jsval \<Rightarrow> jserr + jsval list" where
  "facetsOf vFacets =
     (case vFacets of
        JUndefined \<Rightarrow> Inl (TypeError ''Cannot read properties of undefined'')
      | JNull \<Rightarrow> Inl (TypeError ''Cannot read properties of null'')
      | JArr xs \<Rightarrow> Inr xs
      | JStr s \<Rightarrow> Inr (map (\<lambda>c. JStr [c]) s)
      | JObj kvs \<Rightarrow>
          (case map_of kvs ''length'' of
             None \<Rightarrow> Inr []
           | Some (JNum n) \<Rightarrow>
               Inr (map (\<lambda>i. case map_of kvs (natToString i) of None \<Rightarrow> JUndefined | Some v \<Rightarrow> v)
                      [0 ..< nat n])
           | Some JUndefined \<Rightarrow> Inr []
           | Some JNull \<Rightarrow> Inr []
           | Some (JBool b) \<Rightarrow>
               Inr (if b then [case map_of kvs ''0'' of None \<Rightarrow> JUndefined | Some v \<Rightarrow> v] else [])
           | Some (JObj l) \<Rightarrow> Inr []
           | Some v \<Rightarrow> Inl (Outside ''ToNumber of a string or an array''))
      | _ \<Rightarrow> Inr [])"

fun facetsLoop ::
  "(string \<times> string) list option \<Rightarrow> jsval list \<Rightarrow> (string \<times> jsval) list option
     \<Rightarrow> jserr + (string \<times> jsval) list option" where
  "facetsLoop facets [] oConstraints = Inr oConstraints"
| "facetsLoop facets (oFacet # rest) oConstraints =
     (case facets of
        None \<Rightarrow> facetsLoop facets rest oConstraints
      | Some tbl \<Rightarrow>
          (case js_get oFacet ''Name'' of
             Inl e \<Rightarrow> Inl e
           | Inr vName \<Rightarrow>
               (case toPropertyKey vName of
                  Inl e \<Rightarrow> Inl e
                | Inr sName \<Rightarrow>
                    (case lookup tbl sName of
                       Inl e \<Rightarrow> Inl e
                     | Inr None \<Rightarrow> facetsLoop facets rest oConstraints
                     | Inr (Some sKey) \<Rightarrow>
                         (case js_get oFacet ''Value'' of
                            Inl e \<Rightarrow> Inl e
                          | Inr vValue \<Rightarrow>
                              facetsLoop facets rest
                                (setConstraint oConstraints sKey vValue))))))"

text \<open>
  \<open>jQuery.sap.getObject\<close> and the classes \<open>sap.ui.model.odata.type.*\<close> are not part
  of the excerpt. \<open>newObject sType oConstraints\<close> stands for
  \<open>new (jQuery.sap.getObject(sType, 0))({}, oConstraints)\<close>: it gives the type object,
  or what is thrown when there is no class of that name or its constructor fails. The
  first argument of the constructor, the format options, is always \<open>{}\<close>; \<open>None\<close>
  is a constraints argument that is \<open>undefined\<close>.
\<close>

type_synonym 't newObject = "string \<Rightarrow> (string \<times> jsval) list option \<Rightarrow> jserr + 't"

text \<open>The callback that \<open>requestUI5Type\<close> applies to the object of the property.\<close>

definition ui5TypeOfProperty :: "'t newObject \<Rightarrow> string \<Rightarrow> jsval \<Rightarrow> jserr + 't" where
  "ui5TypeOfProperty newObject sPath oProperty =
     (case js_in ''Type'' oProperty of
        Inl e \<Rightarrow> Inl e
      | Inr bType \<Rightarrow>
     (case js_in ''Facets'' oProperty of
        Inl e \<Rightarrow> Inl e
      | Inr bFacets \<Rightarrow>
     (case js_in ''Nullable'' oProperty of
        Inl e \<Rightarrow> Inl e
      | Inr bNullable \<Rightarrow>
          if \<not> bType \<or> \<not> bFacets \<or> \<not> bNullable then Inl (error ''No property'' sPath)
          else
     (case js_get oProperty ''Type'' of
        Inl e \<Rightarrow> Inl e
      | Inr vType \<Rightarrow>
     (case js_get vType ''QualifiedName'' of
        Inl e \<Rightarrow> Inl e
      | Inr vQualifiedName \<Rightarrow>
     (case toPropertyKey vQualifiedName of
        Inl e \<Rightarrow> Inl e
      | Inr sQualifiedName \<Rightarrow>
     (case lookup mUi5TypeForEdmType sQualifiedName of
        Inl e \<Rightarrow> Inl e
      | Inr None \<Rightarrow> Inl (error (''Unsupported EDM type: '' @ sQualifiedName) sPath)
      | Inr (Some oUi5Type) \<Rightarrow>
     (case js_get oProperty ''Facets'' of
        Inl e \<Rightarrow> Inl e
      | Inr vFacets \<Rightarrow>
     (case facetsOf vFacets of
        Inl e \<Rightarrow> Inl e
      | Inr aFacets \<Rightarrow>
     (case facetsLoop (ui5_facets oUi5Type) aFacets None of
        Inl e \<Rightarrow> Inl e
      | Inr oConstraints \<Rightarrow>
     (case js_get oProperty ''Nullable'' of
        Inl e \<Rightarrow> Inl e
      | Inr vNullable \<Rightarrow>
          newObject (ui5_type oUi5Type)
            (if \<not> truthy vNullable
             then setConstraint oConstraints ''nullable'' (JBool False)
             else oConstraints))))))))))))"

text \<open>
  A promise's \<open>then\<close>: the callback runs on the value the promise is resolved with, and
  a callback that throws rejects the result; a function that threw before it had
  returned a promise hands nothing to \<open>then\<close>.
\<close>

definition requestUI5Type :: "'ctx metamodel \<Rightarrow> 't newObject \<Rightarrow> string \<Rightarrow> 't outcome" where
  "requestUI5Type that newObject sPath =
     (case snd (requestMetaContext that sPath) of
        Thrown e \<Rightarrow> Thrown e
      | Rejected e \<Rightarrow> Rejected e
      | Resolved oMetaContext \<Rightarrow>
          (case snd (requestObject that [] (Some oMetaContext)) of
             Thrown e \<Rightarrow> Rejected e
           | Rejected e \<Rightarrow> Rejected e
           | Resolved oProperty \<Rightarrow>
               (case ui5TypeOfProperty newObject sPath oProperty of
                  Inl e \<Rightarrow> Rejected e
                | Inr oType \<Rightarrow> Resolved oType)))"

section \<open>ODataMetaModel.prototype.requestCanonicalUrl\<close>


section \<open>ODataMetaModel: a sample service\<close>

text \<open>
  One implementation of the collaborators and one metadata document, on which the
  functions above are evaluated: the teams and employees of the source's comments.
\<close>

fun splitOn :: "char \<Rightarrow> string \<Rightarrow> string list" where
  "splitOn c [] = [[]]"
| "splitOn c (x # xs) =
     (if x = c then [] # splitOn c xs
      else case splitOn c xs of [] \<Rightarrow> [[x]] | w # ws \<Rightarrow> (x # w) # ws)"

definition sample_splitPath :: "string \<Rightarrow> jserr + string list" where
  "sample_splitPath sPath =
     (if sPath = ''/'' then Inr []
      else if sPath = [] \<or> hd sPath \<noteq> CHR ''/'' then Inl (error ''Not an absolute path'' sPath)
      else Inr (splitOn (CHR ''/'') (tl sPath)))"

definition sample_parseSegment :: "string \<Rightarrow> jserr + part" where
  "sample_parseSegment s =
     (let p = takeWhile (\<lambda>c. c \<noteq> CHR ''('') s; r = dropWhile (\<lambda>c. c \<noteq> CHR ''('') s
      in if r = [] then Inr \<lparr> segment = s, property = s, name = None \<rparr>
         else Inr \<lparr> segment = s, property = p, name = Some (take (length r - 4) (drop 2 r)) \<rparr>)"

definition sample_findInArray :: "jsval \<Rightarrow> string \<Rightarrow> jsval \<Rightarrow> jserr + jsval" where
  "sample_findInArray aArray sProperty vValue =
     (case aArray of
        JArr xs \<Rightarrow>
          Inr (case find (\<lambda>x. js_get x sProperty = Inr vValue) xs of
                 None \<Rightarrow> JUndefined
               | Some x \<Rightarrow> x)
      | JUndefined \<Rightarrow> Inl (TypeError ''Cannot read properties of undefined'')
      | JNull \<Rightarrow> Inl (TypeError ''Cannot read properties of null'')
      | _ \<Rightarrow> Inr JUndefined)"

definition sample_resolve :: "string \<Rightarrow> string option \<Rightarrow> string option" where
  "sample_resolve sPath oContext =
     (if sPath \<noteq> [] \<and> hd sPath = CHR ''/'' then Some sPath
      else case oContext of
             None \<Rightarrow> None
           | Some sContextPath \<Rightarrow>
               if sPath = [] then Some sContextPath else Some (sContextPath @ ''/'' @ sPath))"

definition placeholder :: "string \<Rightarrow> jsval" where
  \<comment> \<open>a type that is not resolved yet: an object with the one key \<open>QualifiedName\<close>\<close>
  "placeholder sQualifiedName = JObj [(''QualifiedName'', JStr sQualifiedName)]"

definition sample_property :: "string \<Rightarrow> string \<Rightarrow> (string \<times> int) list \<Rightarrow> bool \<Rightarrow> jsval" where
  "sample_property sName sType facets bNullable =
     JObj [(''Name'', JStr sName),
           (''Type'', placeholder sType),
           (''Facets'', JArr (map (\<lambda>(k, v). JObj [(''Name'', JStr k), (''Value'', JNum v)]) facets)),
           (''Nullable'', JBool bNullable)]"

definition sample_TEAM :: jsval where
  "sample_TEAM =
     JObj [(''QualifiedName'', JStr ''ns.TEAM''),
           (''Properties'',
              JArr [sample_property ''Team_Id'' ''Edm.String'' [(''MaxLength'', 10)] False,
                    sample_property ''Name'' ''Edm.String'' [(''MaxLength'', 40)] True,
                    sample_property ''Budget'' ''Edm.Decimal'' [(''Precision'', 16), (''Scale'', 2)] True,
                    sample_property ''Founded'' ''Edm.DateTimeOffset'' [] True]),
           (''NavigationProperties'',
              JArr [JObj [(''Name'', JStr ''TEAM_2_EMPLOYEES''),
                          (''Type'', placeholder ''ns.EMPLOYEE'')]])]"

definition sample_EMPLOYEE :: jsval where
  "sample_EMPLOYEE =
     JObj [(''QualifiedName'', JStr ''ns.EMPLOYEE''),
           (''Properties'',
              JArr [sample_property ''ID'' ''Edm.String'' [(''MaxLength'', 4)] False,
                    sample_property ''AGE'' ''Edm.Int16'' [(''Precision'', 3)] True,
                    sample_property ''ROOM'' ''Edm.Int32'' [] False]),
           (''NavigationProperties'',
              JArr [JObj [(''Name'', JStr ''EMPLOYEE_2_TEAM''),
                          (''Type'', placeholder ''ns.TEAM'')]])]"

definition sample_EMPLOYEES :: jsval where
  "sample_EMPLOYEES =
     JObj [(''Name'', JStr ''EMPLOYEES''),
           (''EntityType'', placeholder ''ns.EMPLOYEE''),
           (''NavigationPropertyBindings'', JArr [])]"

definition sample_TEAMS :: jsval where
  \<comment> \<open>an entity set whose type is resolved already\<close>
  "sample_TEAMS =
     JObj [(''Name'', JStr ''TEAMS''),
           (''EntityType'', sample_TEAM),
           (''NavigationPropertyBindings'',
              JArr [JObj [(''Name'', JStr ''TEAM_2_EMPLOYEES''),
                          (''Target'', sample_EMPLOYEES)]])]"

definition sample_container :: jsval where
  "sample_container =
     JObj [(''QualifiedName'', JStr ''ns.Container''),
           (''EntitySets'', JArr [sample_TEAMS, sample_EMPLOYEES]),
           (''Singletons'',
              JArr [JObj [(''Name'', JStr ''Me''),
                          (''Type'', placeholder ''ns.EMPLOYEE''),
                          (''NavigationPropertyBindings'', JArr [])]])]"

definition sample_requestType :: "jsval \<Rightarrow> string \<Rightarrow> jserr + jsval" where
  "sample_requestType oObject sProperty =
     (case js_get oObject sProperty of
        Inl e \<Rightarrow> Inl e
      | Inr vType \<Rightarrow>
          (case js_get vType ''QualifiedName'' of
             Inl e \<Rightarrow> Inl e
           | Inr vName \<Rightarrow>
               if vName = JStr ''ns.TEAM'' then Inr sample_TEAM
               else if vName = JStr ''ns.EMPLOYEE'' then Inr sample_EMPLOYEE
               else Inl (Error (''Type not found: '' @ toString vName))))"

definition sample_getKeyPredicate :: "jsval \<Rightarrow> jsval \<Rightarrow> jserr + string" where
  "sample_getKeyPredicate oEntityType oEntityInstance =
     (case js_get oEntityInstance ''ID'' of
        Inl e \<Rightarrow> Inl e
      | Inr vId \<Rightarrow> Inr (''(ID='' @ apostrophe @ toString vId @ apostrophe @ '')''))"

definition sample_model :: "string metamodel" where
  "sample_model =
     \<lparr> splitPath = sample_splitPath,
       parseSegment = sample_parseSegment,
       findInArray = sample_findInArray,
       requestEntityContainer = Inr sample_container,
       requestTypeForNavigationProperty = sample_requestType,
       getKeyPredicate = sample_getKeyPredicate,
       resolve = sample_resolve,
       getContext = (\<lambda>sMetaPath. sMetaPath),
       encodeURIComponent = (\<lambda>s. concat (map (\<lambda>c. if c = CHR '' '' then ''%20'' else [c]) s)) \<rparr>"

text \<open>
  The type object of the sample: the name of its class and the constraints it was
  constructed with. The sample has the classes of the package
  \<open>sap.ui.model.odata.type\<close> and no others.
\<close>

record ui5type =
  typeName :: string
  constraints :: "(string \<times> jsval) list option"

definition sample_newObject :: "ui5type newObject" where
  "sample_newObject sType oConstraints =
     (if take 24 sType = ''sap.ui.model.odata.type.''
      then Inr \<lparr> typeName = sType, constraints = oConstraints \<rparr>
      else Inl (TypeError ''undefined is not a constructor''))"

section \<open>ODataMetaModel: notions of the specification\<close>

text \<open>
  The constraints object as a map from keys to values; an \<open>undefined\<close> constraints
  argument has no key.
\<close>

definition amap :: "(string \<times> jsval) list option \<Rightarrow> string \<Rightarrow> jsval option" where
  "amap oConstraints = (case oConstraints of None \<Rightarrow> Map.empty | Some c \<Rightarrow> map_of c)"

text \<open>
  A facet is an object \<open>{Name, Value}\<close>. When several facets of a property have the
  same name, the constraint is the value of the last one.
\<close>

definition facetName :: "jsval \<Rightarrow> string" where
  "facetName oFacet = (case js_get oFacet ''Name'' of Inl e \<Rightarrow> [] | Inr v \<Rightarrow> toString v)"

definition facetKey :: "jsval \<Rightarrow> jsval" where
  \<comment> \<open>the value of \<open>Name\<close>, before it is converted to a string\<close>
  "facetKey oFacet = (case js_get oFacet ''Name'' of Inl e \<Rightarrow> JUndefined | Inr v \<Rightarrow> v)"

definition facetValue :: "jsval \<Rightarrow> jsval" where
  "facetValue oFacet = (case js_get oFacet ''Value'' of Inl e \<Rightarrow> JUndefined | Inr v \<Rightarrow> v)"

definition lastFacet :: "jsval list \<Rightarrow> string \<Rightarrow> jsval option" where
  "lastFacet aFacets sName =
     (case filter (\<lambda>f. facetName f = sName) aFacets of
        [] \<Rightarrow> None
      | xs \<Rightarrow> Some (facetValue (last xs)))"

text \<open>
  The constraints as the specification words them: \<open>Precision\<close> and \<open>Scale\<close> of an
  \<open>Edm.Decimal\<close>, \<open>MaxLength\<close> of an \<open>Edm.String\<close>, nothing from the facets of
  any other type, and \<open>nullable = false\<close> for a \<open>Nullable\<close> that is not truthy.
\<close>

definition spec_constraints :: "string \<Rightarrow> jsval list \<Rightarrow> jsval \<Rightarrow> string \<Rightarrow> jsval option" where
  "spec_constraints sType aFacets vNullable sKey =
     (if sType = ''Edm.Decimal'' \<and> sKey = ''precision'' then lastFacet aFacets ''Precision''
      else if sType = ''Edm.Decimal'' \<and> sKey = ''scale'' then lastFacet aFacets ''Scale''
      else if sType = ''Edm.String'' \<and> sKey = ''maxLength'' then lastFacet aFacets ''MaxLength''
      else if sKey = ''nullable'' \<and> \<not> truthy vNullable then Some (JBool False)
      else None)"

text \<open>
  A value that names a property of an object literal plainly: it is converted to a
  string as \<open>toString\<close> has it, and the string is not the name of a member that the
  object literal inherits from \<open>Object.prototype\<close>.
\<close>

definition plainKey :: "jsval \<Rightarrow> bool" where
  "plainKey v = (printable v \<and> toString v \<notin> set objectPrototype)"

text \<open>Neither \<open>undefined\<close> nor \<open>null\<close>: a value whose properties can be read.\<close>

definition isValue :: "jsval \<Rightarrow> bool" where
  "isValue v = (v \<noteq> JUndefined \<and> v \<noteq> JNull)"

text \<open>What the facets contribute under a table of facet names: the last value per key.\<close>

definition contrib :: "(string \<times> string) list \<Rightarrow> jsval list \<Rightarrow> string \<Rightarrow> jsval option" where
  "contrib tbl aFacets sKey =
     (case filter (\<lambda>f. map_of tbl (facetName f) = Some sKey) aFacets of
        [] \<Rightarrow> None
      | xs \<Rightarrow> Some (facetValue (last xs)))"

definition applicable :: "string \<Rightarrow> jsval \<Rightarrow> bool" where
  "applicable sType oFacet =
     ((sType = ''Edm.Decimal'' \<and> (facetName oFacet = ''Precision'' \<or> facetName oFacet = ''Scale''))
      \<or> (sType = ''Edm.String'' \<and> facetName oFacet = ''MaxLength''))"

text \<open>An object or an array: a value that \<open>in\<close> can be applied to.\<close>

definition isObject :: "jsval \<Rightarrow> bool" where
  "isObject v = (case v of JObj kvs \<Rightarrow> True | JArr xs \<Rightarrow> True | _ \<Rightarrow> False)"

text \<open>
  A metadata document with a property whose \<open>Type\<close> is \<open>null\<close>; its types are
  resolved already, so the loader hands back what is there.
\<close>

definition sample_broken :: "string metamodel" where
  "sample_broken =
     sample_model \<lparr> requestEntityContainer :=
       Inr (JObj [(''EntitySets'',
                   JArr [JObj [(''Name'', JStr ''ODDITIES''),
                               (''EntityType'',
                                  JObj [(''QualifiedName'', JStr ''ns.ODDITY''),
                                        (''Properties'',
                                           JArr [JObj [(''Name'', JStr ''NoType''),
                                                       (''Type'', JNull),
                                                       (''Facets'', JArr []),
                                                       (''Nullable'', JBool True)]])])]])]),
       requestTypeForNavigationProperty := js_get \<rparr>"


section \<open>ODataMetaModel: following a meta path, declaratively\<close>

text \<open>
  A type that is not resolved yet: a non-array object with exactly one own key.
\<close>

definition unresolved :: "jsval \<Rightarrow> bool" where
  "unresolved v = (case v of JObj kvs \<Rightarrow> length (remdups (map fst kvs)) = 1 | _ \<Rightarrow> False)"

text \<open>
  \<open>walk that aSegments oObject oResult\<close>: following all segments from \<open>oObject\<close>
  reaches \<open>oResult\<close>. A segment \<open>Property('Name')\<close> goes to the element of the
  array \<open>Property\<close> that is found under that name; any other segment goes to the value
  of the property, or to the type that is loaded for it when the value is not resolved
  yet.
\<close>

inductive walk :: "'ctx metamodel \<Rightarrow> string list \<Rightarrow> jsval \<Rightarrow> jsval \<Rightarrow> bool"
  for that :: "'ctx metamodel" where
  arrived: "walk that [] oObject oObject"
| named:
    "parseSegment that s = Inr oPart \<Longrightarrow> name oPart = Some sName \<Longrightarrow> sName \<noteq> [] \<Longrightarrow>
     js_in (property oPart) oObject = Inr True \<Longrightarrow>
     js_get oObject (property oPart) = Inr (JArr xs) \<Longrightarrow>
     findInArray that (JArr xs) ''Name'' (JStr sName) = Inr oFound \<Longrightarrow> truthy oFound \<Longrightarrow>
     walk that aSegments oFound oResult \<Longrightarrow>
     walk that (s # aSegments) oObject oResult"
| present:
    "parseSegment that s = Inr oPart \<Longrightarrow> name oPart = None \<or> name oPart = Some [] \<Longrightarrow>
     js_in (property oPart) oObject = Inr True \<Longrightarrow>
     js_get oObject (property oPart) = Inr oNextObject \<Longrightarrow>
     \<not> unresolved oNextObject \<Longrightarrow> oNextObject \<noteq> JNull \<Longrightarrow>
     walk that aSegments oNextObject oResult \<Longrightarrow>
     walk that (s # aSegments) oObject oResult"
| loaded:
    "parseSegment that s = Inr oPart \<Longrightarrow> name oPart = None \<or> name oPart = Some [] \<Longrightarrow>
     js_in (property oPart) oObject = Inr True \<Longrightarrow>
     js_get oObject (property oPart) = Inr oNextObject \<Longrightarrow>
     unresolved oNextObject \<Longrightarrow>
     requestTypeForNavigationProperty that oObject (property oPart) = Inr oType \<Longrightarrow>
     walk that aSegments oType oResult \<Longrightarrow>
     walk that (s # aSegments) oObject oResult"

text \<open>
  \<open>stepFails that sPath s oObject e\<close>: the segment \<open>s\<close> cannot be followed from
  \<open>oObject\<close>, and \<open>e\<close> is the error.
\<close>

inductive stepFails :: "'ctx metamodel \<Rightarrow> string \<Rightarrow> string \<Rightarrow> jsval \<Rightarrow> jserr \<Rightarrow> bool"
  for that :: "'ctx metamodel" and sPath :: string where
  unparsed: "parseSegment that s = Inl e \<Longrightarrow> stepFails that sPath s oObject e"
| primitive:
    "parseSegment that s = Inr oPart \<Longrightarrow> js_in (property oPart) oObject = Inl e \<Longrightarrow>
     stepFails that sPath s oObject e"
| absent:
    "parseSegment that s = Inr oPart \<Longrightarrow> js_in (property oPart) oObject = Inr False \<Longrightarrow>
     stepFails that sPath s oObject (Error (''Unknown '' @ segment oPart @ '': '' @ sPath))"
| not_array:
    "parseSegment that s = Inr oPart \<Longrightarrow> name oPart = Some sName \<Longrightarrow> sName \<noteq> [] \<Longrightarrow>
     js_in (property oPart) oObject = Inr True \<Longrightarrow>
     js_get oObject (property oPart) = Inr oNextObject \<Longrightarrow> \<not> isArray oNextObject \<Longrightarrow>
     stepFails that sPath s oObject
       (Error ([CHR 0x22] @ property oPart @ [CHR 0x22] @ '' is not an array: '' @ sPath))"
| search_failed:
    "parseSegment that s = Inr oPart \<Longrightarrow> name oPart = Some sName \<Longrightarrow> sName \<noteq> [] \<Longrightarrow>
     js_in (property oPart) oObject = Inr True \<Longrightarrow>
     js_get oObject (property oPart) = Inr (JArr xs) \<Longrightarrow>
     findInArray that (JArr xs) ''Name'' (JStr sName) = Inl e \<Longrightarrow>
     stepFails that sPath s oObject e"
| not_found:
    "parseSegment that s = Inr oPart \<Longrightarrow> name oPart = Some sName \<Longrightarrow> sName \<noteq> [] \<Longrightarrow>
     js_in (property oPart) oObject = Inr True \<Longrightarrow>
     js_get oObject (property oPart) = Inr (JArr xs) \<Longrightarrow>
     findInArray that (JArr xs) ''Name'' (JStr sName) = Inr oFound \<Longrightarrow> \<not> truthy oFound \<Longrightarrow>
     stepFails that sPath s oObject (Error (''Unknown '' @ segment oPart @ '': '' @ sPath))"
| null_value:
    "parseSegment that s = Inr oPart \<Longrightarrow> name oPart = None \<or> name oPart = Some [] \<Longrightarrow>
     js_in (property oPart) oObject = Inr True \<Longrightarrow>
     js_get oObject (property oPart) = Inr JNull \<Longrightarrow>
     stepFails that sPath s oObject (TypeError ''Cannot convert undefined or null to object'')"
| load_failed:
    "parseSegment that s = Inr oPart \<Longrightarrow> name oPart = None \<or> name oPart = Some [] \<Longrightarrow>
     js_in (property oPart) oObject = Inr True \<Longrightarrow>
     js_get oObject (property oPart) = Inr oNextObject \<Longrightarrow> unresolved oNextObject \<Longrightarrow>
     requestTypeForNavigationProperty that oObject (property oPart) = Inl e \<Longrightarrow>
     stepFails that sPath s oObject e"

text \<open>
  \<open>inheritedStep that s oObject\<close>: the segment \<open>s\<close> names a member that \<open>oObject\<close>
  inherits from its prototype. \<open>ownSteps that aSegments oObject\<close>: no segment does so
  at the object that the segments before it reach.
\<close>

definition inheritedStep :: "'ctx metamodel \<Rightarrow> string \<Rightarrow> jsval \<Rightarrow> bool" where
  "inheritedStep that s oObject =
     (\<exists>oPart. parseSegment that s = Inr oPart
              \<and> js_in (property oPart) oObject = Inl inheritedMember)"

definition ownSteps :: "'ctx metamodel \<Rightarrow> string list \<Rightarrow> jsval \<Rightarrow> bool" where
  "ownSteps that aSegments oObject =
     (\<forall>xs s ys oCurrent. aSegments = xs @ s # ys \<and> walk that xs oObject oCurrent
        \<longrightarrow> \<not> inheritedStep that s oCurrent)"

declare requestMetaContext_followPath.simps [simp del]

declare followBindings.simps [simp del]

text \<open>
  A load of the type of a property by \<open>requestMetaContext\<close>: \<open>Object.keys\<close> of the
  property's \<open>Type\<close> has length one.
\<close>

definition typeLoad :: "load \<Rightarrow> bool" where
  "typeLoad l = (snd l = ''Type'' \<and> (\<exists>v. js_get (fst l) ''Type'' = Inr v \<and> keysLength v = Inr 1))"

text \<open>
  The loads of one call of \<open>requestMetaContext\<close>: none, or the type of the entity set
  or singleton first, followed by loads of property types.
\<close>

definition contextLoads :: "load list \<Rightarrow> bool" where
  "contextLoads ls =
     (ls = [] \<or>
      (\<exists>oSet sProperty rest. ls = (oSet, sProperty) # rest
         \<and> (sProperty = ''EntityType'' \<or> sProperty = ''Type'') \<and> list_all typeLoad rest))"

text \<open>The property of the set or singleton that holds its type.\<close>

definition switchProperty :: "jsval \<times> string \<Rightarrow> string" where
  "switchProperty oResult = (if snd oResult = ''EntitySets'' then ''EntityType'' else ''Type'')"

text \<open>
  A metadata document with a property whose \<open>Type\<close> is an array of one element; its
  types are resolved already, so the loader hands back what is there.
\<close>

definition sample_tags :: jsval where
  "sample_tags =
     JObj [(''Name'', JStr ''Tags''),
           (''Type'', JArr [JObj [(''QualifiedName'', JStr ''Edm.String'')]]),
           (''Facets'', JArr []),
           (''Nullable'', JBool True)]"

definition sample_THINGS :: jsval where
  "sample_THINGS =
     JObj [(''Name'', JStr ''THINGS''),
           (''EntityType'',
              JObj [(''QualifiedName'', JStr ''ns.THING''),
                    (''Properties'', JArr [sample_tags])])]"

definition sample_things :: "string metamodel" where
  "sample_things =
     sample_model \<lparr> requestEntityContainer := Inr (JObj [(''EntitySets'', JArr [sample_THINGS])]),
                    requestTypeForNavigationProperty := js_get \<rparr>"

section \<open>ODataMetaModel: the meta path as the specification words it\<close>








section \<open>AdditionalElementsPlugin: data\<close>

text \<open>
  Controls, overlays and design time metadata objects are reference values of the
  framework; the plugin compares them by identity only, so each is a number.
\<close>

type_synonym elem = nat
type_synonym overlay = nat
type_synonym dtmd = nat

text \<open>
  The reveal action section of a design time metadata (the fields the plugin reads or
  writes). \<open>getAggregationName\<close> is a function of the metadata, or the default the
  plugin puts there when there is none.
\<close>

datatype aggregation_name_fn = DefaultGetAggregationName | OwnGetAggregationName nat

record reveal_action =
  ra_changeType :: "string option"
  ra_changeOnRelevantContainer :: bool
  ra_getAggregationName :: "aggregation_name_fn option"

text \<open>An entry of \<open>mReveal.elements\<close> (\<open>_invisibleToReveal\<close>).\<close>

record reveal_element =
  re_element :: elem
  re_designTimeMetadata :: dtmd
  re_action :: reveal_action

text \<open>\<open>mReveal\<close>: \<open>{elements: [], controlTypeNames: []}\<close>.\<close>

record reveal_data =
  elements :: "reveal_element list"
  controlTypeNames :: "string list"

text \<open>
  One entry of the action map, per aggregation: \<open>reveal\<close>, \<open>addViaDelegate\<close> and
  \<open>addViaCustom\<close> are each present or absent. The payload of the two add actions is
  opaque to the functions modelled here; \<open>isEnabled\<close> only tests them for truthiness,
  and an object is truthy.
\<close>

record ('d, 'c) agg_actions =
  reveal :: "reveal_data option"
  addViaDelegate :: "'d option"
  addViaCustom :: "'c option"

text \<open>
  A JavaScript object used as a map keeps its keys in insertion order; the action map is
  an association list with distinct keys, and \<open>m[k]\<close> is \<open>map_of m k\<close>
  (\<open>None\<close> for \<open>undefined\<close>).
\<close>

type_synonym ('d, 'c) actions_map = "(string \<times> ('d, 'c) agg_actions) list"

text \<open>\<open>oOverlay._mAddActions\<close>: \<open>{asSibling: ..., asChild: ...}\<close>.\<close>

record ('d, 'c) add_actions =
  aa_asSibling :: "('d, 'c) actions_map"
  aa_asChild :: "('d, 'c) actions_map"

text \<open>
  \<open>this._oCachedElements\<close> and \<open>this._oExtensibilityInfo\<close>: each is
  \<open>undefined\<close> or an object with the keys \<open>asSibling\<close> and \<open>asChild\<close>, each of
  which may be unset. A cached value is the list \<open>getAllElements\<close> stored: one entry
  per aggregation, \<open>{aggregation, elements}\<close>.
\<close>

record 'e elements_per_aggregation =
  epa_aggregation :: string
  epa_elements :: "'e list"

record 'v sibling_child =
  asSibling :: "'v option"
  asChild :: "'v option"

record ('e, 'x) plugin =
  oCachedElements :: "'e elements_per_aggregation list sibling_child option"
  oExtensibilityInfo :: "'x sibling_child option"

text \<open>
  The overlay tree and the part of the plugin base class that is not in the excerpt:
  \<open>getResponsibleElementOverlay\<close> is inherited from \<open>sap/ui/rta/plugin/Plugin\<close>; it is
  handed \<open>aElementOverlays[0]\<close>, which is \<open>undefined\<close> for an empty array, and may
  throw. \<open>getParentElementOverlay\<close> is a method of the overlay, \<open>_mAddActions\<close> a
  field the plugin itself writes on it.
\<close>

record ('d, 'c) overlays =
  getResponsibleElementOverlay :: "overlay option \<Rightarrow> jserr + overlay"
  getParentElementOverlay :: "overlay \<Rightarrow> overlay option"
  mAddActions :: "overlay \<Rightarrow> ('d, 'c) add_actions option"

section \<open>AdditionalElementsPlugin: cache accessors and isEnabled\<close>

definition pick :: "bool \<Rightarrow> 'v sibling_child \<Rightarrow> 'v option" where
  \<comment> \<open>\<open>o[bOverlayIsSibling ? "asSibling" : "asChild"]\<close>\<close>
  "pick bOverlayIsSibling c = (if bOverlayIsSibling then asSibling c else asChild c)"

definition getCachedElements ::
  "('e, 'x) plugin \<Rightarrow> bool \<Rightarrow> 'e elements_per_aggregation list option" where
  "getCachedElements this bOverlayIsSibling =
     (case oCachedElements this of
        None \<Rightarrow> None
      | Some c \<Rightarrow> pick bOverlayIsSibling c)"

definition getExtensibilityInfo :: "('e, 'x) plugin \<Rightarrow> bool \<Rightarrow> 'x option" where
  "getExtensibilityInfo this bOverlayIsSibling =
     (case oExtensibilityInfo this of
        None \<Rightarrow> None
      | Some c \<Rightarrow> pick bOverlayIsSibling c)"

definition getActionsOrUndef ::
  "('d, 'c) overlays \<Rightarrow> bool \<Rightarrow> overlay \<Rightarrow> ('d, 'c) actions_map option" where
  \<comment> \<open>\<open>oOverlay._mAddActions && oOverlay._mAddActions[sSiblingOrChild]\<close>\<close>
  "getActionsOrUndef ov bSibling oOverlay =
     (case mAddActions ov oOverlay of
        None \<Rightarrow> None
      | Some a \<Rightarrow> Some (if bSibling then aa_asSibling a else aa_asChild a))"

definition actionsEnabled :: "('d, 'c) agg_actions option \<Rightarrow> bool" where
  \<comment> \<open>the condition of the \<open>if\<close> in the child branch of \<open>isEnabled\<close>\<close>
  "actionsEnabled mActions =
     (case mActions of
        None \<Rightarrow> False
      | Some a \<Rightarrow>
          (case reveal a of Some r \<Rightarrow> length (elements r) > 0 | None \<Rightarrow> False)
          \<or> addViaCustom a \<noteq> None
          \<or> addViaDelegate a \<noteq> None)"

definition isEnabled ::
  "('d, 'c) overlays \<Rightarrow> ('e, 'x) plugin \<Rightarrow> bool \<Rightarrow> overlay list \<Rightarrow> string \<Rightarrow> jserr + bool" where
  "isEnabled ov this bOverlayIsSibling aElementOverlays sAggregationName =
     (if length aElementOverlays > 1 then Inr False
      else
        case getResponsibleElementOverlay ov
               (case aElementOverlays of [] \<Rightarrow> None | x # _ \<Rightarrow> Some x) of
          Inl e \<Rightarrow> Inl e
        | Inr oOverlay \<Rightarrow>
            (case
               (if bOverlayIsSibling
                then Inr (getParentElementOverlay ov oOverlay \<noteq> None)
                else
                  (case getActionsOrUndef ov bOverlayIsSibling oOverlay of
                     None \<Rightarrow> Inl (TypeError ''Cannot read properties of undefined'')
                   | Some mAllActions \<Rightarrow>
                       Inr (actionsEnabled (map_of mAllActions sAggregationName))))
             of
               Inl e \<Rightarrow> Inl e
             | Inr bIsEnabled \<Rightarrow>
                 (let oCachedElements = getCachedElements this bOverlayIsSibling;
                      bElementsAvailable =
                        (case oCachedElements of None \<Rightarrow> False | Some c \<Rightarrow> length c > 0)
                  in Inr (bIsEnabled \<and>
                          (bElementsAvailable
                           \<or> getExtensibilityInfo this bOverlayIsSibling \<noteq> None)))))"

section \<open>AdditionalElementsPlugin: getAllElements and the context menu\<close>

text \<open>
  The functions a menu item carries are closures over the arguments they were bound to;
  an item records those arguments. \<open>enabled\<close> of a top-level item is \<open>true\<close> when the
  item has a submenu, and the bound call of \<open>isEnabled\<close> otherwise.
\<close>

datatype enabled = Always | IsEnabled bool "string option"

record submenu_item =
  si_id :: string
  si_text :: string
  si_enabled :: "bool \<times> string"
  si_handler :: "bool \<times> string \<times> string"
  si_icon :: string

record 's menu_item =
  mi_id :: string
  mi_text :: "bool \<times> overlay option \<times> string option \<times> bool"
  mi_enabled :: enabled
  mi_rank :: nat
  mi_icon :: string
  mi_handler :: "(bool \<times> string option) option"
  mi_submenu :: "'s list option"

text \<open>
  What the menu needs of the modules that are not in the excerpt.
  \<open>isEditableByPlugin\<close> and \<open>enhanceItemWithResponsibleElement\<close> are inherited from
  the plugin base class; the latter is applied to top-level items and to submenu items,
  and what it returns is opaque here. \<open>getParents\<close> is the call of \<open>_getParents\<close> at
  the start of \<open>getAllElements\<close>, which reads the overlay tree and throws for a missing
  overlay. \<open>analyse\<close> is the promise chain of \<open>getAllElements\<close> from \<open>_getActions\<close>
  to the analyzer's answers: it is rejected before there is any extensibility
  information (by \<open>_getActions\<close>, by the callback that asks the analyzer or by
  \<open>handleExtensibility\<close>), or it yields that information, which the plugin stores,
  and then either is rejected by an answer of the analyzer or yields, per aggregation
  of the action map, the elements the analyzer found for it.
  \<open>getAggregationDisplayName\<close> is
  \<open>oElementOverlay.getDesignTimeMetadata().getAggregationDisplayName(...)\<close>, giving the
  singular name if there is one. The registration of the icon font in
  \<open>_buildSubmenuItems\<close> has no part in the result and is left out.
\<close>

record ('e, 'x, 'p, 's, 'm) menu_env =
  isEditableByPlugin :: "overlay \<Rightarrow> bool \<Rightarrow> bool"
  getParents :: "bool \<Rightarrow> overlay option \<Rightarrow> jserr + 'p"
  analyse :: "bool \<Rightarrow> overlay option \<Rightarrow> 'p
                \<Rightarrow> jserr + ('x option \<times> (jserr + 'e elements_per_aggregation list))"
  getAggregationDisplayName :: "overlay \<Rightarrow> string \<Rightarrow> jserr + string option"
  enhanceSubmenuItem :: "submenu_item \<Rightarrow> overlay list \<Rightarrow> string list \<Rightarrow> 's"
  enhanceMenuItem :: "'s menu_item \<Rightarrow> overlay list \<Rightarrow> string list \<Rightarrow> 'm"

definition clearCachedElements :: "('e, 'x) plugin \<Rightarrow> ('e, 'x) plugin" where
  "clearCachedElements this = this \<lparr> oCachedElements := None \<rparr>"

definition put :: "bool \<Rightarrow> 'v option \<Rightarrow> 'v sibling_child \<Rightarrow> 'v sibling_child" where
  \<comment> \<open>\<open>o[bOverlayIsSibling ? "asSibling" : "asChild"] = v\<close>\<close>
  "put bOverlayIsSibling v c = (if bOverlayIsSibling then c \<lparr> asSibling := v \<rparr> else c \<lparr> asChild := v \<rparr>)"

definition orEmpty :: "'v sibling_child option \<Rightarrow> 'v sibling_child" where
  \<comment> \<open>\<open>o || {}\<close>\<close>
  "orEmpty c = (case c of None \<Rightarrow> \<lparr> asSibling = None, asChild = None \<rparr> | Some c \<Rightarrow> c)"

definition setCachedElements ::
  "('e, 'x) plugin \<Rightarrow> 'e elements_per_aggregation list \<Rightarrow> bool \<Rightarrow> ('e, 'x) plugin" where
  "setCachedElements this aElements bOverlayIsSibling =
     this \<lparr> oCachedElements :=
              Some (put bOverlayIsSibling (Some aElements) (orEmpty (oCachedElements this))) \<rparr>"

definition clearExtensibilityInfo :: "('e, 'x) plugin \<Rightarrow> bool \<Rightarrow> ('e, 'x) plugin" where
  "clearExtensibilityInfo this bOverlayIsSibling =
     (case oExtensibilityInfo this of
        None \<Rightarrow> this
      | Some c \<Rightarrow> this \<lparr> oExtensibilityInfo := Some (put bOverlayIsSibling None c) \<rparr>)"

definition setExtensibilityInfo ::
  "('e, 'x) plugin \<Rightarrow> bool \<Rightarrow> 'x option \<Rightarrow> ('e, 'x) plugin" where
  "setExtensibilityInfo this bOverlayIsSibling oInfo =
     this \<lparr> oExtensibilityInfo :=
              Some (put bOverlayIsSibling oInfo (orEmpty (oExtensibilityInfo this))) \<rparr>"

definition first :: "'a list \<Rightarrow> 'a option" where
  \<comment> \<open>\<open>a[0]\<close>, \<open>undefined\<close> for an empty array\<close>
  "first xs = (case xs of [] \<Rightarrow> None | x # _ \<Rightarrow> Some x)"

definition combineAnalyzerResults ::
  "'e elements_per_aggregation list \<Rightarrow> 'e elements_per_aggregation list" where
  \<comment> \<open>the filter at the end of \<open>_combineAnalyzerResults\<close>: results without elements go\<close>
  "combineAnalyzerResults aElementsPerAggregation =
     filter (\<lambda>oElementsPerAggregation. length (epa_elements oElementsPerAggregation) > 0)
       aElementsPerAggregation"

text \<open>
  \<open>getAllElements\<close> returns the cached array itself when there is one, and a promise
  otherwise; \<open>Promise.all\<close> takes both, so the array counts as resolved. The plugin
  that is returned is the one after the promise has settled.
\<close>

definition getAllElements ::
  "('e, 'x, 'p, 's, 'm) menu_env \<Rightarrow> ('e, 'x) plugin \<Rightarrow> bool \<Rightarrow> overlay list
     \<Rightarrow> ('e, 'x) plugin \<times> 'e elements_per_aggregation list outcome" where
  "getAllElements env this bOverlayIsSibling aElementOverlays =
     (case getParents env bOverlayIsSibling (first aElementOverlays) of
        Inl e \<Rightarrow> (this, Thrown e)
      | Inr mParents \<Rightarrow>
          (case getCachedElements this bOverlayIsSibling of
             Some aCachedElements \<Rightarrow> (this, Resolved aCachedElements)
           | None \<Rightarrow>
               (case analyse env bOverlayIsSibling (first aElementOverlays) mParents of
                  Inl e \<Rightarrow> (clearExtensibilityInfo this bOverlayIsSibling, Rejected e)
                | Inr (oInfo, Inl e) \<Rightarrow>
                    (setExtensibilityInfo (clearExtensibilityInfo this bOverlayIsSibling)
                       bOverlayIsSibling oInfo,
                     Rejected e)
                | Inr (oInfo, Inr aElementsPerAggregation) \<Rightarrow>
                    (setCachedElements
                       (setExtensibilityInfo (clearExtensibilityInfo this bOverlayIsSibling)
                          bOverlayIsSibling oInfo)
                       (combineAnalyzerResults aElementsPerAggregation) bOverlayIsSibling,
                     Resolved (combineAnalyzerResults aElementsPerAggregation)))))"

definition isAvailable ::
  "('e, 'x, 'p, 's, 'm) menu_env \<Rightarrow> bool \<Rightarrow> overlay list \<Rightarrow> bool" where
  "isAvailable env bOverlayIsSibling aElementOverlays =
     list_all (\<lambda>oElementOverlay. isEditableByPlugin env oElementOverlay bOverlayIsSibling)
       aElementOverlays"

definition getMenuItemText ::
  "('e, 'x, 'p, 's, 'm) menu_env \<Rightarrow> ('d, 'c) overlays \<Rightarrow> bool \<Rightarrow> string \<Rightarrow> overlay list
     \<Rightarrow> jserr + string" where
  "getMenuItemText env ov bOverlayIsSibling sAggregationName aElementOverlays =
     (case first aElementOverlays of
        None \<Rightarrow> Inl (TypeError ''Cannot read properties of undefined'')
      | Some oFirst \<Rightarrow>
          (case (if bOverlayIsSibling then getParentElementOverlay ov oFirst else Some oFirst) of
             None \<Rightarrow> Inl (TypeError ''Cannot read properties of undefined'')
           | Some oElementOverlay \<Rightarrow>
               (case getAggregationDisplayName env oElementOverlay sAggregationName of
                  Inl e \<Rightarrow> Inl e
                | Inr None \<Rightarrow> Inr sAggregationName
                | Inr (Some sSingular) \<Rightarrow> Inr sSingular)))"

fun submenuItemsFrom ::
  "('e, 'x, 'p, 's, 'm) menu_env \<Rightarrow> ('d, 'c) overlays \<Rightarrow> bool \<Rightarrow> overlay list \<Rightarrow> nat
     \<Rightarrow> 's list \<Rightarrow> 'e elements_per_aggregation list \<Rightarrow> jserr + 's list" where
  "submenuItemsFrom env ov bOverlayIsSibling aElementOverlays iPosition aSubMenuItems [] =
     Inr aSubMenuItems"
| "submenuItemsFrom env ov bOverlayIsSibling aElementOverlays iPosition aSubMenuItems
     (mElementsWithAggregation # rest) =
     (case getMenuItemText env ov bOverlayIsSibling (epa_aggregation mElementsWithAggregation)
             aElementOverlays of
        Inl e \<Rightarrow> Inl e
      | Inr sDisplayText \<Rightarrow>
          submenuItemsFrom env ov bOverlayIsSibling aElementOverlays (iPosition + 1)
            (aSubMenuItems @
              [enhanceSubmenuItem env
                 \<lparr> si_id = (if bOverlayIsSibling then ''CTX_ADD_ELEMENTS_AS_SIBLING''
                            else ''CTX_ADD_ELEMENTS_AS_CHILD'') @ ''_'' @ natToString iPosition,
                   si_text = sDisplayText,
                   si_enabled = (bOverlayIsSibling, epa_aggregation mElementsWithAggregation),
                   si_handler = (bOverlayIsSibling, epa_aggregation mElementsWithAggregation,
                                 sDisplayText),
                   si_icon = (if bOverlayIsSibling
                              then ''sap-icon://BusinessSuiteInAppSymbols/icon-add-outside''
                              else ''sap-icon://add'') \<rparr>
                 aElementOverlays [''addViaDelegate'', ''reveal'', ''custom'']])
            rest)"

definition buildSubmenuItems ::
  "('e, 'x, 'p, 's, 'm) menu_env \<Rightarrow> ('d, 'c) overlays \<Rightarrow> bool \<Rightarrow> overlay list
     \<Rightarrow> 'e elements_per_aggregation list \<Rightarrow> jserr + 's list" where
  "buildSubmenuItems env ov bOverlayIsSibling aElementOverlays aElementsWithAggregation =
     submenuItemsFrom env ov bOverlayIsSibling aElementOverlays 0 [] aElementsWithAggregation"

definition buildMenuItem ::
  "('e, 'x, 'p, 's, 'm) menu_env \<Rightarrow> ('d, 'c) overlays \<Rightarrow> string \<Rightarrow> bool \<Rightarrow> overlay list
     \<Rightarrow> 'e elements_per_aggregation list \<times> 'e elements_per_aggregation list \<Rightarrow> bool
     \<Rightarrow> jserr + 's menu_item" where
  "buildMenuItem env ov sPluginId bOverlayIsSibling aElementOverlays aElementsWithAggregations
     bHasSubMenu =
     (let aRelevantElements = (if bOverlayIsSibling then snd aElementsWithAggregations
                               else fst aElementsWithAggregations);
          sAggregationName = map_option epa_aggregation (first aRelevantElements);
          oMenuItem = \<lparr> mi_id = sPluginId,
                        mi_text = (bOverlayIsSibling, first aElementOverlays, sAggregationName,
                                   bHasSubMenu),
                        mi_enabled = (if bHasSubMenu then Always
                                      else IsEnabled bOverlayIsSibling sAggregationName),
                        mi_rank = 20,
                        mi_icon = ''sap-icon://add'',
                        mi_handler = (if bHasSubMenu then None
                                      else Some (bOverlayIsSibling, sAggregationName)),
                        mi_submenu = None \<rparr>
      in if bHasSubMenu
         then
           (case buildSubmenuItems env ov False aElementOverlays (fst aElementsWithAggregations) of
              Inl e \<Rightarrow> Inl e
            | Inr aChildItems \<Rightarrow>
                if sPluginId = ''CTX_ADD_ELEMENTS_CHILD_AND_SIBLING''
                then
                  (case buildSubmenuItems env ov True aElementOverlays
                          (snd aElementsWithAggregations) of
                     Inl e \<Rightarrow> Inl e
                   | Inr aSiblingItems \<Rightarrow>
                       Inr (oMenuItem \<lparr> mi_submenu := Some (aChildItems @ aSiblingItems) \<rparr>))
                else Inr (oMenuItem \<lparr> mi_submenu := Some aChildItems \<rparr>))
         else Inr oMenuItem)"

text \<open>
  The callback of \<open>getMenuItems\<close>, given the two arrays of \<open>getAllElements\<close>: for
  children first, for siblings second. An exception in it rejects the promise.
\<close>

definition chooseMenuItem ::
  "('e, 'x, 'p, 's, 'm) menu_env \<Rightarrow> ('d, 'c) overlays \<Rightarrow> overlay list
     \<Rightarrow> 'e elements_per_aggregation list \<times> 'e elements_per_aggregation list
     \<Rightarrow> jserr + 's menu_item option" where
  "chooseMenuItem env ov aElementOverlays aElementsWithAggregations =
     (let bHasChildren = length (fst aElementsWithAggregations) > 0;
          bHasMultipleAggregations = length (fst aElementsWithAggregations) > 1;
          bHasSiblings = length (snd aElementsWithAggregations) > 0;
          bIsAvailableForChildren = isAvailable env False aElementOverlays;
          bIsAvailableForSibling = isAvailable env True aElementOverlays
      in if bIsAvailableForSibling \<and> (\<not> bIsAvailableForChildren \<or> \<not> bHasChildren)
         then map_sum id Some
                (buildMenuItem env ov ''CTX_ADD_ELEMENTS_AS_SIBLING'' True aElementOverlays
                   aElementsWithAggregations False)
         else if \<not> bIsAvailableForSibling \<and> bIsAvailableForChildren \<and> \<not> bHasMultipleAggregations
         then map_sum id Some
                (buildMenuItem env ov ''CTX_ADD_ELEMENTS_AS_CHILD'' False aElementOverlays
                   aElementsWithAggregations False)
         else if \<not> bIsAvailableForSibling \<and> bIsAvailableForChildren \<and> bHasMultipleAggregations
         then map_sum id Some
                (buildMenuItem env ov ''CTX_ADD_ELEMENTS_AS_CHILD'' False aElementOverlays
                   aElementsWithAggregations True)
         else if bIsAvailableForChildren \<and> bIsAvailableForSibling \<and> bHasChildren \<and> bHasSiblings
         then map_sum id Some
                (buildMenuItem env ov ''CTX_ADD_ELEMENTS_CHILD_AND_SIBLING'' False
                   aElementOverlays aElementsWithAggregations True)
         else Inr None)"

definition menuItemsFor ::
  "('e, 'x, 'p, 's, 'm) menu_env \<Rightarrow> ('d, 'c) overlays \<Rightarrow> overlay list
     \<Rightarrow> 'e elements_per_aggregation list \<times> 'e elements_per_aggregation list
     \<Rightarrow> jserr + 'm list" where
  "menuItemsFor env ov aElementOverlays aElementsWithAggregations =
     (case chooseMenuItem env ov aElementOverlays aElementsWithAggregations of
        Inl e \<Rightarrow> Inl e
      | Inr None \<Rightarrow> Inr []
      | Inr (Some oMenuItem) \<Rightarrow>
          Inr [enhanceMenuItem env oMenuItem aElementOverlays
                 [''addViaDelegate'', ''reveal'', ''custom'']])"

text \<open>
  \<open>getMenuItems\<close>. Both calls of \<open>getAllElements\<close> are made before either promise
  settles; the second is not made when the first throws. Each chain writes its own key
  of the caches only, so the plugin after both have settled is the one of running them
  one after the other. When both promises are rejected, \<open>Promise.all\<close> is rejected
  with the reason of the one rejected first, which \<open>bSiblingRejectsFirst\<close> tells.
\<close>

definition getMenuItems ::
  "('e, 'x, 'p, 's, 'm) menu_env \<Rightarrow> ('d, 'c) overlays \<Rightarrow> ('e, 'x) plugin \<Rightarrow> bool
     \<Rightarrow> overlay list \<Rightarrow> ('e, 'x) plugin \<times> 'm list outcome" where
  "getMenuItems env ov this bSiblingRejectsFirst aElementOverlays =
     (case getAllElements env (clearCachedElements this) False aElementOverlays of
        (this1, Thrown e) \<Rightarrow> (this1, Thrown e)
      | (this1, oChildren) \<Rightarrow>
          (case getAllElements env this1 True aElementOverlays of
             (this2, Thrown e) \<Rightarrow> (this2, Thrown e)
           | (this2, oSiblings) \<Rightarrow>
               (this2,
                case (oChildren, oSiblings) of
                  (Resolved aChildren, Resolved aSiblings) \<Rightarrow>
                    (case menuItemsFor env ov aElementOverlays (aChildren, aSiblings) of
                       Inl e \<Rightarrow> Rejected e
                     | Inr aMenuItems \<Rightarrow> Resolved aMenuItems)
                | (Rejected e, Resolved aSiblings) \<Rightarrow> Rejected e
                | (Resolved aChildren, Rejected e) \<Rightarrow> Rejected e
                | (Rejected eChildren, Rejected eSiblings) \<Rightarrow>
                    Rejected (if bSiblingRejectsFirst then eSiblings else eChildren)
                | (Thrown e, _) \<Rightarrow> Thrown e
                | (_, Thrown e) \<Rightarrow> Thrown e)))"

definition sample_menu_env :: "(unit, unit, unit, submenu_item, submenu_item menu_item) menu_env" where
  "sample_menu_env =
     \<lparr> isEditableByPlugin = (\<lambda>oElementOverlay bOverlayIsSibling. \<not> bOverlayIsSibling),
       getParents = (\<lambda>bSibling oOverlay.
          case oOverlay of None \<Rightarrow> Inl (TypeError ''undefined overlay'') | Some v \<Rightarrow> Inr ()),
       analyse = (\<lambda>bSibling oOverlay mParents.
          Inr (None,
               Inr (if bSibling then []
                    else [\<lparr> epa_aggregation = ''content'', epa_elements = [()] \<rparr>,
                          \<lparr> epa_aggregation = ''footer'', epa_elements = [] \<rparr>,
                          \<lparr> epa_aggregation = ''items'', epa_elements = [(), ()] \<rparr>]))),
       getAggregationDisplayName = (\<lambda>oElementOverlay sAggregationName.
          Inr (if sAggregationName = ''content'' then Some ''Content'' else None)),
       enhanceSubmenuItem = (\<lambda>oItem aElementOverlays aActions. oItem),
       enhanceMenuItem = (\<lambda>oItem aElementOverlays aActions. oItem) \<rparr>"

definition sample_children :: "unit elements_per_aggregation list" where
  "sample_children =
     [\<lparr> epa_aggregation = ''content'', epa_elements = [()] \<rparr>,
      \<lparr> epa_aggregation = ''items'', epa_elements = [(), ()] \<rparr>]"

definition sample_menu_plugin :: "bool \<Rightarrow> (unit, unit) plugin" where
  \<comment> \<open>the plugin after the first, and after both calls of \<open>getAllElements\<close>\<close>
  "sample_menu_plugin bBoth =
     \<lparr> oCachedElements =
         Some \<lparr> asSibling = (if bBoth then Some [] else None), asChild = Some sample_children \<rparr>,
       oExtensibilityInfo = Some \<lparr> asSibling = None, asChild = None \<rparr> \<rparr>"

section \<open>AdditionalElementsPlugin: creating the commands\<close>

text \<open>
  An element the user selected in the dialog: its label, its type and what identifies it
  (the element id or the property name). Labels are strings; \<open><\<close> and \<open>>\<close> compare
  two strings by their code units, position by position, a proper prefix being smaller.
\<close>

record selected_element =
  se_label :: string
  se_type :: string
  se_id :: nat

fun jsLess :: "string \<Rightarrow> string \<Rightarrow> bool" where
  "jsLess [] [] = False"
| "jsLess [] (y # ys) = True"
| "jsLess (x # xs) [] = False"
| "jsLess (x # xs) (y # ys) =
     ((of_char x :: nat) < of_char y \<or> x = y \<and> jsLess xs ys)"

definition compareLabels :: "selected_element \<Rightarrow> selected_element \<Rightarrow> int" where
  \<comment> \<open>the comparator handed to \<open>sort\<close>\<close>
  "compareLabels oElement1 oElement2 =
     (if jsLess (se_label oElement2) (se_label oElement1) then - 1
      else if jsLess (se_label oElement1) (se_label oElement2) then 1
      else 0)"

text \<open>
  \<open>Array.prototype.sort\<close> with a comparator is a stable sort: an element goes before
  those that follow it in the array unless the comparator puts it after them. It is
  written here as an insertion from the right end. The source sorts the array of the
  dialog in place; nothing else reads that array afterwards.
\<close>

fun arrayInsert :: "('a \<Rightarrow> 'a \<Rightarrow> int) \<Rightarrow> 'a \<Rightarrow> 'a list \<Rightarrow> 'a list" where
  "arrayInsert fnCompare x [] = [x]"
| "arrayInsert fnCompare x (y # ys) =
     (if fnCompare x y \<le> 0 then x # y # ys else y # arrayInsert fnCompare x ys)"

definition arraySort :: "('a \<Rightarrow> 'a \<Rightarrow> int) \<Rightarrow> 'a list \<Rightarrow> 'a list" where
  "arraySort fnCompare xs = foldr (arrayInsert fnCompare) xs []"

text \<open>
  The command factory and the lookups around its calls are not in the excerpt.
  \<open>getCommandFor\<close> is handed the name of the command and the selected element it is
  for; its promise is rejected, or resolves with a command or with \<open>undefined\<close>.
  The other fields are the reads of the overlay tree, of the action data and of the
  manifest that the functions make before they call the factory; each may throw.
  \<open>moveNeeded\<close> is the test of \<open>_createMoveCommandForInvisible\<close> (the target index
  differs from the source index, or the parent differs), \<open>libsMissing\<close> the one of
  \<open>_createCommandForAddLibrary\<close> (libraries are required and not among the
  dependencies of the application). \<open>propagateError\<close> is \<open>DtUtils.propagateError\<close>.
\<close>

record 'cmd command_env =
  getSelectedElements :: "selected_element list"
  getCommandFor :: "string \<Rightarrow> selected_element option \<Rightarrow> jserr + 'cmd option"
  revealData :: "selected_element \<Rightarrow> jserr + unit"
  moveNeeded :: "selected_element \<Rightarrow> jserr + bool"
  delegateData :: "jserr + unit"
  libsMissing :: "jserr + bool"
  delegateSettings :: "selected_element \<Rightarrow> jserr + unit"
  customSettings :: "selected_element \<Rightarrow> jserr + unit"
  propagateError :: "jserr \<Rightarrow> jserr"

text \<open>
  What \<open>_createCommands\<close> changes: the calls of the factory, in order; the commands
  added to the composite command, in order (\<open>None\<close> is an \<open>addCommand(undefined)\<close>);
  and the \<open>elementModified\<close> events fired, each with its composite command and the
  commands it then holds.
\<close>

record 'cmd command_state =
  cs_requests :: "(string \<times> selected_element option) list"
  cs_commands :: "'cmd option list"
  cs_fired :: "('cmd option \<times> 'cmd option list) list"

type_synonym ('cmd, 'a) step = "'cmd command_state \<Rightarrow> 'cmd command_state \<times> (jserr + 'a)"

definition andThen :: "('cmd, 'a) step \<Rightarrow> ('a \<Rightarrow> ('cmd, 'b) step) \<Rightarrow> ('cmd, 'b) step" where
  \<comment> \<open>\<open>p.then(f)\<close>: a rejection, or an exception in an earlier callback, skips \<open>f\<close>\<close>
  "andThen p f = (\<lambda>st. case p st of (st1, Inl e) \<Rightarrow> (st1, Inl e) | (st1, Inr v) \<Rightarrow> f v st1)"

definition now :: "jserr + 'a \<Rightarrow> ('cmd, 'a) step" where
  \<comment> \<open>a read that changes nothing\<close>
  "now r = (\<lambda>st. (st, r))"

definition request ::
  "'cmd command_env \<Rightarrow> string \<Rightarrow> selected_element option \<Rightarrow> ('cmd, 'cmd option) step" where
  "request env sName oSelectedElement =
     (\<lambda>st. (st \<lparr> cs_requests := cs_requests st @ [(sName, oSelectedElement)] \<rparr>,
            getCommandFor env sName oSelectedElement))"

definition addCommand :: "'cmd option \<Rightarrow> 'cmd option \<Rightarrow> ('cmd, unit) step" where
  \<comment> \<open>\<open>oCompositeCommand.addCommand(oCommand)\<close>\<close>
  "addCommand oCompositeCommand oCommand =
     (\<lambda>st. case oCompositeCommand of
             None \<Rightarrow> (st, Inl (TypeError ''Cannot read properties of undefined''))
           | Some c \<Rightarrow> (st \<lparr> cs_commands := cs_commands st @ [oCommand] \<rparr>, Inr ()))"

definition createRevealCommandForInvisible ::
  "'cmd command_env \<Rightarrow> selected_element \<Rightarrow> ('cmd, 'cmd option) step" where
  "createRevealCommandForInvisible env mSelectedElement =
     andThen (now (revealData env mSelectedElement))
       (\<lambda>_. request env ''reveal'' (Some mSelectedElement))"

definition createMoveCommandForInvisible ::
  "'cmd command_env \<Rightarrow> selected_element \<Rightarrow> ('cmd, 'cmd option) step" where
  "createMoveCommandForInvisible env oSelectedElement =
     andThen (now (moveNeeded env oSelectedElement))
       (\<lambda>bMove. if bMove then request env ''move'' (Some oSelectedElement) else now (Inr None))"

definition createCommandsForInvisibleElement ::
  "'cmd command_env \<Rightarrow> 'cmd option \<Rightarrow> selected_element \<Rightarrow> ('cmd, unit) step" where
  "createCommandsForInvisibleElement env oCompositeCommand oSelectedElement =
     andThen (createRevealCommandForInvisible env oSelectedElement)
       (\<lambda>oRevealCommandForInvisible.
          andThen (addCommand oCompositeCommand oRevealCommandForInvisible)
            (\<lambda>_. andThen (createMoveCommandForInvisible env oSelectedElement)
               (\<lambda>oMoveCommandForInvisible.
                  case oMoveCommandForInvisible of
                    Some c \<Rightarrow> addCommand oCompositeCommand oMoveCommandForInvisible
                  | None \<Rightarrow> now (Inr ()))))"

definition createCommandForAddLibrary :: "'cmd command_env \<Rightarrow> ('cmd, 'cmd option) step" where
  "createCommandForAddLibrary env =
     andThen (now (libsMissing env))
       (\<lambda>bLibsMissing. if bLibsMissing then request env ''addLibrary'' None else now (Inr None))"

definition createAddViaDelegateCommand ::
  "'cmd command_env \<Rightarrow> selected_element \<Rightarrow> ('cmd, 'cmd option) step" where
  "createAddViaDelegateCommand env oSelectedElement =
     andThen (now (delegateSettings env oSelectedElement))
       (\<lambda>_. request env ''addDelegateProperty'' (Some oSelectedElement))"

definition createCommandsForAddViaDelegate ::
  "'cmd command_env \<Rightarrow> 'cmd option \<Rightarrow> selected_element \<Rightarrow> ('cmd, unit) step" where
  "createCommandsForAddViaDelegate env oCompositeCommand oSelectedElement =
     andThen (now (delegateData env))
       (\<lambda>_. andThen (createCommandForAddLibrary env)
          (\<lambda>oCommandForAddLibrary.
             andThen (case oCommandForAddLibrary of
                        Some c \<Rightarrow> addCommand oCompositeCommand oCommandForAddLibrary
                      | None \<Rightarrow> now (Inr ()))
               (\<lambda>_. andThen (createAddViaDelegateCommand env oSelectedElement)
                  (\<lambda>oAddViaDelegateCommand.
                     case oAddViaDelegateCommand of
                       Some c \<Rightarrow> addCommand oCompositeCommand oAddViaDelegateCommand
                     | None \<Rightarrow> now (Inr ())))))"

definition createCommandsForCustomElement ::
  "'cmd command_env \<Rightarrow> 'cmd option \<Rightarrow> selected_element \<Rightarrow> ('cmd, unit) step" where
  "createCommandsForCustomElement env oCompositeCommand oSelectedElement =
     andThen (now (customSettings env oSelectedElement))
       (\<lambda>_. andThen (request env ''customAdd'' (Some oSelectedElement))
          (\<lambda>oCustomAddCommand.
             case oCustomAddCommand of
               Some c \<Rightarrow> addCommand oCompositeCommand oCustomAddCommand
             | None \<Rightarrow> now (Inr ())))"

text \<open>
  The \<open>forEach\<close> of \<open>_createCommands\<close> appends one callback per selected element to
  the promise; an element of another type appends none (an error is logged).
\<close>

definition createCommandsFor ::
  "'cmd command_env \<Rightarrow> 'cmd option \<Rightarrow> selected_element \<Rightarrow> ('cmd, unit) step" where
  "createCommandsFor env oCompositeCommand oSelectedElement =
     (if se_type oSelectedElement = ''invisible''
      then createCommandsForInvisibleElement env oCompositeCommand oSelectedElement
      else if se_type oSelectedElement = ''delegate''
      then createCommandsForAddViaDelegate env oCompositeCommand oSelectedElement
      else if se_type oSelectedElement = ''custom''
      then createCommandsForCustomElement env oCompositeCommand oSelectedElement
      else now (Inr ()))"

fun forEachSelected ::
  "'cmd command_env \<Rightarrow> 'cmd option \<Rightarrow> ('cmd, unit) step \<Rightarrow> selected_element list
     \<Rightarrow> ('cmd, unit) step" where
  "forEachSelected env oCompositeCommand oPromise [] = oPromise"
| "forEachSelected env oCompositeCommand oPromise (oSelectedElement # rest) =
     forEachSelected env oCompositeCommand
       (andThen oPromise (\<lambda>_. createCommandsFor env oCompositeCommand oSelectedElement)) rest"

definition newComposite :: "('cmd, unit) step" where
  \<comment> \<open>the composite command the factory has just made holds no commands\<close>
  "newComposite = (\<lambda>st. (st \<lparr> cs_commands := [] \<rparr>, Inr ()))"

definition fireElementModified :: "'cmd option \<Rightarrow> ('cmd, unit) step" where
  "fireElementModified oCompositeCommand =
     (\<lambda>st. (st \<lparr> cs_fired := cs_fired st @ [(oCompositeCommand, cs_commands st)] \<rparr>, Inr ()))"

definition createCommands ::
  "'cmd command_env \<Rightarrow> 'cmd command_state \<Rightarrow> 'cmd command_state \<times> unit outcome" where
  "createCommands env st =
     (let aSelectedElements = arraySort compareLabels (getSelectedElements env)
      in if length aSelectedElements > 0
         then
           (case andThen (request env ''composite'' None)
                   (\<lambda>oCompositeCommand.
                      andThen (forEachSelected env oCompositeCommand newComposite
                                 aSelectedElements)
                        (\<lambda>_. fireElementModified oCompositeCommand))
                   st of
              (st1, Inl vMessage) \<Rightarrow> (st1, Rejected (propagateError env vMessage))
            | (st1, Inr _) \<Rightarrow> (st1, Resolved ()))
         else (st, Resolved ()))"

section \<open>AdditionalElementsPlugin: the commands as the specification words them\<close>

definition answer ::
  "'cmd command_env \<Rightarrow> string \<Rightarrow> selected_element option \<Rightarrow> 'cmd option" where
  \<comment> \<open>the command the factory resolves with, if any\<close>
  "answer env sName oSelectedElement =
     (case getCommandFor env sName oSelectedElement of Inl e \<Rightarrow> None | Inr oCommand \<Rightarrow> oCommand)"

definition given :: "'cmd option \<Rightarrow> 'cmd option list" where
  \<comment> \<open>a command that is added only if there is one\<close>
  "given oCommand = (case oCommand of None \<Rightarrow> [] | Some c \<Rightarrow> [oCommand])"

text \<open>
  What one selected element contributes to the composite command: an invisible element
  its reveal command and then, when a move is needed, its move command; a delegate
  element the add-library command when libraries are missing, and then its
  \<open>addDelegateProperty\<close> command; a custom element its \<open>customAdd\<close> command; an
  element of another type nothing.
\<close>

definition commandsOf :: "'cmd command_env \<Rightarrow> selected_element \<Rightarrow> 'cmd option list" where
  "commandsOf env oSelectedElement =
     (if se_type oSelectedElement = ''invisible''
      then answer env ''reveal'' (Some oSelectedElement)
             # (if moveNeeded env oSelectedElement = Inr True
                then given (answer env ''move'' (Some oSelectedElement)) else [])
      else if se_type oSelectedElement = ''delegate''
      then (if libsMissing env = Inr True then given (answer env ''addLibrary'' None) else [])
             @ given (answer env ''addDelegateProperty'' (Some oSelectedElement))
      else if se_type oSelectedElement = ''custom''
      then given (answer env ''customAdd'' (Some oSelectedElement))
      else [])"

text \<open>The calls of the factory made for one selected element, in order.\<close>

definition requestsOf ::
  "'cmd command_env \<Rightarrow> selected_element \<Rightarrow> (string \<times> selected_element option) list" where
  "requestsOf env oSelectedElement =
     (if se_type oSelectedElement = ''invisible''
      then (''reveal'', Some oSelectedElement)
             # (if moveNeeded env oSelectedElement = Inr True
                then [(''move'', Some oSelectedElement)] else [])
      else if se_type oSelectedElement = ''delegate''
      then (if libsMissing env = Inr True then [(''addLibrary'', None)] else [])
             @ [(''addDelegateProperty'', Some oSelectedElement)]
      else if se_type oSelectedElement = ''custom''
      then [(''customAdd'', Some oSelectedElement)]
      else [])"

definition succeeds :: "jserr + 'a \<Rightarrow> bool" where
  "succeeds r = (case r of Inl e \<Rightarrow> False | Inr v \<Rightarrow> True)"

text \<open>
  Nothing fails for a selected element: the reads that its type asks for do not throw
  and the promises of the factory calls made for it are not rejected.
\<close>

definition creatable :: "'cmd command_env \<Rightarrow> selected_element \<Rightarrow> bool" where
  "creatable env oSelectedElement =
     (if se_type oSelectedElement = ''invisible''
      then succeeds (revealData env oSelectedElement)
           \<and> succeeds (getCommandFor env ''reveal'' (Some oSelectedElement))
           \<and> succeeds (moveNeeded env oSelectedElement)
           \<and> (moveNeeded env oSelectedElement \<noteq> Inr True
                \<or> succeeds (getCommandFor env ''move'' (Some oSelectedElement)))
      else if se_type oSelectedElement = ''delegate''
      then succeeds (delegateData env)
           \<and> succeeds (libsMissing env)
           \<and> (libsMissing env \<noteq> Inr True \<or> succeeds (getCommandFor env ''addLibrary'' None))
           \<and> succeeds (delegateSettings env oSelectedElement)
           \<and> succeeds (getCommandFor env ''addDelegateProperty'' (Some oSelectedElement))
      else if se_type oSelectedElement = ''custom''
      then succeeds (customSettings env oSelectedElement)
           \<and> succeeds (getCommandFor env ''customAdd'' (Some oSelectedElement))
      else True)"

definition sample_selection :: "selected_element list" where
  "sample_selection =
     [\<lparr> se_label = ''Beta'', se_type = ''invisible'', se_id = 1 \<rparr>,
      \<lparr> se_label = ''Alpha'', se_type = ''custom'', se_id = 2 \<rparr>,
      \<lparr> se_label = ''Gamma'', se_type = ''delegate'', se_id = 3 \<rparr>,
      \<lparr> se_label = ''Alpha'', se_type = ''invisible'', se_id = 4 \<rparr>]"

definition sample_command_env :: "string command_env" where
  \<comment> \<open>a command is the name of its kind and the label it is for; only \<open>Beta\<close> has to move\<close>
  "sample_command_env =
     \<lparr> getSelectedElements = sample_selection,
       getCommandFor = (\<lambda>sName oSelectedElement.
          Inr (Some (sName @ (case oSelectedElement of None \<Rightarrow> []
                               | Some x \<Rightarrow> '' '' @ se_label x)))),
       revealData = (\<lambda>x. Inr ()),
       moveNeeded = (\<lambda>x. Inr (se_label x = ''Beta'')),
       delegateData = Inr (),
       libsMissing = Inr True,
       delegateSettings = (\<lambda>x. Inr ()),
       customSettings = (\<lambda>x. Inr ()),
       propagateError = (\<lambda>e. e) \<rparr>"

definition sample_command_state :: "string command_state" where
  "sample_command_state = \<lparr> cs_requests = [], cs_commands = [], cs_fired = [] \<rparr>"

definition descending :: "selected_element list \<Rightarrow> bool" where
  \<comment> \<open>no element has a smaller label than one that comes after it\<close>
  "descending xs = sorted_wrt (\<lambda>a b. \<not> jsLess (se_label a) (se_label b)) xs"

section \<open>AdditionalElementsPlugin: the action map\<close>

text \<open>
  What the computation of the actions needs of the modules that are not in the excerpt:
  the overlay registry (\<open>getOverlay\<close>), the overlays (\<open>getDesignTimeMetadata\<close>,
  \<open>getRelevantContainer\<close>, handed \<open>false\<close> or no argument), the design time metadata
  (\<open>getAction("reveal", ...)\<close>, \<open>getName\<close>) and the plugin base class
  (\<open>hasChangeHandler\<close>, whose promise may be rejected, and \<open>hasStableId\<close>, which is
  also handed \<open>undefined\<close>).

  \<open>getInvisibleElements\<close> stands for \<open>_getInvisibleElements\<close>, the invisible controls
  of an aggregation of a parent overlay, and \<open>revealScope\<close> for the first half of
  \<open>_getRevealActions\<close>: the parent overlays and the names of the aggregations to look
  at, both read off the overlay tree; either may throw. \<open>getAddViaDelegateActions\<close> and
  \<open>getCustomAddActions\<close> stand for the functions of these names, which read the
  design time metadata and the delegates: each throws, or returns a promise that is
  rejected or resolves with an object that has, per aggregation, nothing but the key
  \<open>addViaDelegate\<close> (\<open>addViaCustom\<close>), so the object is given as the list of
  these values. \<open>checkInvalidAddActions\<close> only logs, unless it throws.
\<close>

record ('d, 'c) action_env =
  getOverlay :: "elem \<Rightarrow> overlay option"
  getDesignTimeMetadata :: "overlay \<Rightarrow> dtmd option"
  getRevealAction :: "dtmd \<Rightarrow> elem \<Rightarrow> reveal_action option"
  getName :: "dtmd \<Rightarrow> elem \<Rightarrow> string option"
  getRelevantContainer :: "overlay \<Rightarrow> bool option \<Rightarrow> elem"
  hasChangeHandler :: "string \<Rightarrow> elem \<Rightarrow> jserr + bool"
  hasStableId :: "overlay option \<Rightarrow> bool"
  getInvisibleElements :: "overlay \<Rightarrow> string \<Rightarrow> jserr + elem list"
  revealScope :: "bool \<Rightarrow> overlay \<Rightarrow> jserr + (overlay option list \<times> string list)"
  getAddViaDelegateActions :: "bool \<Rightarrow> overlay \<Rightarrow> (string \<times> 'd) list outcome"
  getCustomAddActions :: "bool \<Rightarrow> overlay \<Rightarrow> (string \<times> 'c) list outcome"
  checkInvalidAddActions :: "bool \<Rightarrow> overlay \<Rightarrow> jserr + unit"

definition revealSelector :: "('d, 'c) action_env \<Rightarrow> overlay \<Rightarrow> reveal_action \<Rightarrow> elem \<Rightarrow> elem" where
  \<comment> \<open>\<open>oRevealSelector\<close>\<close>
  "revealSelector env oOverlay mRevealAction oInvisibleElement =
     (if ra_changeOnRelevantContainer mRevealAction
      then getRelevantContainer env oOverlay None
      else oInvisibleElement)"

definition parentsHaveStableIds ::
  "('d, 'c) action_env \<Rightarrow> ('d, 'c) overlays \<Rightarrow> overlay \<Rightarrow> bool" where
  \<comment> \<open>\<open>_getParents(true, oOverlay)\<close> without a plugin, and the two tests on its result\<close>
  "parentsHaveStableIds env ov oOverlay =
     (hasStableId env (getOverlay env (getRelevantContainer env oOverlay (Some False)))
      \<and> hasStableId env (getParentElementOverlay ov oOverlay))"

definition withAggregationName :: "reveal_action \<Rightarrow> reveal_action" where
  \<comment> \<open>\<open>if (!mRevealAction.getAggregationName) { mRevealAction.getAggregationName = ... }\<close>\<close>
  "withAggregationName mRevealAction =
     (case ra_getAggregationName mRevealAction of
        None \<Rightarrow> mRevealAction \<lparr> ra_getAggregationName := Some DefaultGetAggregationName \<rparr>
      | Some f \<Rightarrow> mRevealAction)"

definition pushRevealed ::
  "('d, 'c) action_env \<Rightarrow> reveal_data \<Rightarrow> elem \<Rightarrow> dtmd \<Rightarrow> reveal_action \<Rightarrow> reveal_data" where
  \<comment> \<open>the two \<open>push\<close> of \<open>_invisibleToReveal\<close>\<close>
  "pushRevealed env mReveal oInvisibleElement oDesignTimeMetadata mRevealAction =
     \<lparr> elements = elements mReveal
         @ [\<lparr> re_element = oInvisibleElement,
               re_designTimeMetadata = oDesignTimeMetadata,
               re_action = mRevealAction \<rparr>],
       controlTypeNames = controlTypeNames mReveal
         @ (case getName env oDesignTimeMetadata oInvisibleElement of
              None \<Rightarrow> [] | Some mName \<Rightarrow> [mName]) \<rparr>"

definition invisibleToReveal ::
  "('d, 'c) action_env \<Rightarrow> ('d, 'c) overlays \<Rightarrow> reveal_data \<Rightarrow> elem \<Rightarrow> jserr + reveal_data" where
  "invisibleToReveal env ov mReveal oInvisibleElement =
     (case getOverlay env oInvisibleElement of
        None \<Rightarrow> Inr mReveal
      | Some oOverlay \<Rightarrow>
          (case getDesignTimeMetadata env oOverlay of
             None \<Rightarrow> Inr mReveal
           | Some oDesignTimeMetadata \<Rightarrow>
               (case getRevealAction env oDesignTimeMetadata oInvisibleElement of
                  None \<Rightarrow> Inr mReveal
                | Some mRevealAction \<Rightarrow>
                    (case ra_changeType mRevealAction of
                       None \<Rightarrow> Inr mReveal
                     | Some sChangeType \<Rightarrow>
                         if sChangeType = [] then Inr mReveal
                         else
                           (case hasChangeHandler env sChangeType
                                   (revealSelector env oOverlay mRevealAction
                                      oInvisibleElement) of
                              Inl e \<Rightarrow> Inl e
                            | Inr bHasChangeHandler \<Rightarrow>
                                if bHasChangeHandler
                                   \<and> (if ra_changeOnRelevantContainer mRevealAction
                                       then parentsHaveStableIds env ov oOverlay else True)
                                then Inr (pushRevealed env mReveal oInvisibleElement
                                            oDesignTimeMetadata
                                            (withAggregationName mRevealAction))
                                else Inr mReveal)))))"

fun invisibleChildren ::
  "('d, 'c) action_env \<Rightarrow> string \<Rightarrow> elem list \<Rightarrow> overlay option list \<Rightarrow> jserr + elem list" where
  "invisibleChildren env sAggregationName aInvisibleChildren [] = Inr aInvisibleChildren"
| "invisibleChildren env sAggregationName aInvisibleChildren (oParentOverlay # rest) =
     (case oParentOverlay of
        None \<Rightarrow> invisibleChildren env sAggregationName aInvisibleChildren rest
      | Some oParent \<Rightarrow>
          (case getInvisibleElements env oParent sAggregationName of
             Inl e \<Rightarrow> Inl e
           | Inr aFound \<Rightarrow>
               invisibleChildren env sAggregationName (aInvisibleChildren @ aFound) rest))"

fun revealAll ::
  "('d, 'c) action_env \<Rightarrow> ('d, 'c) overlays \<Rightarrow> reveal_data \<Rightarrow> elem list \<Rightarrow> jserr + reveal_data" where
  "revealAll env ov mReveal [] = Inr mReveal"
| "revealAll env ov mReveal (oInvisibleElement # rest) =
     (case invisibleToReveal env ov mReveal oInvisibleElement of
        Inl e \<Rightarrow> Inl e
      | Inr mNext \<Rightarrow> revealAll env ov mNext rest)"

text \<open>
  The object \<open>_mReveal\<close> is the one that the chain of \<open>_getRevealActions\<close> hands on
  from aggregation to aggregation; an entry is \<open>{reveal: mReveal}\<close> and is given as
  its \<open>mReveal\<close>.
\<close>

definition getRevealActionFromAggregations ::
  "('d, 'c) action_env \<Rightarrow> ('d, 'c) overlays \<Rightarrow> overlay option list
     \<Rightarrow> (string \<times> reveal_data) list \<Rightarrow> string \<Rightarrow> jserr + (string \<times> reveal_data) list" where
  "getRevealActionFromAggregations env ov aParents mRevealMap sAggregationName =
     (case invisibleChildren env sAggregationName [] aParents of
        Inl e \<Rightarrow> Inl e
      | Inr aInvisibleElements \<Rightarrow>
          (case revealAll env ov \<lparr> elements = [], controlTypeNames = [] \<rparr> aInvisibleElements of
             Inl e \<Rightarrow> Inl e
           | Inr mReveal \<Rightarrow>
               if length (elements mReveal) > 0
               then Inr (AList.update sAggregationName mReveal mRevealMap)
               else Inr mRevealMap))"

fun revealActionsOf ::
  "('d, 'c) action_env \<Rightarrow> ('d, 'c) overlays \<Rightarrow> overlay option list
     \<Rightarrow> (string \<times> reveal_data) list \<Rightarrow> string list \<Rightarrow> jserr + (string \<times> reveal_data) list" where
  "revealActionsOf env ov aParents mRevealMap [] = Inr mRevealMap"
| "revealActionsOf env ov aParents mRevealMap (sAggregationName # rest) =
     (case getRevealActionFromAggregations env ov aParents mRevealMap sAggregationName of
        Inl e \<Rightarrow> Inl e
      | Inr mNext \<Rightarrow> revealActionsOf env ov aParents mNext rest)"

definition getRevealActions ::
  "('d, 'c) action_env \<Rightarrow> ('d, 'c) overlays \<Rightarrow> bool \<Rightarrow> overlay
     \<Rightarrow> (string \<times> reveal_data) list outcome" where
  "getRevealActions env ov bSibling oSourceElementOverlay =
     (case revealScope env bSibling oSourceElementOverlay of
        Inl e \<Rightarrow> Thrown e
      | Inr (aParents, aAggregationNames) \<Rightarrow>
          (case revealActionsOf env ov aParents [] aAggregationNames of
             Inl e \<Rightarrow> Rejected e
           | Inr mRevealMap \<Rightarrow> Resolved mRevealMap))"

text \<open>
  Modelled from the spec: \<open>sap/base/util/merge\<close> is not in the excerpt. The three
  objects are merged per aggregation: the result has the keys of the three, in the
  order of their first appearance, and the entry of a key has the \<open>reveal\<close>, the
  \<open>addViaDelegate\<close> and the \<open>addViaCustom\<close> that the three objects have for it.
\<close>

definition mergeActions ::
  "(string \<times> reveal_data) list \<Rightarrow> (string \<times> 'd) list \<Rightarrow> (string \<times> 'c) list
     \<Rightarrow> ('d, 'c) actions_map" where
  "mergeActions mRevealMap mDelegate mCustom =
     map (\<lambda>sAggregationName.
            (sAggregationName,
             \<lparr> reveal = map_of mRevealMap sAggregationName,
               addViaDelegate = map_of mDelegate sAggregationName,
               addViaCustom = map_of mCustom sAggregationName \<rparr>))
       (rev (remdups (rev (map fst mRevealMap @ map fst mDelegate @ map fst mCustom))))"

definition storeActions ::
  "('d, 'c) overlays \<Rightarrow> overlay \<Rightarrow> bool \<Rightarrow> ('d, 'c) actions_map \<Rightarrow> ('d, 'c) overlays" where
  \<comment> \<open>\<open>o._mAddActions = o._mAddActions || {asSibling: {}, asChild: {}}; o._mAddActions[s] = m\<close>\<close>
  "storeActions ov oOverlay bSibling mAllActions =
     (let mOld = (case mAddActions ov oOverlay of
                    None \<Rightarrow> \<lparr> aa_asSibling = [], aa_asChild = [] \<rparr>
                  | Some m \<Rightarrow> m)
      in ov \<lparr> mAddActions := (mAddActions ov)
                (oOverlay := Some (if bSibling then mOld \<lparr> aa_asSibling := mAllActions \<rparr>
                                   else mOld \<lparr> aa_asChild := mAllActions \<rparr>)) \<rparr>)"

definition rejections :: "'a outcome \<Rightarrow> jserr list" where
  "rejections r = (case r of Rejected e \<Rightarrow> [e] | _ \<Rightarrow> [])"

text \<open>
  \<open>_getActions\<close>. The three computations are started one after the other inside the
  executor of the promise; an exception of one of them, or of
  \<open>_checkInvalidAddActions\<close>, rejects the promise before the next is started. When
  several of the three promises are rejected, \<open>Promise.all\<close> is rejected with the
  reason of the one rejected first, which \<open>iFirst\<close> picks.
\<close>

definition getActions ::
  "('d, 'c) action_env \<Rightarrow> ('d, 'c) overlays \<Rightarrow> bool \<Rightarrow> overlay \<Rightarrow> bool \<Rightarrow> nat
     \<Rightarrow> ('d, 'c) overlays \<times> ('d, 'c) actions_map outcome" where
  "getActions env ov bSibling oSourceElementOverlay bInvalidate iFirst =
     (case (if bInvalidate then None else mAddActions ov oSourceElementOverlay) of
        Some mStored \<Rightarrow>
          (ov, Resolved (if bSibling then aa_asSibling mStored else aa_asChild mStored))
      | None \<Rightarrow>
          (case getRevealActions env ov bSibling oSourceElementOverlay of
             Thrown e \<Rightarrow> (ov, Rejected e)
           | oRevealActions \<Rightarrow>
               (case getAddViaDelegateActions env bSibling oSourceElementOverlay of
                  Thrown e \<Rightarrow> (ov, Rejected e)
                | oAddPropertyActions \<Rightarrow>
                    (case getCustomAddActions env bSibling oSourceElementOverlay of
                       Thrown e \<Rightarrow> (ov, Rejected e)
                     | oCustomAddActions \<Rightarrow>
                         (case checkInvalidAddActions env bSibling oSourceElementOverlay of
                            Inl e \<Rightarrow> (ov, Rejected e)
                          | Inr _ \<Rightarrow>
                              (case (oRevealActions, oAddPropertyActions, oCustomAddActions) of
                                 (Resolved mRevealMap, Resolved mDelegate, Resolved mCustom) \<Rightarrow>
                                   (storeActions ov oSourceElementOverlay bSibling
                                      (mergeActions mRevealMap mDelegate mCustom),
                                    Resolved (mergeActions mRevealMap mDelegate mCustom))
                               | _ \<Rightarrow>
                                   (let aReasons = rejections oRevealActions
                                          @ rejections oAddPropertyActions
                                          @ rejections oCustomAddActions
                                    in (ov, Rejected (aReasons ! (iFirst mod length aReasons))))))))))"

section \<open>AdditionalElementsPlugin: the action map as the specification words it\<close>

text \<open>The invisible elements of an aggregation, over all the parents looked at.\<close>

definition invisibleOf ::
  "('d, 'c) action_env \<Rightarrow> overlay option list \<Rightarrow> string \<Rightarrow> elem list" where
  "invisibleOf env aParents sAggregationName =
     concat (map (\<lambda>oParentOverlay.
                    case oParentOverlay of
                      None \<Rightarrow> []
                    | Some oParent \<Rightarrow>
                        (case getInvisibleElements env oParent sAggregationName of
                           Inl e \<Rightarrow> [] | Inr aFound \<Rightarrow> aFound))
               aParents)"

text \<open>
  An invisible element passes the checks: it has an overlay with design time metadata
  and a reveal action with a change type, there is a change handler for that change
  type, and, when the change is made on the relevant container, the relevant container
  and the parent have stable ids.
\<close>

definition passesChecks :: "('d, 'c) action_env \<Rightarrow> ('d, 'c) overlays \<Rightarrow> elem \<Rightarrow> bool" where
  "passesChecks env ov oInvisibleElement =
     (case getOverlay env oInvisibleElement of
        None \<Rightarrow> False
      | Some oOverlay \<Rightarrow>
          (case getDesignTimeMetadata env oOverlay of
             None \<Rightarrow> False
           | Some oDesignTimeMetadata \<Rightarrow>
               (case getRevealAction env oDesignTimeMetadata oInvisibleElement of
                  None \<Rightarrow> False
                | Some mRevealAction \<Rightarrow>
                    (case ra_changeType mRevealAction of
                       None \<Rightarrow> False
                     | Some sChangeType \<Rightarrow>
                         sChangeType \<noteq> []
                         \<and> hasChangeHandler env sChangeType
                             (revealSelector env oOverlay mRevealAction oInvisibleElement)
                           = Inr True
                         \<and> (\<not> ra_changeOnRelevantContainer mRevealAction
                              \<or> parentsHaveStableIds env ov oOverlay)))))"

definition revealable ::
  "('d, 'c) action_env \<Rightarrow> ('d, 'c) overlays \<Rightarrow> overlay option list \<Rightarrow> string \<Rightarrow> elem list" where
  \<comment> \<open>the invisible elements of the aggregation that pass the checks\<close>
  "revealable env ov aParents sAggregationName =
     filter (passesChecks env ov) (invisibleOf env aParents sAggregationName)"

text \<open>
  A map of reveal entries is right for the aggregations \<open>S\<close>: it has an entry exactly
  for those of them with a revealable element, and the entry lists these elements.
\<close>

definition revealMapFor ::
  "('d, 'c) action_env \<Rightarrow> ('d, 'c) overlays \<Rightarrow> overlay option list \<Rightarrow> string set
     \<Rightarrow> (string \<times> reveal_data) list \<Rightarrow> bool" where
  "revealMapFor env ov aParents S mRevealMap =
     (distinct (map fst mRevealMap)
      \<and> (\<forall>k. case map_of mRevealMap k of
                None \<Rightarrow> k \<notin> S \<or> revealable env ov aParents k = []
              | Some mReveal \<Rightarrow>
                  k \<in> S \<and> elements mReveal \<noteq> []
                  \<and> map re_element (elements mReveal) = revealable env ov aParents k))"

definition sample_action_env :: "(unit, unit) action_env" where
  \<comment> \<open>of the invisible controls 5, 6 and 7, only 5 has a reveal action with a change type\<close>
  "sample_action_env =
     \<lparr> getOverlay = (\<lambda>oElement. if oElement = 5 \<or> oElement = 6 then Some (oElement + 10) else None),
       getDesignTimeMetadata = (\<lambda>oOverlay. Some (oOverlay + 10)),
       getRevealAction = (\<lambda>oDesignTimeMetadata oElement.
          if oElement = 5
          then Some \<lparr> ra_changeType = Some ''unhideControl'',
                      ra_changeOnRelevantContainer = False,
                      ra_getAggregationName = None \<rparr>
          else if oElement = 6
          then Some \<lparr> ra_changeType = None,
                      ra_changeOnRelevantContainer = False,
                      ra_getAggregationName = None \<rparr>
          else None),
       getName = (\<lambda>oDesignTimeMetadata oElement. Some ''Field''),
       getRelevantContainer = (\<lambda>oOverlay bForParent. 0),
       hasChangeHandler = (\<lambda>sChangeType oElement. Inr (sChangeType = ''unhideControl'')),
       hasStableId = (\<lambda>oOverlay. oOverlay \<noteq> None),
       getInvisibleElements = (\<lambda>oParentOverlay sAggregationName.
          Inr (if sAggregationName = ''content'' then [5, 6, 7] else [])),
       revealScope = (\<lambda>bSibling oOverlay. Inr ([Some 0, None], [''content'', ''footer''])),
       getAddViaDelegateActions = (\<lambda>bSibling oOverlay. Resolved [(''content'', ()), (''items'', ())]),
       getCustomAddActions = (\<lambda>bSibling oOverlay. Resolved []),
       checkInvalidAddActions = (\<lambda>bSibling oOverlay. Inr ()) \<rparr>"

definition sample_actions :: "(unit, unit) actions_map" where
  "sample_actions =
     [(''content'',
       \<lparr> reveal = Some \<lparr> elements =
                            [\<lparr> re_element = 5, re_designTimeMetadata = 25,
                               re_action = \<lparr> ra_changeType = Some ''unhideControl'',
                                             ra_changeOnRelevantContainer = False,
                                             ra_getAggregationName =
                                               Some DefaultGetAggregationName \<rparr> \<rparr>],
                          controlTypeNames = [''Field''] \<rparr>,
         addViaDelegate = Some (), addViaCustom = None \<rparr>),
      (''items'', \<lparr> reveal = None, addViaDelegate = Some (), addViaCustom = None \<rparr>)]"

section \<open>AdditionalElementsPlugin: sample data\<close>

definition sample_overlays :: "(unit, unit) overlays" where
  "sample_overlays =
     \<lparr> getResponsibleElementOverlay =
         (\<lambda>x. case x of None \<Rightarrow> Inl (TypeError ''undefined overlay'') | Some v \<Rightarrow> Inr v),
       getParentElementOverlay = (\<lambda>v. if v = 0 then None else Some 0),
       mAddActions = (\<lambda>v. None) \<rparr>"

definition sample_plugin :: "(unit, unit) plugin" where
  "sample_plugin =
     \<lparr> oCachedElements =
         Some \<lparr> asSibling = Some [\<lparr> epa_aggregation = ''content'', epa_elements = [()] \<rparr>],
                asChild = None \<rparr>,
       oExtensibilityInfo = None \<rparr>"

definition sample_stored :: "(unit, unit) overlays" where
  \<comment> \<open>the overlays after the child actions of overlay 1 have been computed and stored\<close>
  "sample_stored =
     sample_overlays
       \<lparr> mAddActions := (\<lambda>oOverlay.
            if oOverlay = 1 then Some \<lparr> aa_asSibling = [], aa_asChild = sample_actions \<rparr>
            else None) \<rparr>"

section \<open>JavaScript values: own and inherited properties\<close>

lemma memberName_Nil [simp]: "memberName [] = False"
  by (simp add: memberName_def)

lemma memberName_Cons [simp]:
  "memberName (c # cs) = (c \<in> set ''abcdefghijklmnopqrstuvwxyz_'')"
  by (simp add: memberName_def)

lemma objectPrototype_memberName: "p \<in> set objectPrototype \<Longrightarrow> memberName p"
  by (auto simp: objectPrototype_def)

lemma not_memberName [simp]: "\<not> memberName p \<Longrightarrow> p \<notin> set objectPrototype"
  using objectPrototype_memberName by blast

lemma lookup_own: "p \<notin> set objectPrototype \<Longrightarrow> lookup tbl p = Inr (map_of tbl p)"
  by (simp add: lookup_def split: option.splits)

lemma lookup_Some: "map_of tbl p = Some v \<Longrightarrow> lookup tbl p = Inr (Some v)"
  by (simp add: lookup_def)

lemma toPropertyKey_printable: "printable v \<Longrightarrow> toPropertyKey v = Inr (toString v)"
  by (simp add: toPropertyKey_def)

lemma plainKey_lookup:
  "plainKey v \<Longrightarrow> lookup tbl (toString v) = Inr (map_of tbl (toString v))"
  by (simp add: plainKey_def lookup_own)

lemma js_in_own: "js_in p v = Inr True \<Longrightarrow> \<not> inherits v p"
  by (cases v) (auto split: if_splits)


lemma js_in_True_get: "js_in p v = Inr True \<Longrightarrow> \<exists>w. js_get v p = Inr w"
  by (cases v) (auto split: if_splits)


section \<open>ODataMetaModel: the type mapper\<close>

lemma js_get_isValue: "isValue v \<Longrightarrow> \<not> memberName p \<Longrightarrow> \<exists>w. js_get v p = Inr w"
  by (cases v) (auto simp: isValue_def)

lemma amap_setConstraint: "amap (setConstraint c k v) = (amap c)(k \<mapsto> v)"
  by (auto simp: amap_def setConstraint_def update_conv' split: option.splits)

lemma facetsLoop_None: "facetsLoop None aFacets c = Inr c"
  by (induction aFacets) auto

lemma contrib_Nil: "contrib tbl [] k = None"
  by (simp add: contrib_def)

lemma contrib_Cons:
  "contrib tbl (f # fs) k =
     (case contrib tbl fs k of
        Some v \<Rightarrow> Some v
      | None \<Rightarrow> if map_of tbl (facetName f) = Some k then Some (facetValue f) else None)"
  by (auto simp: contrib_def split: list.splits)

lemma facetsLoop_Some:
  "list_all isValue aFacets \<Longrightarrow> \<forall>f \<in> set aFacets. plainKey (facetKey f) \<Longrightarrow>
   \<exists>r. facetsLoop (Some tbl) aFacets c = Inr r
      \<and> amap r = (\<lambda>k. case contrib tbl aFacets k of Some v \<Rightarrow> Some v | None \<Rightarrow> amap c k)
      \<and> (r = None \<longleftrightarrow> c = None \<and> (\<forall>f \<in> set aFacets. map_of tbl (facetName f) = None))"
proof (induction aFacets arbitrary: c)
  case Nil
  then show ?case by (simp add: contrib_Nil)
next
  case (Cons f fs)
  then have f: "isValue f" and fs: "list_all isValue fs" by simp_all
  from Cons.prems(2) have nf: "plainKey (facetKey f)"
    and nfs: "\<forall>f \<in> set fs. plainKey (facetKey f)"
    by simp_all
  have "\<not> memberName ''Name''" "\<not> memberName ''Value''" by simp_all
  then obtain n v where n: "js_get f ''Name'' = Inr n" and v: "js_get f ''Value'' = Inr v"
    using js_get_isValue [OF f] by blast
  have fn: "facetName f = toString n" using n by (simp add: facetName_def)
  have fv: "facetValue f = v" using v by (simp add: facetValue_def)
  have pn: "plainKey n" using nf n by (simp add: facetKey_def)
  then have tk: "toPropertyKey n = Inr (toString n)"
    by (simp add: plainKey_def toPropertyKey_printable)
  have lk: "lookup tbl (toString n) = Inr (map_of tbl (toString n))"
    using pn by (rule plainKey_lookup)
  show ?case
  proof (cases "map_of tbl (toString n)")
    case None
    from Cons.IH [OF fs nfs, of c] obtain r where
      r: "facetsLoop (Some tbl) fs c = Inr r"
         "amap r = (\<lambda>k'. case contrib tbl fs k' of Some v \<Rightarrow> Some v | None \<Rightarrow> amap c k')"
         "r = None \<longleftrightarrow> c = None \<and> (\<forall>f \<in> set fs. map_of tbl (facetName f) = None)"
      by blast
    have step: "facetsLoop (Some tbl) (f # fs) c = Inr r"
      using n None r(1) lk tk by simp
    have c: "contrib tbl (f # fs) = contrib tbl fs"
      using None fn by (auto simp: contrib_Cons fun_eq_iff split: option.splits)
    show ?thesis
      unfolding step c using r(2,3) None fn by auto
  next
    case (Some k)
    from Cons.IH [OF fs nfs, of "setConstraint c k v"] obtain r where
      r: "facetsLoop (Some tbl) fs (setConstraint c k v) = Inr r"
         "amap r = (\<lambda>k'. case contrib tbl fs k' of Some v \<Rightarrow> Some v | None \<Rightarrow> amap (setConstraint c k v) k')"
         "r = None \<longleftrightarrow> setConstraint c k v = None \<and> (\<forall>f \<in> set fs. map_of tbl (facetName f) = None)"
      by blast
    have rn: "r \<noteq> None" using r(3) by (simp add: setConstraint_def)
    have step: "facetsLoop (Some tbl) (f # fs) c = Inr r"
      using n v Some r(1) lk tk by simp
    have m: "amap r = (\<lambda>k'. case contrib tbl (f # fs) k' of Some v \<Rightarrow> Some v | None \<Rightarrow> amap c k')"
      unfolding r(2) using Some fn fv
      by (auto simp: contrib_Cons amap_setConstraint fun_eq_iff split: option.splits)
    show ?thesis
      unfolding step using m rn Some fn by auto
  qed
qed

lemma mUi5Type_cases:
  "map_of mUi5TypeForEdmType sType = Some u \<Longrightarrow>
     (sType = ''Edm.Decimal'' \<and> ui5_facets u = Some [(''Precision'', ''precision''), (''Scale'', ''scale'')])
     \<or> (sType = ''Edm.String'' \<and> ui5_facets u = Some [(''MaxLength'', ''maxLength'')])
     \<or> (sType \<noteq> ''Edm.Decimal'' \<and> sType \<noteq> ''Edm.String'' \<and> ui5_facets u = None)"
  by (auto simp: mUi5TypeForEdmType_def split: if_splits)

lemma mUi5Type_name:
  "map_of mUi5TypeForEdmType sType = Some u \<Longrightarrow> ui5_type u = ''sap.ui.model.odata.type.'' @ drop 4 sType"
  by (auto simp: mUi5TypeForEdmType_def split: if_splits)

lemma contrib_decimal:
  "contrib [(''Precision'', ''precision''), (''Scale'', ''scale'')] fs k =
     (if k = ''precision'' then lastFacet fs ''Precision''
      else if k = ''scale'' then lastFacet fs ''Scale'' else None)"
proof -
  have *: "\<And>f. (map_of [(''Precision'', ''precision''), (''Scale'', ''scale'')] (facetName f) = Some k)
             = ((k = ''precision'' \<and> facetName f = ''Precision'') \<or> (k = ''scale'' \<and> facetName f = ''Scale''))"
    by auto
  show ?thesis
    unfolding contrib_def lastFacet_def * by (auto split: list.splits)
qed

lemma contrib_string:
  "contrib [(''MaxLength'', ''maxLength'')] fs k =
     (if k = ''maxLength'' then lastFacet fs ''MaxLength'' else None)"
proof -
  have *: "\<And>f. (map_of [(''MaxLength'', ''maxLength'')] (facetName f) = Some k)
             = (k = ''maxLength'' \<and> facetName f = ''MaxLength'')"
    by auto
  show ?thesis
    unfolding contrib_def lastFacet_def * by (auto split: list.splits)
qed

lemma facets_constraints:
  assumes u: "map_of mUi5TypeForEdmType sType = Some u"
      and fs: "list_all isValue aFacets"
      and np: "sType = ''Edm.Decimal'' \<or> sType = ''Edm.String''
                 \<longrightarrow> (\<forall>f \<in> set aFacets. plainKey (facetKey f))"
  shows "\<exists>r. facetsLoop (ui5_facets u) aFacets None = Inr r
           \<and> amap r = (\<lambda>k. if k = ''nullable'' then None else spec_constraints sType aFacets (JBool True) k)
           \<and> (r = None \<longleftrightarrow> \<not> (\<exists>f \<in> set aFacets. applicable sType f))"
proof -
  note c = mUi5Type_cases [OF u]
  have "(sType = ''Edm.Decimal'' \<and> ui5_facets u = Some [(''Precision'', ''precision''), (''Scale'', ''scale'')])
     \<or> (sType = ''Edm.String'' \<and> ui5_facets u = Some [(''MaxLength'', ''maxLength'')])
     \<or> (sType \<noteq> ''Edm.Decimal'' \<and> sType \<noteq> ''Edm.String'' \<and> ui5_facets u = None)"
    by (rule c)
  then consider (dec) "sType = ''Edm.Decimal''" "ui5_facets u = Some [(''Precision'', ''precision''), (''Scale'', ''scale'')]"
    | (str) "sType = ''Edm.String''" "ui5_facets u = Some [(''MaxLength'', ''maxLength'')]"
    | (oth) "sType \<noteq> ''Edm.Decimal''" "sType \<noteq> ''Edm.String''" "ui5_facets u = None"
    by (elim disjE conjE) 
  then show ?thesis
  proof cases
    case dec
    from np dec(1) have n: "\<forall>f \<in> set aFacets. plainKey (facetKey f)" by simp
    from facetsLoop_Some [OF fs n, of "[(''Precision'', ''precision''), (''Scale'', ''scale'')]" None]
    obtain r where r: "facetsLoop (Some [(''Precision'', ''precision''), (''Scale'', ''scale'')]) aFacets None = Inr r"
      "amap r = (\<lambda>k. case contrib [(''Precision'', ''precision''), (''Scale'', ''scale'')] aFacets k of
                       Some v \<Rightarrow> Some v | None \<Rightarrow> amap None k)"
      "r = None \<longleftrightarrow> (\<forall>f \<in> set aFacets. map_of [(''Precision'', ''precision''), (''Scale'', ''scale'')] (facetName f) = None)"
      by auto
    have a: "amap r = (\<lambda>k. if k = ''nullable'' then None else spec_constraints sType aFacets (JBool True) k)"
      unfolding r(2) contrib_decimal
      by (auto simp: fun_eq_iff spec_constraints_def dec(1) amap_def split: option.splits)
    have b: "r = None \<longleftrightarrow> \<not> (\<exists>f \<in> set aFacets. applicable sType f)"
      unfolding r(3) by (auto simp: applicable_def dec(1))
    show ?thesis using r(1) a b dec(2) by simp
  next
    case str
    from np str(1) have n: "\<forall>f \<in> set aFacets. plainKey (facetKey f)" by simp
    from facetsLoop_Some [OF fs n, of "[(''MaxLength'', ''maxLength'')]" None]
    obtain r where r: "facetsLoop (Some [(''MaxLength'', ''maxLength'')]) aFacets None = Inr r"
      "amap r = (\<lambda>k. case contrib [(''MaxLength'', ''maxLength'')] aFacets k of
                       Some v \<Rightarrow> Some v | None \<Rightarrow> amap None k)"
      "r = None \<longleftrightarrow> (\<forall>f \<in> set aFacets. map_of [(''MaxLength'', ''maxLength'')] (facetName f) = None)"
      by auto
    have a: "amap r = (\<lambda>k. if k = ''nullable'' then None else spec_constraints sType aFacets (JBool True) k)"
      unfolding r(2) contrib_string
      by (auto simp: fun_eq_iff spec_constraints_def str(1) amap_def split: option.splits)
    have b: "r = None \<longleftrightarrow> \<not> (\<exists>f \<in> set aFacets. applicable sType f)"
      unfolding r(3) by (auto simp: applicable_def str(1))
    show ?thesis using r(1) a b str(2) by simp
  next
    case oth
    show ?thesis
      using oth by (auto simp: facetsLoop_None amap_def spec_constraints_def applicable_def fun_eq_iff)
  qed
qed

lemma ui5TypeOfProperty_supported:
  assumes ty: "map_of kvs ''Type'' = Some vType"
      and qn: "js_get vType ''QualifiedName'' = Inr (JStr sType)"
      and u: "map_of mUi5TypeForEdmType sType = Some u"
      and fa: "map_of kvs ''Facets'' = Some (JArr aFacets)"
      and fs: "list_all isValue aFacets"
      and nu: "map_of kvs ''Nullable'' = Some vNullable"
      and np: "sType = ''Edm.Decimal'' \<or> sType = ''Edm.String''
                 \<longrightarrow> (\<forall>f \<in> set aFacets. plainKey (facetKey f))"
  shows "\<exists>oConstraints.
           ui5TypeOfProperty newObject sPath (JObj kvs)
             = newObject (''sap.ui.model.odata.type.'' @ drop 4 sType) oConstraints
           \<and> amap oConstraints = spec_constraints sType aFacets vNullable
           \<and> (oConstraints = None
                \<longleftrightarrow> truthy vNullable \<and> \<not> (\<exists>f \<in> set aFacets. applicable sType f))"
proof -
  from facets_constraints [OF u fs np] obtain r where
    r: "facetsLoop (ui5_facets u) aFacets None = Inr r"
       "amap r = (\<lambda>k. if k = ''nullable'' then None else spec_constraints sType aFacets (JBool True) k)"
       "r = None \<longleftrightarrow> \<not> (\<exists>f \<in> set aFacets. applicable sType f)"
    by blast
  have keys: "''Type'' \<in> fst ` set kvs" "''Facets'' \<in> fst ` set kvs" "''Nullable'' \<in> fst ` set kvs"
    using ty fa nu by (auto dest: map_of_SomeD intro: rev_image_eqI)
  let ?c = "if \<not> truthy vNullable then setConstraint r ''nullable'' (JBool False) else r"
  have run: "ui5TypeOfProperty newObject sPath (JObj kvs) = newObject (ui5_type u) ?c"
    using keys ty qn u fa nu r(1)
    by (simp add: ui5TypeOfProperty_def facetsOf_def lookup_Some toPropertyKey_def)
  have a: "amap ?c = spec_constraints sType aFacets vNullable"
    using r(2) by (auto simp: amap_setConstraint fun_eq_iff spec_constraints_def)
  have b: "?c = None \<longleftrightarrow> truthy vNullable \<and> \<not> (\<exists>f \<in> set aFacets. applicable sType f)"
    using r(3) by (auto simp: setConstraint_def)
  show ?thesis
    unfolding run mUi5Type_name [OF u] using a b
    by (intro exI conjI) (rule refl, assumption+)
qed

lemma mUi5TypeForEdmType_twelve:
  "length mUi5TypeForEdmType = 12 \<and> distinct (map fst mUi5TypeForEdmType)"
  by (simp add: mUi5TypeForEdmType_def)

text \<open>
  C3 (amended). The map of supported primitive types has twelve entries, not thirteen
  (\<open>Edm.DateTimeOffset\<close> is commented out in the source). For every property path
  that resolves to a property object with \<open>Type\<close>, \<open>Facets\<close> (an array of facet
  objects) and \<open>Nullable\<close> whose qualified type name is one of the twelve,
  \<open>requestUI5Type\<close> constructs the corresponding UI5 type
  \<open>sap.ui.model.odata.type.<name>\<close> and resolves with the type object, or is rejected
  with what the construction throws. The constraints handed to the constructor are
  \<open>precision\<close> and \<open>scale\<close> from the \<open>Precision\<close> and \<open>Scale\<close> facets of an
  \<open>Edm.Decimal\<close>, \<open>maxLength\<close> from the \<open>MaxLength\<close> facet of an \<open>Edm.String\<close>,
  nothing from the facets of the other types, and \<open>nullable = false\<close> when
  \<open>Nullable\<close> is false; the constraints argument is \<open>undefined\<close> exactly when
  \<open>Nullable\<close> is truthy and no facet applies. For an \<open>Edm.Decimal\<close> and an
  \<open>Edm.String\<close> this is stated of facets that are named plainly: the name is
  converted to a string as \<open>toString\<close> has it and is not the name of a member of
  \<open>Object.prototype\<close>, such as \<open>constructor\<close>, which the test \<open>oFacet.Name in
  oUi5Type.facets\<close> finds although the table does not list it.
\<close>

theorem requestUI5Type_constraints:
  assumes meta: "snd (requestMetaContext that sPath) = Resolved oMetaContext"
      and obj: "snd (requestObject that [] (Some oMetaContext)) = Resolved (JObj kvs)"
      and ty: "map_of kvs ''Type'' = Some vType"
      and qn: "js_get vType ''QualifiedName'' = Inr (JStr sType)"
      and u: "map_of mUi5TypeForEdmType sType = Some oUi5Type"
      and fa: "map_of kvs ''Facets'' = Some (JArr aFacets)"
      and fs: "list_all isValue aFacets"
      and nu: "map_of kvs ''Nullable'' = Some vNullable"
      and np: "sType = ''Edm.Decimal'' \<or> sType = ''Edm.String''
                 \<longrightarrow> (\<forall>f \<in> set aFacets. plainKey (facetKey f))"
  shows "\<exists>oConstraints.
           requestUI5Type that newObject sPath
             = (case newObject (''sap.ui.model.odata.type.'' @ drop 4 sType) oConstraints of
                  Inl e \<Rightarrow> Rejected e
                | Inr oType \<Rightarrow> Resolved oType)
           \<and> amap oConstraints = spec_constraints sType aFacets vNullable
           \<and> (oConstraints = None
                \<longleftrightarrow> truthy vNullable \<and> \<not> (\<exists>f \<in> set aFacets. applicable sType f))"
proof -
  have run: "requestUI5Type that newObject sPath
               = (case ui5TypeOfProperty newObject sPath (JObj kvs) of
                    Inl e \<Rightarrow> Rejected e | Inr t \<Rightarrow> Resolved t)"
    using meta obj by (simp add: requestUI5Type_def)
  from ui5TypeOfProperty_supported [OF ty qn u fa fs nu np, of newObject sPath]
  obtain oConstraints where
    c: "ui5TypeOfProperty newObject sPath (JObj kvs)
          = newObject (''sap.ui.model.odata.type.'' @ drop 4 sType) oConstraints"
       "amap oConstraints = spec_constraints sType aFacets vNullable"
       "oConstraints = None \<longleftrightarrow> truthy vNullable \<and> \<not> (\<exists>f \<in> set aFacets. applicable sType f)"
    by (elim exE conjE)
  show ?thesis
    unfolding run c(1) using c(2,3)
    by (intro exI conjI) (rule refl, assumption+)
qed

lemma sample_budget_context: "snd (requestMetaContext sample_model ''/TEAMS/0/Budget'')
         = Resolved ''/EntitySets('TEAMS')/EntityType/Properties('Budget')''"
  by code_simp

lemma sample_budget_object: "snd (requestObject sample_model []
               (Some ''/EntitySets('TEAMS')/EntityType/Properties('Budget')''))
         = Resolved (JObj [(''Name'', JStr ''Budget''),
                           (''Type'', JObj [(''QualifiedName'', JStr ''Edm.Decimal'')]),
                           (''Facets'', JArr [JObj [(''Name'', JStr ''Precision''), (''Value'', JNum 16)],
                                              JObj [(''Name'', JStr ''Scale''), (''Value'', JNum 2)]]),
                           (''Nullable'', JBool True)])"
  by code_simp

theorem requestUI5Type_constraints_witness:
  "snd (requestMetaContext sample_model ''/TEAMS/0/Budget'')
     = Resolved ''/EntitySets('TEAMS')/EntityType/Properties('Budget')''
   \<and> requestUI5Type sample_model sample_newObject ''/TEAMS/0/Budget''
       = Resolved \<lparr> typeName = ''sap.ui.model.odata.type.Decimal'',
                    constraints = Some [(''precision'', JNum 16), (''scale'', JNum 2)] \<rparr>
   \<and> (\<exists>oConstraints.
         requestUI5Type sample_model sample_newObject ''/TEAMS/0/Budget''
           = (case sample_newObject (''sap.ui.model.odata.type.'' @ drop 4 ''Edm.Decimal'')
                     oConstraints of
                Inl e \<Rightarrow> Rejected e
              | Inr oType \<Rightarrow> Resolved oType)
         \<and> amap oConstraints
             = spec_constraints ''Edm.Decimal''
                 [JObj [(''Name'', JStr ''Precision''), (''Value'', JNum 16)],
                  JObj [(''Name'', JStr ''Scale''), (''Value'', JNum 2)]] (JBool True)
         \<and> oConstraints \<noteq> None)"
proof -
  have u: "map_of mUi5TypeForEdmType ''Edm.Decimal''
             = Some \<lparr> ui5_type = ''sap.ui.model.odata.type.Decimal'',
                      ui5_facets = Some [(''Precision'', ''precision''), (''Scale'', ''scale'')] \<rparr>"
    by (simp add: mUi5TypeForEdmType_def)
  have fs: "list_all isValue [JObj [(''Name'', JStr ''Precision''), (''Value'', JNum 16)],
                              JObj [(''Name'', JStr ''Scale''), (''Value'', JNum 2)]]"
    by (simp add: isValue_def)
  have ap: "applicable ''Edm.Decimal'' (JObj [(''Name'', JStr ''Precision''), (''Value'', JNum 16)])"
    by (simp add: applicable_def facetName_def)
  have np: "''Edm.Decimal'' = ''Edm.Decimal'' \<or> ''Edm.Decimal'' = ''Edm.String''
              \<longrightarrow> (\<forall>f \<in> set [JObj [(''Name'', JStr ''Precision''), (''Value'', JNum 16)],
                               JObj [(''Name'', JStr ''Scale''), (''Value'', JNum 2)]].
                      plainKey (facetKey f))"
    by (simp add: plainKey_def facetKey_def)
  have r: "requestUI5Type sample_model sample_newObject ''/TEAMS/0/Budget''
       = Resolved \<lparr> typeName = ''sap.ui.model.odata.type.Decimal'',
                    constraints = Some [(''precision'', JNum 16), (''scale'', JNum 2)] \<rparr>"
    by code_simp
  have ty: "map_of [(''Name'', JStr ''Budget''),
                    (''Type'', JObj [(''QualifiedName'', JStr ''Edm.Decimal'')]),
                    (''Facets'', JArr [JObj [(''Name'', JStr ''Precision''), (''Value'', JNum 16)],
                                       JObj [(''Name'', JStr ''Scale''), (''Value'', JNum 2)]]),
                    (''Nullable'', JBool True)] ''Type''
             = Some (JObj [(''QualifiedName'', JStr ''Edm.Decimal'')])"
    by simp
  have qn: "js_get (JObj [(''QualifiedName'', JStr ''Edm.Decimal'')]) ''QualifiedName''
             = Inr (JStr ''Edm.Decimal'')"
    by simp
  have fa: "map_of [(''Name'', JStr ''Budget''),
                    (''Type'', JObj [(''QualifiedName'', JStr ''Edm.Decimal'')]),
                    (''Facets'', JArr [JObj [(''Name'', JStr ''Precision''), (''Value'', JNum 16)],
                                       JObj [(''Name'', JStr ''Scale''), (''Value'', JNum 2)]]),
                    (''Nullable'', JBool True)] ''Facets''
             = Some (JArr [JObj [(''Name'', JStr ''Precision''), (''Value'', JNum 16)],
                           JObj [(''Name'', JStr ''Scale''), (''Value'', JNum 2)]])"
    by simp
  have nu: "map_of [(''Name'', JStr ''Budget''),
                    (''Type'', JObj [(''QualifiedName'', JStr ''Edm.Decimal'')]),
                    (''Facets'', JArr [JObj [(''Name'', JStr ''Precision''), (''Value'', JNum 16)],
                                       JObj [(''Name'', JStr ''Scale''), (''Value'', JNum 2)]]),
                    (''Nullable'', JBool True)] ''Nullable''
             = Some (JBool True)"
    by simp
  from requestUI5Type_constraints
         [OF sample_budget_context sample_budget_object ty qn u fa fs nu np, of sample_newObject]
  obtain oConstraints where o:
    "requestUI5Type sample_model sample_newObject ''/TEAMS/0/Budget''
       = (case sample_newObject (''sap.ui.model.odata.type.'' @ drop 4 ''Edm.Decimal'')
                 oConstraints of
            Inl e \<Rightarrow> Rejected e
          | Inr oType \<Rightarrow> Resolved oType)"
    "amap oConstraints
       = spec_constraints ''Edm.Decimal''
           [JObj [(''Name'', JStr ''Precision''), (''Value'', JNum 16)],
            JObj [(''Name'', JStr ''Scale''), (''Value'', JNum 2)]] (JBool True)"
    "oConstraints = None
       \<longleftrightarrow> truthy (JBool True)
           \<and> \<not> (\<exists>f \<in> set [JObj [(''Name'', JStr ''Precision''), (''Value'', JNum 16)],
                            JObj [(''Name'', JStr ''Scale''), (''Value'', JNum 2)]].
                    applicable ''Edm.Decimal'' f)"
    by (elim exE conjE)
  have "oConstraints \<noteq> None"
    using o(3) ap by simp
  with o(1,2) have "\<exists>oConstraints.
         requestUI5Type sample_model sample_newObject ''/TEAMS/0/Budget''
           = (case sample_newObject (''sap.ui.model.odata.type.'' @ drop 4 ''Edm.Decimal'')
                     oConstraints of
                Inl e \<Rightarrow> Rejected e
              | Inr oType \<Rightarrow> Resolved oType)
         \<and> amap oConstraints
             = spec_constraints ''Edm.Decimal''
                 [JObj [(''Name'', JStr ''Precision''), (''Value'', JNum 16)],
                  JObj [(''Name'', JStr ''Scale''), (''Value'', JNum 2)]] (JBool True)
         \<and> oConstraints \<noteq> None"
    by (intro exI conjI)
  with sample_budget_context r show ?thesis
    by (intro conjI)
qed

text \<open>
  C3 as stated speaks of thirteen supported types. The map has twelve entries, and a
  property of the thirteenth type, \<open>Edm.DateTimeOffset\<close>, is rejected.
\<close>

theorem requestUI5Type_thirteen_counterexample:
  "length mUi5TypeForEdmType = 12
   \<and> map_of mUi5TypeForEdmType ''Edm.DateTimeOffset'' = None
   \<and> snd (requestMetaContext sample_model ''/TEAMS/0/Founded'')
       = Resolved ''/EntitySets('TEAMS')/EntityType/Properties('Founded')''
   \<and> snd (requestObject sample_model []
            (Some ''/EntitySets('TEAMS')/EntityType/Properties('Founded')''))
       = Resolved (JObj [(''Name'', JStr ''Founded''),
                         (''Type'', JObj [(''QualifiedName'', JStr ''Edm.DateTimeOffset'')]),
                         (''Facets'', JArr []),
                         (''Nullable'', JBool True)])
   \<and> requestUI5Type sample_model sample_newObject ''/TEAMS/0/Founded''
       = Rejected (Error ''Unsupported EDM type: Edm.DateTimeOffset: /TEAMS/0/Founded'')"
proof -
  have a: "length mUi5TypeForEdmType = 12"
    by (simp add: mUi5TypeForEdmType_def)
  have b: "map_of mUi5TypeForEdmType ''Edm.DateTimeOffset'' = None"
    by (simp add: mUi5TypeForEdmType_def)
  have c: "snd (requestMetaContext sample_model ''/TEAMS/0/Founded'')
       = Resolved ''/EntitySets('TEAMS')/EntityType/Properties('Founded')''"
    by code_simp
  have d: "snd (requestObject sample_model []
            (Some ''/EntitySets('TEAMS')/EntityType/Properties('Founded')''))
       = Resolved (JObj [(''Name'', JStr ''Founded''),
                         (''Type'', JObj [(''QualifiedName'', JStr ''Edm.DateTimeOffset'')]),
                         (''Facets'', JArr []),
                         (''Nullable'', JBool True)])"
    by code_simp
  have e: "requestUI5Type sample_model sample_newObject ''/TEAMS/0/Founded''
       = Rejected (Error ''Unsupported EDM type: Edm.DateTimeOffset: /TEAMS/0/Founded'')"
    by code_simp
  show ?thesis using a b c d e by simp
qed

lemma js_in_isObject: "isObject v \<Longrightarrow> \<not> memberName p \<Longrightarrow> \<exists>b. js_in p v = Inr b"
  by (cases v) (simp_all add: isObject_def)

lemma js_get_isObject: "isObject v \<Longrightarrow> \<not> memberName p \<Longrightarrow> \<exists>w. js_get v p = Inr w"
  by (cases v) (simp_all add: isObject_def)

lemma facetsOf_array: "facetsOf (JArr xs) = Inr xs"
  by (simp add: facetsOf_def)

lemma facetsLoop_total:
  assumes "list_all isValue aFacets"
      and "facets \<noteq> None \<longrightarrow> (\<forall>f \<in> set aFacets. plainKey (facetKey f))"
  shows "\<exists>r. facetsLoop facets aFacets c = Inr r"
proof (cases facets)
  case None
  then show ?thesis by (simp add: facetsLoop_None)
next
  case (Some tbl)
  with assms(2) have "\<forall>f \<in> set aFacets. plainKey (facetKey f)" by simp
  from facetsLoop_Some [OF assms(1) this, of tbl c] show ?thesis
    unfolding Some by (elim exE conjE) (rule exI)
qed

lemma ui5TypeOfProperty_lacks:
  assumes "isObject oProperty"
      and "js_in ''Type'' oProperty = Inr False \<or> js_in ''Facets'' oProperty = Inr False
           \<or> js_in ''Nullable'' oProperty = Inr False"
  shows "ui5TypeOfProperty newObject sPath oProperty = Inl (error ''No property'' sPath)"
proof -
  have "\<not> memberName ''Type''" "\<not> memberName ''Facets''" "\<not> memberName ''Nullable''"
    by simp_all
  then obtain b1 b2 b3 where b: "js_in ''Type'' oProperty = Inr b1"
      "js_in ''Facets'' oProperty = Inr b2" "js_in ''Nullable'' oProperty = Inr b3"
    using js_in_isObject [OF assms(1)] by metis
  with assms(2) have "\<not> b1 \<or> \<not> b2 \<or> \<not> b3" by simp
  with b show ?thesis
    by (auto simp: ui5TypeOfProperty_def)
qed

lemma ui5TypeOfProperty_has:
  assumes "js_in ''Type'' oProperty = Inr True" "js_in ''Facets'' oProperty = Inr True"
      "js_in ''Nullable'' oProperty = Inr True"
      and "js_get oProperty ''Type'' = Inr vType" "js_get vType ''QualifiedName'' = Inr vQ"
      and "printable vQ"
  shows "ui5TypeOfProperty newObject sPath oProperty =
     (case lookup mUi5TypeForEdmType (toString vQ) of
        Inl e \<Rightarrow> Inl e
      | Inr None \<Rightarrow> Inl (error (''Unsupported EDM type: '' @ toString vQ) sPath)
      | Inr (Some oUi5Type) \<Rightarrow>
     (case js_get oProperty ''Facets'' of
        Inl e \<Rightarrow> Inl e
      | Inr vFacets \<Rightarrow>
     (case facetsOf vFacets of
        Inl e \<Rightarrow> Inl e
      | Inr aFacets \<Rightarrow>
     (case facetsLoop (ui5_facets oUi5Type) aFacets None of
        Inl e \<Rightarrow> Inl e
      | Inr oConstraints \<Rightarrow>
     (case js_get oProperty ''Nullable'' of
        Inl e \<Rightarrow> Inl e
      | Inr vNullable \<Rightarrow>
          newObject (ui5_type oUi5Type)
            (if \<not> truthy vNullable
             then setConstraint oConstraints ''nullable'' (JBool False)
             else oConstraints))))))"
  using assms by (simp add: ui5TypeOfProperty_def toPropertyKey_def)

lemma ui5TypeOfProperty_unsupported:
  assumes "js_in ''Type'' oProperty = Inr True" "js_in ''Facets'' oProperty = Inr True"
      "js_in ''Nullable'' oProperty = Inr True"
      and "js_get oProperty ''Type'' = Inr vType" "js_get vType ''QualifiedName'' = Inr vQ"
      and "plainKey vQ"
      and "map_of mUi5TypeForEdmType (toString vQ) = None"
  shows "ui5TypeOfProperty newObject sPath oProperty
           = Inl (error (''Unsupported EDM type: '' @ toString vQ) sPath)"
proof -
  from assms(6) have "printable vQ" by (simp add: plainKey_def)
  from ui5TypeOfProperty_has [OF assms(1-5) this, of newObject sPath] assms(7)
    plainKey_lookup [OF assms(6), of mUi5TypeForEdmType]
  show ?thesis by simp
qed

lemma ui5TypeOfProperty_resolves:
  assumes "js_in ''Type'' oProperty = Inr True" "js_in ''Facets'' oProperty = Inr True"
      "js_in ''Nullable'' oProperty = Inr True"
      and "js_get oProperty ''Type'' = Inr vType" "js_get vType ''QualifiedName'' = Inr vQ"
      and pq: "plainKey vQ"
      and u: "map_of mUi5TypeForEdmType (toString vQ) = Some u"
      and fa: "js_get oProperty ''Facets'' = Inr (JArr aFacets)" and fs: "list_all isValue aFacets"
      and np: "ui5_facets u \<noteq> None \<longrightarrow> (\<forall>f \<in> set aFacets. plainKey (facetKey f))"
  shows "\<exists>oConstraints. ui5TypeOfProperty newObject sPath oProperty
                          = newObject (ui5_type u) oConstraints"
proof -
  obtain r where r: "facetsLoop (ui5_facets u) aFacets None = Inr r"
    using facetsLoop_total [OF fs np] by blast
  have "isObject oProperty"
    using assms(1) by (cases oProperty) (simp_all add: isObject_def)
  moreover have "\<not> memberName ''Nullable''" by simp
  ultimately obtain vN where n: "js_get oProperty ''Nullable'' = Inr vN"
    using js_get_isObject by blast
  have "ui5TypeOfProperty newObject sPath oProperty
          = newObject (ui5_type u)
              (if \<not> truthy vN then setConstraint r ''nullable'' (JBool False) else r)"
    using ui5TypeOfProperty_has [OF assms(1-5), of newObject sPath] pq lookup_Some [OF u] fa r n
    by (simp add: facetsOf_array plainKey_def)
  then show ?thesis by (rule exI)
qed

text \<open>
  C4 (amended). \<open>requestUI5Type\<close> throws what \<open>requestMetaContext\<close> throws before it
  has returned a promise, and its promise is rejected with what \<open>requestMetaContext\<close>
  rejects with or \<open>requestObject\<close> fails with. When the path resolves to an object:
  if the object lacks any of \<open>Type\<close>, \<open>Facets\<close> or \<open>Nullable\<close>, the promise is
  rejected with the Error \<open>No property: <path>\<close>; if it has all three and the qualified
  name of its \<open>Type\<close> (a \<open>Type\<close> that is neither \<open>null\<close> nor \<open>undefined\<close>) is a
  plain name (one that is converted to a string as \<open>toString\<close> has it and is not the
  name of a member of \<open>Object.prototype\<close>) that is not in the map of supported types,
  with the Error \<open>Unsupported EDM type: <name>: <path>\<close>; if the name is in the map and
  \<open>Facets\<close> is an array without \<open>null\<close> elements, whose facets are named plainly
  when the map's entry has a table of facets, the type of the map's entry is
  constructed and the promise resolves with the type object or is rejected with what
  the construction throws. A name like \<open>constructor\<close> is found in the map, which
  inherits it, and is not rejected as unsupported; what becomes of it is not stated
  here. A failure of \<open>requestObject\<close> is passed on unless it is the mark of an
  inherited member.
\<close>

theorem requestUI5Type_rejections:
  "(\<forall>e. snd (requestMetaContext that sPath) = Thrown e
        \<longrightarrow> requestUI5Type that newObject sPath = Thrown e)
   \<and> (\<forall>e. snd (requestMetaContext that sPath) = Rejected e
          \<longrightarrow> requestUI5Type that newObject sPath = Rejected e)
   \<and> (\<forall>oMetaContext. snd (requestMetaContext that sPath) = Resolved oMetaContext \<longrightarrow>
        (\<forall>e. (snd (requestObject that [] (Some oMetaContext)) = Thrown e
               \<or> snd (requestObject that [] (Some oMetaContext)) = Rejected e)
              \<and> e \<noteq> inheritedMember
            \<longrightarrow> requestUI5Type that newObject sPath = Rejected e)
        \<and> (\<forall>oProperty.
              snd (requestObject that [] (Some oMetaContext)) = Resolved oProperty
              \<and> isObject oProperty \<longrightarrow>
              ((js_in ''Type'' oProperty = Inr False \<or> js_in ''Facets'' oProperty = Inr False
                  \<or> js_in ''Nullable'' oProperty = Inr False)
                 \<longrightarrow> requestUI5Type that newObject sPath = Rejected (error ''No property'' sPath))
              \<and> (js_in ''Type'' oProperty = Inr True \<and> js_in ''Facets'' oProperty = Inr True
                  \<and> js_in ''Nullable'' oProperty = Inr True \<longrightarrow>
                  (\<forall>vType vQ.
                     js_get oProperty ''Type'' = Inr vType
                     \<and> js_get vType ''QualifiedName'' = Inr vQ
                     \<and> plainKey vQ \<longrightarrow>
                     (map_of mUi5TypeForEdmType (toString vQ) = None \<longrightarrow>
                        requestUI5Type that newObject sPath
                          = Rejected (error (''Unsupported EDM type: '' @ toString vQ) sPath))
                     \<and> (\<forall>u aFacets.
                          map_of mUi5TypeForEdmType (toString vQ) = Some u
                          \<and> js_get oProperty ''Facets'' = Inr (JArr aFacets)
                          \<and> list_all isValue aFacets
                          \<and> (ui5_facets u \<noteq> None
                               \<longrightarrow> (\<forall>f \<in> set aFacets. plainKey (facetKey f))) \<longrightarrow>
                          (\<exists>oConstraints.
                             requestUI5Type that newObject sPath
                               = (case newObject (ui5_type u) oConstraints of
                                    Inl e \<Rightarrow> Rejected e
                                  | Inr oType \<Rightarrow> Resolved oType)))))))"
proof (intro conjI allI impI; (elim conjE)?)
  fix e assume "snd (requestMetaContext that sPath) = Thrown e"
  then show "requestUI5Type that newObject sPath = Thrown e"
    by (simp add: requestUI5Type_def)
next
  fix e assume "snd (requestMetaContext that sPath) = Rejected e"
  then show "requestUI5Type that newObject sPath = Rejected e"
    by (simp add: requestUI5Type_def)
next
  fix oMetaContext e
  assume "snd (requestMetaContext that sPath) = Resolved oMetaContext"
    and "snd (requestObject that [] (Some oMetaContext)) = Thrown e
         \<or> snd (requestObject that [] (Some oMetaContext)) = Rejected e"
  then show "requestUI5Type that newObject sPath = Rejected e"
    by (auto simp: requestUI5Type_def)
next
  fix oMetaContext oProperty
  assume m: "snd (requestMetaContext that sPath) = Resolved oMetaContext"
    and o: "snd (requestObject that [] (Some oMetaContext)) = Resolved oProperty"
    and io: "isObject oProperty"
    and l: "js_in ''Type'' oProperty = Inr False \<or> js_in ''Facets'' oProperty = Inr False
                  \<or> js_in ''Nullable'' oProperty = Inr False"
  show "requestUI5Type that newObject sPath = Rejected (error ''No property'' sPath)"
    using m o ui5TypeOfProperty_lacks [OF io l, of newObject sPath]
    by (simp add: requestUI5Type_def)
next
  fix oMetaContext oProperty vType vQ
  assume m: "snd (requestMetaContext that sPath) = Resolved oMetaContext"
    and o: "snd (requestObject that [] (Some oMetaContext)) = Resolved oProperty"
    and h: "js_in ''Type'' oProperty = Inr True" "js_in ''Facets'' oProperty = Inr True"
      "js_in ''Nullable'' oProperty = Inr True"
      "js_get oProperty ''Type'' = Inr vType" "js_get vType ''QualifiedName'' = Inr vQ"
      "plainKey vQ"
      "map_of mUi5TypeForEdmType (toString vQ) = None"
  show "requestUI5Type that newObject sPath
          = Rejected (error (''Unsupported EDM type: '' @ toString vQ) sPath)"
    using m o ui5TypeOfProperty_unsupported [OF h, of newObject sPath]
    by (simp add: requestUI5Type_def)
next
  fix oMetaContext oProperty vType vQ u aFacets
  assume m: "snd (requestMetaContext that sPath) = Resolved oMetaContext"
    and o: "snd (requestObject that [] (Some oMetaContext)) = Resolved oProperty"
    and h: "js_in ''Type'' oProperty = Inr True" "js_in ''Facets'' oProperty = Inr True"
      "js_in ''Nullable'' oProperty = Inr True"
      "js_get oProperty ''Type'' = Inr vType" "js_get vType ''QualifiedName'' = Inr vQ"
      "plainKey vQ"
      "map_of mUi5TypeForEdmType (toString vQ) = Some u"
      "js_get oProperty ''Facets'' = Inr (JArr aFacets)" "list_all isValue aFacets"
      "ui5_facets u \<noteq> None \<longrightarrow> (\<forall>f \<in> set aFacets. plainKey (facetKey f))"
  from ui5TypeOfProperty_resolves [OF h, of newObject sPath]
  obtain oConstraints where
    "ui5TypeOfProperty newObject sPath oProperty = newObject (ui5_type u) oConstraints"
    by (elim exE)
  then have "requestUI5Type that newObject sPath
               = (case newObject (ui5_type u) oConstraints of
                    Inl e \<Rightarrow> Rejected e
                  | Inr oType \<Rightarrow> Resolved oType)"
    using m o by (simp add: requestUI5Type_def)
  then show "\<exists>oConstraints.
               requestUI5Type that newObject sPath
                 = (case newObject (ui5_type u) oConstraints of
                      Inl e \<Rightarrow> Rejected e
                    | Inr oType \<Rightarrow> Resolved oType)"
    by (rule exI)
qed

lemma sample_thrown:
  "snd (requestMetaContext sample_model ''/$foo'') = Thrown (Error ''Unsupported: /$foo'')"
  by code_simp

lemma sample_missing:
  "snd (requestMetaContext sample_model ''/Missing/Name'')
     = Rejected (Error ''No EntitySet or Singleton with name 'Missing' found: /Missing/Name'')"
  by code_simp

lemma sample_set_context:
  "snd (requestMetaContext sample_model ''/EMPLOYEES'') = Resolved ''/EntitySets('EMPLOYEES')''"
  by code_simp

lemma sample_set_object:
  "snd (requestObject sample_model [] (Some ''/EntitySets('EMPLOYEES')''))
     = Resolved (JObj [(''Name'', JStr ''EMPLOYEES''),
                       (''EntityType'', JObj [(''QualifiedName'', JStr ''ns.EMPLOYEE'')]),
                       (''NavigationPropertyBindings'', JArr [])])"
  by code_simp

lemma sample_founded_context:
  "snd (requestMetaContext sample_model ''/TEAMS/0/Founded'')
     = Resolved ''/EntitySets('TEAMS')/EntityType/Properties('Founded')''"
  by code_simp

lemma sample_founded_object:
  "snd (requestObject sample_model []
          (Some ''/EntitySets('TEAMS')/EntityType/Properties('Founded')''))
     = Resolved (JObj [(''Name'', JStr ''Founded''),
                       (''Type'', JObj [(''QualifiedName'', JStr ''Edm.DateTimeOffset'')]),
                       (''Facets'', JArr []),
                       (''Nullable'', JBool True)])"
  by code_simp

lemma sample_id_context:
  "snd (requestMetaContext sample_model ''/EMPLOYEES/0/ID'')
     = Resolved ''/EntitySets('EMPLOYEES')/EntityType/Properties('ID')''"
  by code_simp

lemma sample_id_object:
  "snd (requestObject sample_model []
          (Some ''/EntitySets('EMPLOYEES')/EntityType/Properties('ID')''))
     = Resolved (JObj [(''Name'', JStr ''ID''),
                       (''Type'', JObj [(''QualifiedName'', JStr ''Edm.String'')]),
                       (''Facets'', JArr [JObj [(''Name'', JStr ''MaxLength''), (''Value'', JNum 4)]]),
                       (''Nullable'', JBool False)])"
  by code_simp

lemma sample_id_type:
  "requestUI5Type sample_model sample_newObject ''/EMPLOYEES/0/ID''
     = Resolved \<lparr> typeName = ''sap.ui.model.odata.type.String'',
                  constraints = Some [(''maxLength'', JNum 4), (''nullable'', JBool False)] \<rparr>"
  by code_simp

theorem requestUI5Type_rejections_witness:
  "requestUI5Type sample_model sample_newObject ''/$foo'' = Thrown (Error ''Unsupported: /$foo'')
   \<and> requestUI5Type sample_model sample_newObject ''/Missing/Name''
       = Rejected (Error ''No EntitySet or Singleton with name 'Missing' found: /Missing/Name'')
   \<and> requestUI5Type sample_model sample_newObject ''/EMPLOYEES''
       = Rejected (Error ''No property: /EMPLOYEES'')
   \<and> requestUI5Type sample_model sample_newObject ''/TEAMS/0/Founded''
       = Rejected (Error ''Unsupported EDM type: Edm.DateTimeOffset: /TEAMS/0/Founded'')
   \<and> (\<exists>oConstraints.
         requestUI5Type sample_model sample_newObject ''/EMPLOYEES/0/ID''
           = (case sample_newObject ''sap.ui.model.odata.type.String'' oConstraints of
                Inl e \<Rightarrow> Rejected e
              | Inr oType \<Rightarrow> Resolved oType))
   \<and> requestUI5Type sample_model sample_newObject ''/EMPLOYEES/0/ID''
       = Resolved \<lparr> typeName = ''sap.ui.model.odata.type.String'',
                    constraints = Some [(''maxLength'', JNum 4), (''nullable'', JBool False)] \<rparr>"
proof -
  have a: "requestUI5Type sample_model sample_newObject ''/$foo''
             = Thrown (Error ''Unsupported: /$foo'')"
    using requestUI5Type_rejections [of sample_model "''/$foo''" sample_newObject] sample_thrown
    by (elim conjE allE [of _ "Error ''Unsupported: /$foo''"]) (erule mp)
  have b: "requestUI5Type sample_model sample_newObject ''/Missing/Name''
       = Rejected (Error ''No EntitySet or Singleton with name 'Missing' found: /Missing/Name'')"
    using requestUI5Type_rejections [of sample_model "''/Missing/Name''" sample_newObject]
      sample_missing
    by (elim conjE allE [of _ "Error ''No EntitySet or Singleton with name 'Missing' found: /Missing/Name''"])
       (erule mp)
  have c: "requestUI5Type sample_model sample_newObject ''/EMPLOYEES''
             = Rejected (Error ''No property: /EMPLOYEES'')"
    using requestUI5Type_rejections [of sample_model "''/EMPLOYEES''" sample_newObject]
      sample_set_context sample_set_object
    by (simp add: isObject_def error_def)
  have d: "requestUI5Type sample_model sample_newObject ''/TEAMS/0/Founded''
       = Rejected (Error ''Unsupported EDM type: Edm.DateTimeOffset: /TEAMS/0/Founded'')"
    using requestUI5Type_rejections [of sample_model "''/TEAMS/0/Founded''" sample_newObject]
      sample_founded_context sample_founded_object
    by (simp add: isObject_def error_def mUi5TypeForEdmType_def plainKey_def)
  have e: "\<exists>oConstraints.
         requestUI5Type sample_model sample_newObject ''/EMPLOYEES/0/ID''
           = (case sample_newObject ''sap.ui.model.odata.type.String'' oConstraints of
                Inl e \<Rightarrow> Rejected e
              | Inr oType \<Rightarrow> Resolved oType)"
    using requestUI5Type_rejections [of sample_model "''/EMPLOYEES/0/ID''" sample_newObject]
      sample_id_context sample_id_object
    by (simp add: isObject_def error_def mUi5TypeForEdmType_def isValue_def plainKey_def
          facetKey_def)
  show ?thesis
    using a b c d e sample_id_type by (intro conjI)
qed

lemma broken_context:
  "snd (requestMetaContext sample_broken ''/ODDITIES/0/NoType'')
     = Resolved ''/EntitySets('ODDITIES')/EntityType/Properties('NoType')''"
  by code_simp

lemma broken_object:
  "snd (requestObject sample_broken []
          (Some ''/EntitySets('ODDITIES')/EntityType/Properties('NoType')''))
     = Resolved (JObj [(''Name'', JStr ''NoType''),
                       (''Type'', JNull),
                       (''Facets'', JArr []),
                       (''Nullable'', JBool True)])"
  by code_simp

lemma broken_type:
  "requestUI5Type sample_broken sample_newObject ''/ODDITIES/0/NoType''
     = Rejected (TypeError ''Cannot read properties of null'')"
  by code_simp

lemma thrown_type:
  "requestUI5Type sample_model sample_newObject ''/$foo'' = Thrown (Error ''Unsupported: /$foo'')"
  by code_simp

text \<open>
  C4 as stated has every failure reject the promise, and every resolved object that has
  the three properties and a supported or unsupported type name settle accordingly. A
  path whose first segment is no identifier makes \<open>requestUI5Type\<close> throw instead of
  returning a promise, and a property whose \<open>Type\<close> is \<open>null\<close> rejects with a
  \<open>TypeError\<close> that is neither of the two messages.
\<close>

theorem requestUI5Type_rejections_counterexample:
  "requestUI5Type sample_model sample_newObject ''/$foo'' = Thrown (Error ''Unsupported: /$foo'')
   \<and> snd (requestObject sample_broken []
            (Some ''/EntitySets('ODDITIES')/EntityType/Properties('NoType')''))
       = Resolved (JObj [(''Name'', JStr ''NoType''),
                         (''Type'', JNull),
                         (''Facets'', JArr []),
                         (''Nullable'', JBool True)])
   \<and> requestUI5Type sample_broken sample_newObject ''/ODDITIES/0/NoType''
       = Rejected (TypeError ''Cannot read properties of null'')"
  using thrown_type broken_object broken_type by (intro conjI)

section \<open>ODataMetaModel: the canonical URL\<close>








section \<open>ODataMetaModel: requestObject\<close>

text \<open>What one segment does, as the loop body of \<open>followPath\<close> has it.\<close>

lemma unresolved_iff:
  "unresolved v \<longleftrightarrow> typeofObject v \<and> \<not> isArray v \<and> keysLength v = Inr 1"
  by (cases v) (simp_all add: unresolved_def)

lemma keysLength_typeofObject:
  "typeofObject v \<Longrightarrow> \<not> isArray v \<Longrightarrow> v \<noteq> JNull \<Longrightarrow> \<exists>n. keysLength v = Inr n"
  by (cases v) simp_all

lemma followPath_named:
  assumes "parseSegment that s = Inr oPart" "name oPart = Some sName" "sName \<noteq> []"
    "js_in (property oPart) oObject = Inr True" "js_get oObject (property oPart) = Inr oNextObject"
  shows "requestObject_followPath that sPath (s # aSegments) oObject =
     (if \<not> isArray oNextObject
      then ([], Inl (error ([CHR 0x22] @ property oPart @ [CHR 0x22] @ '' is not an array'') sPath))
      else case findInArray that oNextObject ''Name'' (JStr sName) of
             Inl e \<Rightarrow> ([], Inl e)
           | Inr oFound \<Rightarrow>
               if \<not> truthy oFound then ([], Inl (unknown sPath (segment oPart)))
               else requestObject_followPath that sPath aSegments oFound)"
  using assms by (cases sName) simp_all

lemma followPath_plain_null:
  assumes "parseSegment that s = Inr oPart" "name oPart = None \<or> name oPart = Some []"
    "js_in (property oPart) oObject = Inr True" "js_get oObject (property oPart) = Inr JNull"
  shows "requestObject_followPath that sPath (s # aSegments) oObject
           = ([], Inl (TypeError ''Cannot convert undefined or null to object''))"
  using assms by auto

lemma followPath_plain_load:
  assumes "parseSegment that s = Inr oPart" "name oPart = None \<or> name oPart = Some []"
    "js_in (property oPart) oObject = Inr True" "js_get oObject (property oPart) = Inr oNextObject"
    "unresolved oNextObject"
  shows "requestObject_followPath that sPath (s # aSegments) oObject =
     logged (oObject, property oPart)
       (case requestTypeForNavigationProperty that oObject (property oPart) of
          Inl e \<Rightarrow> ([], Inl e)
        | Inr oType \<Rightarrow> requestObject_followPath that sPath aSegments oType)"
  using assms by (auto simp: unresolved_iff)

lemma followPath_plain_present:
  assumes "parseSegment that s = Inr oPart" "name oPart = None \<or> name oPart = Some []"
    "js_in (property oPart) oObject = Inr True" "js_get oObject (property oPart) = Inr oNextObject"
    "\<not> unresolved oNextObject" "oNextObject \<noteq> JNull"
  shows "requestObject_followPath that sPath (s # aSegments) oObject
           = requestObject_followPath that sPath aSegments oNextObject"
proof (cases "typeofObject oNextObject \<and> \<not> isArray oNextObject")
  case True
  then obtain n where n: "keysLength oNextObject = Inr n"
    using keysLength_typeofObject assms(6) by blast
  with True assms(5) have "n \<noteq> 1" by (simp add: unresolved_iff)
  with True n assms(1-4) show ?thesis by auto
next
  case False
  with assms(1-4) show ?thesis by auto
qed

lemma followPath_unparsed:
  "parseSegment that s = Inl e \<Longrightarrow>
     requestObject_followPath that sPath (s # aSegments) oObject = ([], Inl e)"
  by simp

lemma followPath_primitive:
  "parseSegment that s = Inr oPart \<Longrightarrow> js_in (property oPart) oObject = Inl e \<Longrightarrow>
     requestObject_followPath that sPath (s # aSegments) oObject = ([], Inl e)"
  by simp














lemma sample_container: "requestEntityContainer sample_model = Inr sample_container"
  by (simp add: sample_model_def)






text \<open>
  The segment \<open>constructor\<close> names a member that the entity container inherits, and
  the model stops there.
\<close>

lemma sample_inherited:
  "inheritedStep sample_model ''constructor'' sample_container
   \<and> \<not> ownSteps sample_model [''constructor'', ''name''] sample_container"
proof -
  have p: "parseSegment sample_model ''constructor''
             = Inr \<lparr> segment = ''constructor'', property = ''constructor'', name = None \<rparr>"
    by code_simp
  have i: "js_in ''constructor'' sample_container = Inl inheritedMember"
    by (simp add: sample_container_def objectPrototype_def)
  from p i have s: "inheritedStep sample_model ''constructor'' sample_container"
    unfolding inheritedStep_def by simp
  have "[''constructor'', ''name''] = [] @ ''constructor'' # [''name'']
          \<and> walk sample_model [] sample_container sample_container"
    by (simp add: walk.arrived)
  with s have "\<not> ownSteps sample_model [''constructor'', ''name''] sample_container"
    unfolding ownSteps_def by blast
  with s show ?thesis by (rule conjI)
qed


section \<open>ODataMetaModel: loading of types\<close>

text \<open>
  What one segment of \<open>requestObject\<close> does to the record of loads: it stops with an
  error, it moves on without a load, or it loads the type of a value that is not
  resolved yet.
\<close>

lemma step_loads:
  obtains (stops) e where
      "\<And>aSegments. requestObject_followPath that sPath (s # aSegments) oObject = ([], Inl e)"
    | (moves) oNext where
      "\<And>aSegments. requestObject_followPath that sPath (s # aSegments) oObject
                    = requestObject_followPath that sPath aSegments oNext"
    | (loads) sProperty v where "js_get oObject sProperty = Inr v" "unresolved v"
      "\<And>aSegments. requestObject_followPath that sPath (s # aSegments) oObject
         = logged (oObject, sProperty)
             (case requestTypeForNavigationProperty that oObject sProperty of
                Inl e \<Rightarrow> ([], Inl e)
              | Inr oType \<Rightarrow> requestObject_followPath that sPath aSegments oType)"
proof (cases "parseSegment that s")
  case (Inl e)
  then show ?thesis using stops [of e] by simp
next
  case (Inr oPart)
  note p = this
  show ?thesis
  proof (cases "js_in (property oPart) oObject")
    case (Inl e)
    then show ?thesis using stops [of e] p by simp
  next
    case (Inr b)
    show ?thesis
    proof (cases b)
      case False
      with Inr p show ?thesis using stops [of "unknown sPath (segment oPart)"] by simp
    next
      case True
      with Inr have i: "js_in (property oPart) oObject = Inr True" by simp
      then obtain v where g: "js_get oObject (property oPart) = Inr v"
        using js_in_True_get by blast
      show ?thesis
      proof (cases "\<exists>sName. name oPart = Some sName \<and> sName \<noteq> []")
        case True
        then obtain sName where n: "name oPart = Some sName" "sName \<noteq> []" by blast
        note eq = followPath_named [OF p n i g, of sPath]
        show ?thesis
        proof (cases "isArray v")
          case False
          then show ?thesis
            using stops [of "error ([CHR 0x22] @ property oPart @ [CHR 0x22] @ '' is not an array'') sPath"]
              eq by simp
        next
          case isa: True
          show ?thesis
          proof (cases "findInArray that v ''Name'' (JStr sName)")
            case (Inl e)
            then show ?thesis using stops [of e] eq isa by simp
          next
            case (Inr oFound)
            show ?thesis
            proof (cases "truthy oFound")
              case True
              then show ?thesis using moves [of oFound] eq isa Inr by simp
            next
              case False
              then show ?thesis
                using stops [of "unknown sPath (segment oPart)"] eq isa Inr by simp
            qed
          qed
        qed
      next
        case False
        then have n: "name oPart = None \<or> name oPart = Some []"
          by (cases "name oPart") auto
        show ?thesis
        proof (cases "v = JNull")
          case True
          with g have gn: "js_get oObject (property oPart) = Inr JNull" by simp
          show ?thesis
            using stops [of "TypeError ''Cannot convert undefined or null to object''"]
              followPath_plain_null [OF p n i gn, of sPath]
            by simp
        next
          case notnull: False
          show ?thesis
          proof (cases "unresolved v")
            case False
            show ?thesis
              using moves [of v] followPath_plain_present [OF p n i g False notnull, of sPath]
              by simp
          next
            case True
            show ?thesis
              using loads [OF g True] followPath_plain_load [OF p n i g True, of sPath]
              by simp
          qed
        qed
      qed
    qed
  qed
qed

lemma followPath_loads_unresolved:
  "(oParent, sProperty) \<in> set (fst (requestObject_followPath that sPath aSegments oObject)) \<Longrightarrow>
     \<exists>v. js_get oParent sProperty = Inr v \<and> unresolved v"
proof (induction aSegments arbitrary: oObject)
  case Nil
  then show ?case by simp
next
  case (Cons s aSegments)
  show ?case
  proof (cases rule: step_loads [of that sPath s oObject])
    case (stops e)
    with Cons.prems show ?thesis by simp
  next
    case (moves oNext)
    with Cons.prems Cons.IH show ?thesis by simp
  next
    case (loads sLoaded v)
    show ?thesis
    proof (cases "requestTypeForNavigationProperty that oObject sLoaded")
      case (Inl e)
      with Cons.prems loads show ?thesis by (auto simp: logged_def)
    next
      case (Inr oType)
      with Cons.prems loads(3) have
        "(oParent, sProperty) = (oObject, sLoaded)
         \<or> (oParent, sProperty) \<in> set (fst (requestObject_followPath that sPath aSegments oType))"
        by (auto simp: logged_def)
      then show ?thesis
        using loads(1,2) Cons.IH by blast
    qed
  qed
qed

lemma requestObject_loads_unresolved:
  assumes "(oParent, sProperty) \<in> set (fst (requestObject that sPath oContext))"
  shows "\<exists>v. js_get oParent sProperty = Inr v \<and> unresolved v"
proof -
  from assms obtain aSegments oEntityContainer where
    "(oParent, sProperty) \<in> set (fst (requestObject_followPath that sPath aSegments oEntityContainer))"
    by (auto simp: requestObject_def settle_def split: option.splits list.splits sum.splits)
  then show ?thesis by (rule followPath_loads_unresolved)
qed

lemma metaFollowPath_loads:
  "l \<in> set (fst (requestMetaContext_followPath that sPath aSegments i sMetaPath oType)) \<Longrightarrow>
     typeLoad l"
proof (induction that sPath aSegments i sMetaPath oType
    rule: requestMetaContext_followPath.induct)
  case (1 that sPath aSegments i sMetaPath oType)
  show ?case
  proof (cases "truthy (seg aSegments i)")
    case False
    with "1.prems" show ?thesis
      by (simp add: requestMetaContext_followPath.simps)
  next
    case t: True
    show ?thesis
    proof (cases "findChild that sMetaPath oType [''Properties'', ''NavigationProperties'']
               (seg aSegments i) False")
      case (Inl e)
      with "1.prems" t show ?thesis
        by (simp add: requestMetaContext_followPath.simps)
    next
      case (Inr r)
      obtain found sMetaPath1 where r: "r = (found, sMetaPath1)" by (cases r)
      show ?thesis
      proof (cases found)
        case None
        with "1.prems" t Inr r show ?thesis
          by (simp add: requestMetaContext_followPath.simps split: sum.splits)
      next
        case (Some op)
        obtain oProperty sProperty where op: "op = (oProperty, sProperty)" by (cases op)
        note f = Inr [unfolded r Some op]
        show ?thesis
        proof (cases "truthy (seg aSegments (skipIndex aSegments (i + 1)))")
          case False
          with "1.prems" t f show ?thesis
            by (simp add: requestMetaContext_followPath.simps)
        next
          case t2: True
          show ?thesis
          proof (cases "js_get oProperty ''Type''")
            case (Inl e)
            with "1.prems" t f t2 show ?thesis
              by (simp add: requestMetaContext_followPath.simps)
          next
            case g: (Inr vType)
            show ?thesis
            proof (cases "keysLength vType")
              case (Inl e)
              with "1.prems" t f t2 g show ?thesis
                by (simp add: requestMetaContext_followPath.simps)
            next
              case k: (Inr n)
              show ?thesis
              proof (cases "n = 1")
                case False
                with "1.prems" t f t2 g k have
                  "l \<in> set (fst (requestMetaContext_followPath that sPath aSegments
                       (skipIndex aSegments (i + 1)) (sMetaPath1 @ ''/Type'') vType))"
                  by (simp add: requestMetaContext_followPath.simps [of that sPath aSegments i])
                from "1.IH"(2) [OF _ f refl refl refl _ g k False this] t t2 show ?thesis
                  by simp
              next
                case True
                show ?thesis
                proof (cases "requestTypeForNavigationProperty that oProperty ''Type''")
                  case (Inl e)
                  with "1.prems" t f t2 g k True show ?thesis
                    by (simp add: requestMetaContext_followPath.simps [of that sPath aSegments i]
                        logged_def typeLoad_def)
                next
                  case (Inr oLoaded)
                  with "1.prems" t f t2 g k True have
                    "l = (oProperty, ''Type'')
                     \<or> l \<in> set (fst (requestMetaContext_followPath that sPath aSegments
                         (skipIndex aSegments (i + 1)) (sMetaPath1 @ ''/Type'') oLoaded))"
                    by (simp add: requestMetaContext_followPath.simps [of that sPath aSegments i]
                        logged_def)
                  then show ?thesis
                  proof
                    assume "l = (oProperty, ''Type'')"
                    then show ?thesis using g k True by (simp add: typeLoad_def)
                  next
                    assume "l \<in> set (fst (requestMetaContext_followPath that sPath aSegments
                         (skipIndex aSegments (i + 1)) (sMetaPath1 @ ''/Type'') oLoaded))"
                    from "1.IH"(1) [OF _ f refl refl refl _ g k True Inr this] t t2
                    show ?thesis
                      by simp
                  qed
                qed
              qed
            qed
          qed
        qed
      qed
    qed
  qed
qed

lemma contextLoads_Nil: "contextLoads []"
  by (simp add: contextLoads_def)

lemma contextLoads_switch:
  "sProperty = ''EntityType'' \<or> sProperty = ''Type'' \<Longrightarrow> list_all typeLoad rest \<Longrightarrow>
     contextLoads ((oSet, sProperty) # rest)"
  by (auto simp: contextLoads_def)

lemma metaFollowPath_all_loads:
  "list_all typeLoad (fst (requestMetaContext_followPath that sPath aSegments i sMetaPath oType))"
  using metaFollowPath_loads by (auto simp: list_all_iff)

lemma followBindings_loads:
  "contextLoads (fst (followBindings that sPath aSegments oEntityContainer i sMetaPath oResult))"
proof (induction that sPath aSegments oEntityContainer i sMetaPath oResult
    rule: followBindings.induct)
  case (1 that sPath aSegments oEntityContainer i sMetaPath oResult)
  note eq = followBindings.simps [of that sPath aSegments oEntityContainer i sMetaPath oResult]
  show ?case
  proof (cases "truthy (seg aSegments (skipIndex aSegments (i + 1)))")
    case False
    then show ?thesis by (simp add: eq contextLoads_Nil)
  next
    case t: True
    show ?thesis
    proof (cases "findChild that sMetaPath (fst oResult) [''NavigationPropertyBindings'']
               (seg aSegments (skipIndex aSegments (i + 1))) False")
      case (Inl e)
      with t show ?thesis by (simp add: eq contextLoads_Nil)
    next
      case (Inr r)
      obtain found sMetaPath1 where r: "r = (found, sMetaPath1)" by (cases r)
      note f = Inr [unfolded r]
      show ?thesis
      proof (cases found)
        case None
        define sProperty where
          "sProperty = (if snd oResult = ''EntitySets'' then ''EntityType'' else ''Type'')"
        have p: "sProperty = ''EntityType'' \<or> sProperty = ''Type''"
          by (simp add: sProperty_def)
        show ?thesis
        proof (cases "requestTypeForNavigationProperty that (fst oResult) sProperty")
          case (Inl e)
          have h: "fst (followBindings that sPath aSegments oEntityContainer i sMetaPath oResult)
                  = [(fst oResult, sProperty)]"
            using t f None Inl by (simp add: eq logged_def sProperty_def)
          show ?thesis
            unfolding h by (rule contextLoads_switch [OF p]) simp
        next
          case (Inr oType)
          have h: "fst (followBindings that sPath aSegments oEntityContainer i sMetaPath oResult)
                  = (fst oResult, sProperty)
                    # fst (requestMetaContext_followPath that sPath aSegments
                             (skipIndex aSegments (i + 1)) (sMetaPath @ ''/'' @ sProperty) oType)"
            using t f None Inr by (simp add: eq logged_def sProperty_def)
          show ?thesis
            unfolding h by (rule contextLoads_switch [OF p metaFollowPath_all_loads])
        qed
      next
        case (Some oNavigationResult)
        note f = f [unfolded Some]
        show ?thesis
        proof (cases "js_get (fst oNavigationResult) ''Target''")
          case (Inl e)
          with t f show ?thesis by (simp add: eq contextLoads_Nil)
        next
          case g1: (Inr vTarget)
          show ?thesis
          proof (cases "js_get vTarget ''Name''")
            case (Inl e)
            with t f g1 show ?thesis by (simp add: eq contextLoads_Nil)
          next
            case g2: (Inr sName)
            show ?thesis
            proof (cases "truthy sName")
              case False
              with t f g1 g2 show ?thesis by (simp add: eq contextLoads_Nil)
            next
              case tn: True
              show ?thesis
              proof (cases "findSetOrSingleton that sPath sMetaPath1 oEntityContainer sName True")
                case (Inl e)
                with t f g1 g2 tn show ?thesis by (simp add: eq contextLoads_Nil)
              next
                case (Inr q)
                obtain oResult1 sMetaPath2 where q: "q = (oResult1, sMetaPath2)" by (cases q)
                note fs = Inr [unfolded q]
                have "followBindings that sPath aSegments oEntityContainer i sMetaPath oResult
                        = followBindings that sPath aSegments oEntityContainer
                            (skipIndex aSegments (i + 1)) (sMetaPath2 @ ''/Target'') oResult1"
                  using t f g1 g2 tn fs by (simp add: eq)
                moreover have "contextLoads (fst (followBindings that sPath aSegments oEntityContainer
                            (skipIndex aSegments (i + 1)) (sMetaPath2 @ ''/Target'') oResult1))"
                  using "1.IH" [OF _ f refl refl g1 g2 _ fs refl] t tn by simp
                ultimately show ?thesis by simp
              qed
            qed
          qed
        qed
      qed
    qed
  qed
qed

lemma followBindings_switch:
  assumes "truthy (seg aSegments (skipIndex aSegments (i + 1)))"
    and "findChild that sMetaPath (fst oResult) [''NavigationPropertyBindings'']
           (seg aSegments (skipIndex aSegments (i + 1))) False = Inr (None, sMetaPath1)"
  shows "followBindings that sPath aSegments oEntityContainer i sMetaPath oResult
     = logged (fst oResult, switchProperty oResult)
         (case requestTypeForNavigationProperty that (fst oResult) (switchProperty oResult) of
            Inl e \<Rightarrow> ([], Inl e)
          | Inr oType \<Rightarrow>
              requestMetaContext_followPath that sPath aSegments (skipIndex aSegments (i + 1))
                (sMetaPath @ ''/'' @ switchProperty oResult) oType)"
  unfolding switchProperty_def using assms
  by (simp add: followBindings.simps [of that sPath aSegments oEntityContainer i sMetaPath oResult]
      del: findChild.simps)

lemma metaFollowPath_type:
  assumes "truthy (seg aSegments i)"
    and "findChild that sMetaPath oType [''Properties'', ''NavigationProperties'']
           (seg aSegments i) False = Inr (Some (oProperty, sFound), sMetaPath1)"
    and "truthy (seg aSegments (skipIndex aSegments (i + 1)))"
    and "js_get oProperty ''Type'' = Inr vType" "keysLength vType = Inr n"
  shows "requestMetaContext_followPath that sPath aSegments i sMetaPath oType
     = (if n = 1
        then logged (oProperty, ''Type'')
               (case requestTypeForNavigationProperty that oProperty ''Type'' of
                  Inl e \<Rightarrow> ([], Inl e)
                | Inr oLoaded \<Rightarrow>
                    requestMetaContext_followPath that sPath aSegments
                      (skipIndex aSegments (i + 1)) (sMetaPath1 @ ''/Type'') oLoaded)
        else requestMetaContext_followPath that sPath aSegments
               (skipIndex aSegments (i + 1)) (sMetaPath1 @ ''/Type'') vType)"
  using assms
  by (simp add: requestMetaContext_followPath.simps [of that sPath aSegments i sMetaPath oType]
      del: findChild.simps)

lemma fst_settle: "fst (settle r) = fst r"
  by (simp add: settle_def)

lemma fst_context:
  "fst (case r of (ls, Inl e) \<Rightarrow> (ls, Inl e) | (ls, Inr sMetaPath) \<Rightarrow> (ls, Inr (f sMetaPath)))
     = fst r"
  by (cases r) (simp split: sum.splits)

lemma requestMetaContext_loads: "contextLoads (fst (requestMetaContext that sPath))"
proof (cases "splitPath that sPath")
  case (Inl e)
  then show ?thesis by (simp add: requestMetaContext_def contextLoads_Nil)
next
  case sp: (Inr aSegments)
  show ?thesis
  proof (cases "aSegments = []")
    case True
    with sp show ?thesis by (simp add: requestMetaContext_def contextLoads_Nil)
  next
    case ne: False
    show ?thesis
    proof (cases "rEntitySetName_exec (aSegments ! 0)")
      case None
      with sp ne show ?thesis by (simp add: requestMetaContext_def contextLoads_Nil)
    next
      case (Some sName)
      show ?thesis
      proof (cases "requestEntityContainer that")
        case (Inl e)
        with sp ne Some show ?thesis by (simp add: requestMetaContext_def contextLoads_Nil)
      next
        case c: (Inr oEntityContainer)
        show ?thesis
        proof (cases "findSetOrSingleton that sPath [] oEntityContainer (JStr sName) False")
          case (Inl e)
          with sp ne Some c show ?thesis
            by (simp add: requestMetaContext_def contextLoads_Nil fst_settle)
        next
          case (Inr r)
          obtain oResult sMetaPath where r: "r = (oResult, sMetaPath)" by (cases r)
          have "fst (requestMetaContext that sPath)
                  = fst (followBindings that sPath aSegments oEntityContainer 0 sMetaPath oResult)"
            using sp ne Some c Inr r
            by (simp add: requestMetaContext_def fst_settle fst_context)
          then show ?thesis
            using followBindings_loads [of that sPath aSegments oEntityContainer 0 sMetaPath oResult]
            by simp
        qed
      qed
    qed
  qed
qed

text \<open>
  C5 (amended). In \<open>requestObject\<close>, for a segment without a name whose property is in
  the current object, \<open>Helper.requestTypeForNavigationProperty\<close> is invoked with the
  current object and the property exactly when the property's value is a non-array
  object with exactly one own key, and the traversal resumes on its result; any other
  value that is not \<open>null\<close> is followed as it is, without a load; so every load of
  \<open>requestObject\<close> is one of a value that is not resolved yet. In
  \<open>requestMetaContext\<close>, the type of the entity set or singleton is requested
  whenever the path switches to the type, whatever the number of its keys; the type of a
  matched property is requested exactly when further segments remain and
  \<open>Object.keys\<close> of the property's \<open>Type\<close> has length one (an object with one key,
  but also an array of one element or a string of one character), and otherwise the
  traversal goes on with the \<open>Type\<close> that is there; so the loads of one call are the
  type of the set or singleton first, followed by such loads of property types.
\<close>

theorem lazy_type_loading:
  "(parseSegment that s = Inr (oPart :: part)
      \<and> (name oPart = None \<or> name oPart = Some [])
      \<and> js_in (property oPart) oObject = Inr True
      \<and> js_get oObject (property oPart) = Inr oNextObject \<longrightarrow>
      (unresolved oNextObject \<longrightarrow>
         requestObject_followPath that sPath (s # aSegments) oObject
           = logged (oObject, property oPart)
               (case requestTypeForNavigationProperty that oObject (property oPart) of
                  Inl e \<Rightarrow> ([], Inl e)
                | Inr oType \<Rightarrow> requestObject_followPath that sPath aSegments oType))
      \<and> (\<not> unresolved oNextObject \<and> oNextObject \<noteq> JNull \<longrightarrow>
         requestObject_followPath that sPath (s # aSegments) oObject
           = requestObject_followPath that sPath aSegments oNextObject))
   \<and> (\<forall>l \<in> set (fst (requestObject that sPath oContext)).
         \<exists>v. js_get (fst l) (snd l) = Inr v \<and> unresolved v)
   \<and> (truthy (seg aSegments (skipIndex aSegments (i + 1)))
      \<and> findChild that sMetaPath (fst oResult) [''NavigationPropertyBindings'']
           (seg aSegments (skipIndex aSegments (i + 1))) False = Inr (None, sFoundPath) \<longrightarrow>
      followBindings that sPath aSegments oEntityContainer i sMetaPath oResult
        = logged (fst oResult, switchProperty oResult)
            (case requestTypeForNavigationProperty that (fst oResult) (switchProperty oResult) of
               Inl e \<Rightarrow> ([], Inl e)
             | Inr oType \<Rightarrow>
                 requestMetaContext_followPath that sPath aSegments
                   (skipIndex aSegments (i + 1)) (sMetaPath @ ''/'' @ switchProperty oResult) oType))
   \<and> (truthy (seg aSegments i)
      \<and> findChild that sMetaPath oType [''Properties'', ''NavigationProperties'']
           (seg aSegments i) False = Inr (Some (oProperty, sFound), sFoundPath)
      \<and> truthy (seg aSegments (skipIndex aSegments (i + 1)))
      \<and> js_get oProperty ''Type'' = Inr vType \<and> keysLength vType = Inr n \<longrightarrow>
      requestMetaContext_followPath that sPath aSegments i sMetaPath oType
        = (if n = 1
           then logged (oProperty, ''Type'')
                  (case requestTypeForNavigationProperty that oProperty ''Type'' of
                     Inl e \<Rightarrow> ([], Inl e)
                   | Inr oLoaded \<Rightarrow>
                       requestMetaContext_followPath that sPath aSegments
                         (skipIndex aSegments (i + 1)) (sFoundPath @ ''/Type'') oLoaded)
           else requestMetaContext_followPath that sPath aSegments
                  (skipIndex aSegments (i + 1)) (sFoundPath @ ''/Type'') vType))
   \<and> contextLoads (fst (requestMetaContext that sPath))"
proof (intro conjI impI ballI; (elim conjE)?)
  assume a: "parseSegment that s = Inr oPart" "name oPart = None \<or> name oPart = Some []"
    "js_in (property oPart) oObject = Inr True" "js_get oObject (property oPart) = Inr oNextObject"
  {
    assume "unresolved oNextObject"
    from followPath_plain_load [OF a this]
    show "requestObject_followPath that sPath (s # aSegments) oObject
           = logged (oObject, property oPart)
               (case requestTypeForNavigationProperty that oObject (property oPart) of
                  Inl e \<Rightarrow> ([], Inl e)
                | Inr oType \<Rightarrow> requestObject_followPath that sPath aSegments oType)" .
  next
    assume "\<not> unresolved oNextObject" "oNextObject \<noteq> JNull"
    from followPath_plain_present [OF a this]
    show "requestObject_followPath that sPath (s # aSegments) oObject
           = requestObject_followPath that sPath aSegments oNextObject" .
  }
next
  fix l assume "l \<in> set (fst (requestObject that sPath oContext))"
  then have "(fst l, snd l) \<in> set (fst (requestObject that sPath oContext))" by simp
  then show "\<exists>v. js_get (fst l) (snd l) = Inr v \<and> unresolved v"
    by (rule requestObject_loads_unresolved)
next
  assume "truthy (seg aSegments (skipIndex aSegments (i + 1)))"
    "findChild that sMetaPath (fst oResult) [''NavigationPropertyBindings'']
           (seg aSegments (skipIndex aSegments (i + 1))) False = Inr (None, sFoundPath)"
  then show "followBindings that sPath aSegments oEntityContainer i sMetaPath oResult
        = logged (fst oResult, switchProperty oResult)
            (case requestTypeForNavigationProperty that (fst oResult) (switchProperty oResult) of
               Inl e \<Rightarrow> ([], Inl e)
             | Inr oType \<Rightarrow>
                 requestMetaContext_followPath that sPath aSegments
                   (skipIndex aSegments (i + 1)) (sMetaPath @ ''/'' @ switchProperty oResult) oType)"
    by (rule followBindings_switch)
next
  assume "truthy (seg aSegments i)"
    "findChild that sMetaPath oType [''Properties'', ''NavigationProperties'']
           (seg aSegments i) False = Inr (Some (oProperty, sFound), sFoundPath)"
    "truthy (seg aSegments (skipIndex aSegments (i + 1)))"
    "js_get oProperty ''Type'' = Inr vType" "keysLength vType = Inr n"
  then show "requestMetaContext_followPath that sPath aSegments i sMetaPath oType
        = (if n = 1
           then logged (oProperty, ''Type'')
                  (case requestTypeForNavigationProperty that oProperty ''Type'' of
                     Inl e \<Rightarrow> ([], Inl e)
                   | Inr oLoaded \<Rightarrow>
                       requestMetaContext_followPath that sPath aSegments
                         (skipIndex aSegments (i + 1)) (sFoundPath @ ''/Type'') oLoaded)
           else requestMetaContext_followPath that sPath aSegments
                  (skipIndex aSegments (i + 1)) (sFoundPath @ ''/Type'') vType)"
    by (rule metaFollowPath_type)
next
  show "contextLoads (fst (requestMetaContext that sPath))"
    by (rule requestMetaContext_loads)
qed

lemma sample_parse:
  "parseSegment sample_model ''EntityType''
     = Inr \<lparr> segment = ''EntityType'', property = ''EntityType'', name = None \<rparr>"
  "parseSegment sample_model ''QualifiedName''
     = Inr \<lparr> segment = ''QualifiedName'', property = ''QualifiedName'', name = None \<rparr>"
  by code_simp+

lemma sample_unresolved:
  "unresolved (placeholder ''ns.EMPLOYEE'')" "\<not> unresolved (JStr ''ns.EMPLOYEE'')"
  by (simp_all add: unresolved_def placeholder_def)

lemma sample_employees_type:
  "js_in ''EntityType'' sample_EMPLOYEES = Inr True"
  "js_get sample_EMPLOYEES ''EntityType'' = Inr (placeholder ''ns.EMPLOYEE'')"
  "requestTypeForNavigationProperty sample_model sample_EMPLOYEES ''EntityType'' = Inr sample_EMPLOYEE"
  by code_simp+

lemma sample_employee_name:
  "js_in ''QualifiedName'' sample_EMPLOYEE = Inr True"
  "js_get sample_EMPLOYEE ''QualifiedName'' = Inr (JStr ''ns.EMPLOYEE'')"
  by code_simp+

lemma sample_object_loads:
  "fst (requestObject sample_model ''/EntitySets('EMPLOYEES')/EntityType/QualifiedName'' None)
     = [(sample_EMPLOYEES, ''EntityType'')]"
  by code_simp

lemma sample_switch:
  "truthy (seg [''EMPLOYEES'', ''ID''] (skipIndex [''EMPLOYEES'', ''ID''] (0 + 1)))"
  "findChild sample_model ''/EntitySets('EMPLOYEES')'' (fst (sample_EMPLOYEES, ''EntitySets''))
     [''NavigationPropertyBindings'']
     (seg [''EMPLOYEES'', ''ID''] (skipIndex [''EMPLOYEES'', ''ID''] (0 + 1))) False
     = Inr (None, ''/EntitySets('EMPLOYEES')'')"
  by code_simp+

lemma sample_navigation:
  "truthy (seg [''EMPLOYEES'', ''EMPLOYEE_2_TEAM'', ''Name''] 1)"
  "findChild sample_model ''M'' sample_EMPLOYEE [''Properties'', ''NavigationProperties'']
     (seg [''EMPLOYEES'', ''EMPLOYEE_2_TEAM'', ''Name''] 1) False
     = Inr (Some (JObj [(''Name'', JStr ''EMPLOYEE_2_TEAM''), (''Type'', placeholder ''ns.TEAM'')],
                  ''NavigationProperties''),
            ''M/NavigationProperties('EMPLOYEE_2_TEAM')'')"
  "truthy (seg [''EMPLOYEES'', ''EMPLOYEE_2_TEAM'', ''Name'']
             (skipIndex [''EMPLOYEES'', ''EMPLOYEE_2_TEAM'', ''Name''] (1 + 1)))"
  "js_get (JObj [(''Name'', JStr ''EMPLOYEE_2_TEAM''), (''Type'', placeholder ''ns.TEAM'')]) ''Type''
     = Inr (placeholder ''ns.TEAM'')"
  "keysLength (placeholder ''ns.TEAM'') = Inr 1"
  by code_simp+

theorem lazy_type_loading_witness:
  "requestObject_followPath sample_model ''p'' [''EntityType'', ''QualifiedName''] sample_EMPLOYEES
     = logged (sample_EMPLOYEES, ''EntityType'')
         (case requestTypeForNavigationProperty sample_model sample_EMPLOYEES ''EntityType'' of
            Inl e \<Rightarrow> ([], Inl e)
          | Inr oType \<Rightarrow> requestObject_followPath sample_model ''p'' [''QualifiedName''] oType)
   \<and> requestObject_followPath sample_model ''p'' [''QualifiedName''] sample_EMPLOYEE
     = requestObject_followPath sample_model ''p'' [] (JStr ''ns.EMPLOYEE'')
   \<and> (\<exists>v. js_get sample_EMPLOYEES ''EntityType'' = Inr v \<and> unresolved v)
   \<and> followBindings sample_model ''/EMPLOYEES/ID'' [''EMPLOYEES'', ''ID''] sample_container 0
         ''/EntitySets('EMPLOYEES')'' (sample_EMPLOYEES, ''EntitySets'')
     = logged (sample_EMPLOYEES, switchProperty (sample_EMPLOYEES, ''EntitySets''))
         (case requestTypeForNavigationProperty sample_model sample_EMPLOYEES
                 (switchProperty (sample_EMPLOYEES, ''EntitySets'')) of
            Inl e \<Rightarrow> ([], Inl e)
          | Inr oType \<Rightarrow>
              requestMetaContext_followPath sample_model ''/EMPLOYEES/ID'' [''EMPLOYEES'', ''ID'']
                (skipIndex [''EMPLOYEES'', ''ID''] (0 + 1))
                (''/EntitySets('EMPLOYEES')'' @ ''/'' @ switchProperty (sample_EMPLOYEES, ''EntitySets''))
                oType)
   \<and> requestMetaContext_followPath sample_model ''p'' [''EMPLOYEES'', ''EMPLOYEE_2_TEAM'', ''Name'']
         1 ''M'' sample_EMPLOYEE
     = logged (JObj [(''Name'', JStr ''EMPLOYEE_2_TEAM''), (''Type'', placeholder ''ns.TEAM'')], ''Type'')
         (case requestTypeForNavigationProperty sample_model
                 (JObj [(''Name'', JStr ''EMPLOYEE_2_TEAM''), (''Type'', placeholder ''ns.TEAM'')])
                 ''Type'' of
            Inl e \<Rightarrow> ([], Inl e)
          | Inr oLoaded \<Rightarrow>
              requestMetaContext_followPath sample_model ''p''
                [''EMPLOYEES'', ''EMPLOYEE_2_TEAM'', ''Name'']
                (skipIndex [''EMPLOYEES'', ''EMPLOYEE_2_TEAM'', ''Name''] (1 + 1))
                (''M/NavigationProperties('EMPLOYEE_2_TEAM')'' @ ''/Type'') oLoaded)
   \<and> contextLoads (fst (requestMetaContext sample_model ''/EMPLOYEES/0/EMPLOYEE_2_TEAM/Name''))"
proof -
  have a: "requestObject_followPath sample_model ''p'' [''EntityType'', ''QualifiedName''] sample_EMPLOYEES
     = logged (sample_EMPLOYEES, ''EntityType'')
         (case requestTypeForNavigationProperty sample_model sample_EMPLOYEES ''EntityType'' of
            Inl e \<Rightarrow> ([], Inl e)
          | Inr oType \<Rightarrow> requestObject_followPath sample_model ''p'' [''QualifiedName''] oType)"
    using lazy_type_loading [where that = sample_model and s = "''EntityType''"
        and oPart = "\<lparr> segment = ''EntityType'', property = ''EntityType'', name = None \<rparr>"
        and oObject = sample_EMPLOYEES and oNextObject = "placeholder ''ns.EMPLOYEE''"
        and sPath = "''p''" and aSegments = "[''QualifiedName'']"]
      sample_parse(1) sample_employees_type(1,2) sample_unresolved(1)
    by simp
  have b: "requestObject_followPath sample_model ''p'' [''QualifiedName''] sample_EMPLOYEE
     = requestObject_followPath sample_model ''p'' [] (JStr ''ns.EMPLOYEE'')"
    using lazy_type_loading [where that = sample_model and s = "''QualifiedName''"
        and oPart = "\<lparr> segment = ''QualifiedName'', property = ''QualifiedName'', name = None \<rparr>"
        and oObject = sample_EMPLOYEE and oNextObject = "JStr ''ns.EMPLOYEE''"
        and sPath = "''p''" and aSegments = "[]"]
      sample_parse(2) sample_employee_name sample_unresolved(2)
    by simp
  have c: "\<exists>v. js_get sample_EMPLOYEES ''EntityType'' = Inr v \<and> unresolved v"
    using lazy_type_loading [where that = sample_model
        and sPath = "''/EntitySets('EMPLOYEES')/EntityType/QualifiedName''" and oContext = None]
    unfolding sample_object_loads
    by simp
  have d: "followBindings sample_model ''/EMPLOYEES/ID'' [''EMPLOYEES'', ''ID''] sample_container 0
         ''/EntitySets('EMPLOYEES')'' (sample_EMPLOYEES, ''EntitySets'')
     = logged (sample_EMPLOYEES, switchProperty (sample_EMPLOYEES, ''EntitySets''))
         (case requestTypeForNavigationProperty sample_model sample_EMPLOYEES
                 (switchProperty (sample_EMPLOYEES, ''EntitySets'')) of
            Inl e \<Rightarrow> ([], Inl e)
          | Inr oType \<Rightarrow>
              requestMetaContext_followPath sample_model ''/EMPLOYEES/ID'' [''EMPLOYEES'', ''ID'']
                (skipIndex [''EMPLOYEES'', ''ID''] (0 + 1))
                (''/EntitySets('EMPLOYEES')'' @ ''/'' @ switchProperty (sample_EMPLOYEES, ''EntitySets''))
                oType)"
    using lazy_type_loading [where that = sample_model and aSegments = "[''EMPLOYEES'', ''ID'']"
        and i = 0 and sMetaPath = "''/EntitySets('EMPLOYEES')''"
        and oResult = "(sample_EMPLOYEES, ''EntitySets'')"
        and sFoundPath = "''/EntitySets('EMPLOYEES')''" and sPath = "''/EMPLOYEES/ID''"
        and oEntityContainer = sample_container]
      sample_switch
    by (simp only: simp_thms fst_conv)
  have e: "requestMetaContext_followPath sample_model ''p'' [''EMPLOYEES'', ''EMPLOYEE_2_TEAM'', ''Name'']
         1 ''M'' sample_EMPLOYEE
     = logged (JObj [(''Name'', JStr ''EMPLOYEE_2_TEAM''), (''Type'', placeholder ''ns.TEAM'')], ''Type'')
         (case requestTypeForNavigationProperty sample_model
                 (JObj [(''Name'', JStr ''EMPLOYEE_2_TEAM''), (''Type'', placeholder ''ns.TEAM'')])
                 ''Type'' of
            Inl e \<Rightarrow> ([], Inl e)
          | Inr oLoaded \<Rightarrow>
              requestMetaContext_followPath sample_model ''p''
                [''EMPLOYEES'', ''EMPLOYEE_2_TEAM'', ''Name'']
                (skipIndex [''EMPLOYEES'', ''EMPLOYEE_2_TEAM'', ''Name''] (1 + 1))
                (''M/NavigationProperties('EMPLOYEE_2_TEAM')'' @ ''/Type'') oLoaded)"
    using lazy_type_loading [where that = sample_model
        and aSegments = "[''EMPLOYEES'', ''EMPLOYEE_2_TEAM'', ''Name'']"
        and i = 1 and sMetaPath = "''M''" and oType = sample_EMPLOYEE
        and oProperty = "JObj [(''Name'', JStr ''EMPLOYEE_2_TEAM''), (''Type'', placeholder ''ns.TEAM'')]"
        and sFound = "''NavigationProperties''"
        and sFoundPath = "''M/NavigationProperties('EMPLOYEE_2_TEAM')''"
        and vType = "placeholder ''ns.TEAM''" and n = 1 and sPath = "''p''"]
      sample_navigation
    by (simp only: simp_thms if_True)
  have f: "contextLoads (fst (requestMetaContext sample_model ''/EMPLOYEES/0/EMPLOYEE_2_TEAM/Name''))"
    by (rule lazy_type_loading [THEN conjunct2, THEN conjunct2, THEN conjunct2, THEN conjunct2])
  show ?thesis
    using a b c d e f by (intro conjI)
qed

text \<open>
  C5 as stated has no load of a type that has more than one key, and no load of a type
  that is an array. \<open>requestMetaContext\<close> requests the type of the entity set
  \<open>TEAMS\<close>, which is resolved and has three keys, and the type of the property
  \<open>Tags\<close>, which is an array of one element.
\<close>

theorem lazy_type_loading_counterexample:
  "fst (requestMetaContext sample_model ''/TEAMS/0/Name'') = [(sample_TEAMS, ''EntityType'')]
   \<and> js_get sample_TEAMS ''EntityType'' = Inr sample_TEAM
   \<and> keysLength sample_TEAM = Inr 3
   \<and> \<not> unresolved sample_TEAM
   \<and> fst (requestMetaContext sample_things ''/THINGS/0/Tags/0/x'')
       = [(sample_THINGS, ''EntityType''), (sample_tags, ''Type'')]
   \<and> js_get sample_tags ''Type'' = Inr (JArr [JObj [(''QualifiedName'', JStr ''Edm.String'')]])
   \<and> \<not> unresolved (JArr [JObj [(''QualifiedName'', JStr ''Edm.String'')]])"
proof -
  have a: "fst (requestMetaContext sample_model ''/TEAMS/0/Name'') = [(sample_TEAMS, ''EntityType'')]"
    by code_simp
  have b: "js_get sample_TEAMS ''EntityType'' = Inr sample_TEAM"
    by code_simp
  have c: "keysLength sample_TEAM = Inr 3"
    by code_simp
  have d: "\<not> unresolved sample_TEAM"
    by (simp add: unresolved_def sample_TEAM_def)
  have e: "fst (requestMetaContext sample_things ''/THINGS/0/Tags/0/x'')
       = [(sample_THINGS, ''EntityType''), (sample_tags, ''Type'')]"
    by code_simp
  have f: "js_get sample_tags ''Type'' = Inr (JArr [JObj [(''QualifiedName'', JStr ''Edm.String'')]])"
    by code_simp
  have g: "\<not> unresolved (JArr [JObj [(''QualifiedName'', JStr ''Edm.String'')]])"
    by (simp add: unresolved_def)
  show ?thesis
    using a b c d e f g by (intro conjI)
qed

section \<open>ODataMetaModel: requestMetaContext\<close>

lemma truthy_seg: "truthy (seg xs k) \<longleftrightarrow> k < length xs \<and> xs ! k \<noteq> []"
  by (simp add: seg_def)

















section \<open>AdditionalElementsPlugin: properties\<close>

text \<open>
  C9. Whenever more than one element overlay is passed, \<open>isEnabled\<close> returns
  \<open>false\<close>: it neither throws nor looks at the sibling/child flag, the aggregation
  name, the stored actions, the cached elements or the extensibility information.
\<close>

theorem isEnabled_multiselect:
  "length aElementOverlays > 1 \<Longrightarrow>
     isEnabled ov this bOverlayIsSibling aElementOverlays sAggregationName = Inr False"
  by (simp add: isEnabled_def)

theorem isEnabled_multiselect_witness:
  "length [1, 2 :: overlay] > 1
   \<and> isEnabled sample_overlays sample_plugin True [1, 2] ''content'' = Inr False
   \<and> isEnabled sample_overlays sample_plugin True [1] ''content'' = Inr True"
proof -
  have two: "length [1, 2 :: overlay] > 1"
    by simp
  have one: "isEnabled sample_overlays sample_plugin True [1] ''content'' = Inr True"
    by (simp add: isEnabled_def sample_overlays_def sample_plugin_def
        getCachedElements_def pick_def)
  from isEnabled_multiselect [OF two, of sample_overlays sample_plugin True "''content''"]
  show ?thesis
    using two one by simp
qed

section \<open>AdditionalElementsPlugin: the context menu has one entry\<close>

lemma submenuItemsFrom_resolves:
  assumes "\<forall>m \<in> set aElements. \<exists>sText.
             getMenuItemText env ov bOverlayIsSibling (epa_aggregation m) aElementOverlays
               = Inr sText"
  shows "\<exists>aItems. submenuItemsFrom env ov bOverlayIsSibling aElementOverlays iPosition
                     aSubMenuItems aElements = Inr aItems
                 \<and> length aItems = length aSubMenuItems + length aElements"
  using assms
proof (induction aElements arbitrary: iPosition aSubMenuItems)
  case Nil
  then show ?case by simp
next
  case (Cons m rest)
  from Cons.prems obtain sText where
    t: "getMenuItemText env ov bOverlayIsSibling (epa_aggregation m) aElementOverlays = Inr sText"
    by auto
  from Cons.prems have r: "\<forall>m \<in> set rest. \<exists>sText.
       getMenuItemText env ov bOverlayIsSibling (epa_aggregation m) aElementOverlays = Inr sText"
    by simp
  obtain oItem where
    step: "submenuItemsFrom env ov bOverlayIsSibling aElementOverlays iPosition aSubMenuItems
             (m # rest)
           = submenuItemsFrom env ov bOverlayIsSibling aElementOverlays (iPosition + 1)
               (aSubMenuItems @ [oItem]) rest"
    using t by simp
  from Cons.IH [OF r, of "iPosition + 1" "aSubMenuItems @ [oItem]"] show ?case
    unfolding step by simp
qed

lemma buildSubmenuItems_resolves:
  assumes "\<forall>m \<in> set aElements. \<exists>sText.
             getMenuItemText env ov bOverlayIsSibling (epa_aggregation m) aElementOverlays
               = Inr sText"
  shows "\<exists>aItems. buildSubmenuItems env ov bOverlayIsSibling aElementOverlays aElements
                     = Inr aItems
                 \<and> length aItems = length aElements"
  using submenuItemsFrom_resolves [OF assms, of 0 "[]"]
  by (simp add: buildSubmenuItems_def)

lemma buildMenuItem_plain:
  "\<exists>oMenuItem. buildMenuItem env ov sPluginId bOverlayIsSibling aElementOverlays aBoth False
                  = Inr oMenuItem
     \<and> mi_id oMenuItem = sPluginId \<and> mi_submenu oMenuItem = None"
  by (simp add: buildMenuItem_def Let_def)

lemma buildMenuItem_submenu:
  assumes "\<forall>m \<in> set (fst aBoth). \<exists>sText.
             getMenuItemText env ov False (epa_aggregation m) aElementOverlays = Inr sText"
    and "sPluginId = ''CTX_ADD_ELEMENTS_CHILD_AND_SIBLING'' \<longrightarrow>
           (\<forall>m \<in> set (snd aBoth). \<exists>sText.
              getMenuItemText env ov True (epa_aggregation m) aElementOverlays = Inr sText)"
  shows "\<exists>oMenuItem aItems. buildMenuItem env ov sPluginId bOverlayIsSibling aElementOverlays
                         aBoth True = Inr oMenuItem
     \<and> mi_id oMenuItem = sPluginId \<and> mi_submenu oMenuItem = Some aItems
     \<and> length aItems = length (fst aBoth)
          + (if sPluginId = ''CTX_ADD_ELEMENTS_CHILD_AND_SIBLING'' then length (snd aBoth) else 0)"
proof -
  from buildSubmenuItems_resolves [OF assms(1)] obtain aChildItems where
    c: "buildSubmenuItems env ov False aElementOverlays (fst aBoth) = Inr aChildItems"
       "length aChildItems = length (fst aBoth)"
    by (elim exE conjE)
  show ?thesis
  proof (cases "sPluginId = ''CTX_ADD_ELEMENTS_CHILD_AND_SIBLING''")
    case False
    with c show ?thesis
      by (simp add: buildMenuItem_def Let_def)
  next
    case True
    with assms(2) have "\<forall>m \<in> set (snd aBoth). \<exists>sText.
        getMenuItemText env ov True (epa_aggregation m) aElementOverlays = Inr sText"
      by (rule_tac mp)
    from buildSubmenuItems_resolves [OF this] obtain aSiblingItems where
      s: "buildSubmenuItems env ov True aElementOverlays (snd aBoth) = Inr aSiblingItems"
         "length aSiblingItems = length (snd aBoth)"
      by (elim exE conjE)
    from c s True show ?thesis
      by (simp add: buildMenuItem_def Let_def)
  qed
qed

lemma chooseMenuItem_resolves:
  assumes c: "\<forall>m \<in> set aChildren. \<exists>sText.
             getMenuItemText env ov False (epa_aggregation m) aElementOverlays = Inr sText"
    and s: "\<forall>m \<in> set aSiblings. \<exists>sText.
             getMenuItemText env ov True (epa_aggregation m) aElementOverlays = Inr sText"
  shows "\<exists>r. chooseMenuItem env ov aElementOverlays (aChildren, aSiblings) = Inr r
     \<and> (r \<noteq> None \<longleftrightarrow>
          isAvailable env True aElementOverlays
            \<and> (\<not> isAvailable env False aElementOverlays \<or> aChildren = [])
          \<or> \<not> isAvailable env True aElementOverlays \<and> isAvailable env False aElementOverlays
            \<and> \<not> length aChildren > 1
          \<or> \<not> isAvailable env True aElementOverlays \<and> isAvailable env False aElementOverlays
            \<and> length aChildren > 1
          \<or> isAvailable env False aElementOverlays \<and> isAvailable env True aElementOverlays
            \<and> aChildren \<noteq> [] \<and> aSiblings \<noteq> [])
     \<and> (\<forall>oMenuItem. r = Some oMenuItem \<longrightarrow>
          (mi_submenu oMenuItem \<noteq> None \<longleftrightarrow>
             \<not> isAvailable env True aElementOverlays \<and> isAvailable env False aElementOverlays
               \<and> length aChildren > 1
             \<or> isAvailable env False aElementOverlays \<and> isAvailable env True aElementOverlays
               \<and> aChildren \<noteq> [] \<and> aSiblings \<noteq> []))"
proof -
  define bC where "bC = isAvailable env False aElementOverlays"
  define bS where "bS = isAvailable env True aElementOverlays"
  note plain = buildMenuItem_plain [of env ov _ _ aElementOverlays "(aChildren, aSiblings)"]
  have c': "\<forall>m \<in> set (fst (aChildren, aSiblings)). \<exists>sText.
             getMenuItemText env ov False (epa_aggregation m) aElementOverlays = Inr sText"
    using c by simp
  have s': "sPluginId = ''CTX_ADD_ELEMENTS_CHILD_AND_SIBLING'' \<longrightarrow>
           (\<forall>m \<in> set (snd (aChildren, aSiblings)). \<exists>sText.
              getMenuItemText env ov True (epa_aggregation m) aElementOverlays = Inr sText)"
    for sPluginId
    using s by simp
  note sub = buildMenuItem_submenu [OF c' s', of _ False]
  consider (one) "bS \<and> (\<not> bC \<or> aChildren = [])"
    | (two) "\<not> bS \<and> bC \<and> \<not> length aChildren > 1"
    | (three) "\<not> bS \<and> bC \<and> length aChildren > 1"
    | (four) "bC \<and> bS \<and> aChildren \<noteq> [] \<and> aSiblings \<noteq> []"
    | (none) "\<not> bS \<and> \<not> bC \<or> bS \<and> bC \<and> aChildren \<noteq> [] \<and> aSiblings = []"
    by (cases bS; cases bC; cases "aChildren = []"; cases "aSiblings = []"; cases "length aChildren > 1"; simp)
  then show ?thesis
  proof cases
    case one
    from plain [of "''CTX_ADD_ELEMENTS_AS_SIBLING''" True] obtain oMenuItem where
      b: "buildMenuItem env ov ''CTX_ADD_ELEMENTS_AS_SIBLING'' True aElementOverlays
            (aChildren, aSiblings) False = Inr oMenuItem"
         "mi_submenu oMenuItem = None"
      by (elim exE conjE)
    have "chooseMenuItem env ov aElementOverlays (aChildren, aSiblings) = Inr (Some oMenuItem)"
      using one b(1) by (simp add: chooseMenuItem_def Let_def bC_def bS_def)
    with one b(2) show ?thesis
      unfolding bC_def [symmetric] bS_def [symmetric] by auto
  next
    case two
    from plain [of "''CTX_ADD_ELEMENTS_AS_CHILD''" False] obtain oMenuItem where
      b: "buildMenuItem env ov ''CTX_ADD_ELEMENTS_AS_CHILD'' False aElementOverlays
            (aChildren, aSiblings) False = Inr oMenuItem"
         "mi_submenu oMenuItem = None"
      by (elim exE conjE)
    have "chooseMenuItem env ov aElementOverlays (aChildren, aSiblings) = Inr (Some oMenuItem)"
      using two b(1) by (simp add: chooseMenuItem_def Let_def bC_def bS_def)
    with two b(2) show ?thesis
      unfolding bC_def [symmetric] bS_def [symmetric] by auto
  next
    case three
    from sub [of "''CTX_ADD_ELEMENTS_AS_CHILD''"] obtain oMenuItem aItems where
      b: "buildMenuItem env ov ''CTX_ADD_ELEMENTS_AS_CHILD'' False aElementOverlays
            (aChildren, aSiblings) True = Inr oMenuItem"
         "mi_submenu oMenuItem = Some aItems"
      by (elim exE conjE)
    have "chooseMenuItem env ov aElementOverlays (aChildren, aSiblings) = Inr (Some oMenuItem)"
      using three b(1) by (simp add: chooseMenuItem_def Let_def bC_def bS_def)
    with three b(2) show ?thesis
      unfolding bC_def [symmetric] bS_def [symmetric] by auto
  next
    case four
    from sub [of "''CTX_ADD_ELEMENTS_CHILD_AND_SIBLING''"] obtain oMenuItem aItems where
      b: "buildMenuItem env ov ''CTX_ADD_ELEMENTS_CHILD_AND_SIBLING'' False aElementOverlays
            (aChildren, aSiblings) True = Inr oMenuItem"
         "mi_submenu oMenuItem = Some aItems"
      by (elim exE conjE)
    have "chooseMenuItem env ov aElementOverlays (aChildren, aSiblings) = Inr (Some oMenuItem)"
      using four b(1) by (simp add: chooseMenuItem_def Let_def bC_def bS_def)
    with four b(2) show ?thesis
      unfolding bC_def [symmetric] bS_def [symmetric] by auto
  next
    case none
    have "chooseMenuItem env ov aElementOverlays (aChildren, aSiblings) = Inr None"
      using none by (auto simp add: chooseMenuItem_def Let_def bC_def bS_def)
    with none show ?thesis
      unfolding bC_def [symmetric] bS_def [symmetric] by auto
  qed
qed

text \<open>
  Claim C10. When both calls of \<open>getAllElements\<close> resolve, with \<open>aChildren\<close> and
  \<open>aSiblings\<close>, and the display texts of their aggregations can be read, the promise of
  \<open>getMenuItems\<close> resolves with an array of at most one item. It has exactly one item
  when one of the four cases applies (siblings only; children only with at most one
  aggregation; children only with several aggregations; children and siblings), and is
  empty otherwise. The one item is the enhanced menu item, and it carries a submenu
  exactly in the third and the fourth case: the sibling case and the child case never
  give two top-level items.
\<close>

theorem getMenuItems_at_most_one:
  assumes "getAllElements env (clearCachedElements this) False aElementOverlays
             = (this1, Resolved aChildren)"
    and "getAllElements env this1 True aElementOverlays = (this2, Resolved aSiblings)"
    and "\<forall>m \<in> set aChildren. \<exists>sText.
           getMenuItemText env ov False (epa_aggregation m) aElementOverlays = Inr sText"
    and "\<forall>m \<in> set aSiblings. \<exists>sText.
           getMenuItemText env ov True (epa_aggregation m) aElementOverlays = Inr sText"
  shows "\<exists>aMenuItems.
       getMenuItems env ov this bSiblingRejectsFirst aElementOverlays
         = (this2, Resolved aMenuItems)
     \<and> length aMenuItems \<le> 1
     \<and> (length aMenuItems = 1 \<longleftrightarrow>
          isAvailable env True aElementOverlays
            \<and> (\<not> isAvailable env False aElementOverlays \<or> aChildren = [])
          \<or> \<not> isAvailable env True aElementOverlays \<and> isAvailable env False aElementOverlays
            \<and> \<not> length aChildren > 1
          \<or> \<not> isAvailable env True aElementOverlays \<and> isAvailable env False aElementOverlays
            \<and> length aChildren > 1
          \<or> isAvailable env False aElementOverlays \<and> isAvailable env True aElementOverlays
            \<and> aChildren \<noteq> [] \<and> aSiblings \<noteq> [])
     \<and> (\<forall>oItem. aMenuItems = [oItem] \<longrightarrow>
          (\<exists>oMenuItem.
             oItem = enhanceMenuItem env oMenuItem aElementOverlays
                       [''addViaDelegate'', ''reveal'', ''custom'']
           \<and> (mi_submenu oMenuItem \<noteq> None \<longleftrightarrow>
                \<not> isAvailable env True aElementOverlays \<and> isAvailable env False aElementOverlays
                  \<and> length aChildren > 1
                \<or> isAvailable env False aElementOverlays \<and> isAvailable env True aElementOverlays
                  \<and> aChildren \<noteq> [] \<and> aSiblings \<noteq> [])))"
proof -
  from chooseMenuItem_resolves [OF assms(3) assms(4)] obtain r where
    r: "chooseMenuItem env ov aElementOverlays (aChildren, aSiblings) = Inr r"
    and some: "r \<noteq> None \<longleftrightarrow>
          isAvailable env True aElementOverlays
            \<and> (\<not> isAvailable env False aElementOverlays \<or> aChildren = [])
          \<or> \<not> isAvailable env True aElementOverlays \<and> isAvailable env False aElementOverlays
            \<and> \<not> length aChildren > 1
          \<or> \<not> isAvailable env True aElementOverlays \<and> isAvailable env False aElementOverlays
            \<and> length aChildren > 1
          \<or> isAvailable env False aElementOverlays \<and> isAvailable env True aElementOverlays
            \<and> aChildren \<noteq> [] \<and> aSiblings \<noteq> []"
    and sub: "\<forall>oMenuItem. r = Some oMenuItem \<longrightarrow>
          (mi_submenu oMenuItem \<noteq> None \<longleftrightarrow>
             \<not> isAvailable env True aElementOverlays \<and> isAvailable env False aElementOverlays
               \<and> length aChildren > 1
             \<or> isAvailable env False aElementOverlays \<and> isAvailable env True aElementOverlays
               \<and> aChildren \<noteq> [] \<and> aSiblings \<noteq> [])"
    by (elim exE conjE)
  have g: "getMenuItems env ov this bSiblingRejectsFirst aElementOverlays
      = (this2, case menuItemsFor env ov aElementOverlays (aChildren, aSiblings) of
                  Inl e \<Rightarrow> Rejected e | Inr aMenuItems \<Rightarrow> Resolved aMenuItems)"
    by (simp add: getMenuItems_def assms(1) assms(2))
  show ?thesis
  proof (cases r)
    case None
    with r have "menuItemsFor env ov aElementOverlays (aChildren, aSiblings) = Inr []"
      by (simp add: menuItemsFor_def)
    with g None some show ?thesis
      by auto
  next
    case (Some oMenuItem)
    with r have "menuItemsFor env ov aElementOverlays (aChildren, aSiblings)
        = Inr [enhanceMenuItem env oMenuItem aElementOverlays
                 [''addViaDelegate'', ''reveal'', ''custom'']]"
      by (simp add: menuItemsFor_def)
    with g have g': "getMenuItems env ov this bSiblingRejectsFirst aElementOverlays
        = (this2, Resolved [enhanceMenuItem env oMenuItem aElementOverlays
                 [''addViaDelegate'', ''reveal'', ''custom'']])"
      by simp
    from some Some have one: "isAvailable env True aElementOverlays
            \<and> (\<not> isAvailable env False aElementOverlays \<or> aChildren = [])
          \<or> \<not> isAvailable env True aElementOverlays \<and> isAvailable env False aElementOverlays
            \<and> \<not> length aChildren > 1
          \<or> \<not> isAvailable env True aElementOverlays \<and> isAvailable env False aElementOverlays
            \<and> length aChildren > 1
          \<or> isAvailable env False aElementOverlays \<and> isAvailable env True aElementOverlays
            \<and> aChildren \<noteq> [] \<and> aSiblings \<noteq> []"
      by simp
    from sub Some have sub': "mi_submenu oMenuItem \<noteq> None \<longleftrightarrow>
             \<not> isAvailable env True aElementOverlays \<and> isAvailable env False aElementOverlays
               \<and> length aChildren > 1
             \<or> isAvailable env False aElementOverlays \<and> isAvailable env True aElementOverlays
               \<and> aChildren \<noteq> [] \<and> aSiblings \<noteq> []"
      by simp
    show ?thesis
    proof (intro exI conjI)
      show "getMenuItems env ov this bSiblingRejectsFirst aElementOverlays
        = (this2, Resolved [enhanceMenuItem env oMenuItem aElementOverlays
                 [''addViaDelegate'', ''reveal'', ''custom'']])"
        by (rule g')
      show "length [enhanceMenuItem env oMenuItem aElementOverlays
                 [''addViaDelegate'', ''reveal'', ''custom'']] \<le> 1"
        by simp
      show "length [enhanceMenuItem env oMenuItem aElementOverlays
                 [''addViaDelegate'', ''reveal'', ''custom'']] = 1 \<longleftrightarrow>
          isAvailable env True aElementOverlays
            \<and> (\<not> isAvailable env False aElementOverlays \<or> aChildren = [])
          \<or> \<not> isAvailable env True aElementOverlays \<and> isAvailable env False aElementOverlays
            \<and> \<not> length aChildren > 1
          \<or> \<not> isAvailable env True aElementOverlays \<and> isAvailable env False aElementOverlays
            \<and> length aChildren > 1
          \<or> isAvailable env False aElementOverlays \<and> isAvailable env True aElementOverlays
            \<and> aChildren \<noteq> [] \<and> aSiblings \<noteq> []"
        using one by simp
      show "\<forall>oItem. [enhanceMenuItem env oMenuItem aElementOverlays
                 [''addViaDelegate'', ''reveal'', ''custom'']] = [oItem] \<longrightarrow>
          (\<exists>oMenuItem.
             oItem = enhanceMenuItem env oMenuItem aElementOverlays
                       [''addViaDelegate'', ''reveal'', ''custom'']
           \<and> (mi_submenu oMenuItem \<noteq> None \<longleftrightarrow>
                \<not> isAvailable env True aElementOverlays \<and> isAvailable env False aElementOverlays
                  \<and> length aChildren > 1
                \<or> isAvailable env False aElementOverlays \<and> isAvailable env True aElementOverlays
                  \<and> aChildren \<noteq> [] \<and> aSiblings \<noteq> []))"
        using sub' by blast
    qed
  qed
qed

lemma sample_menu_children:
  "getAllElements sample_menu_env (clearCachedElements sample_plugin) False [1]
     = (sample_menu_plugin False, Resolved sample_children)"
  by code_simp

lemma sample_menu_siblings:
  "getAllElements sample_menu_env (sample_menu_plugin False) True [1]
     = (sample_menu_plugin True, Resolved [])"
  by code_simp

lemma sample_menu_texts:
  "\<forall>m \<in> set sample_children. \<exists>sText.
     getMenuItemText sample_menu_env sample_overlays False (epa_aggregation m) [1] = Inr sText"
  by (simp add: sample_children_def getMenuItemText_def first_def sample_menu_env_def)

lemma sample_menu_available:
  "\<not> isAvailable sample_menu_env True [1] \<and> isAvailable sample_menu_env False [1]
   \<and> length sample_children > 1"
  by (simp add: isAvailable_def sample_menu_env_def sample_children_def)

lemma sample_menu_enhance:
  "enhanceMenuItem sample_menu_env oMenuItem aElementOverlays aActions = oMenuItem"
  by (simp add: sample_menu_env_def)

theorem getMenuItems_at_most_one_witness:
  "\<exists>oMenuItem.
     getMenuItems sample_menu_env sample_overlays sample_plugin False [1]
       = (sample_menu_plugin True, Resolved [oMenuItem])
   \<and> mi_submenu oMenuItem \<noteq> None"
proof -
  have none: "\<forall>m \<in> set ([] :: unit elements_per_aggregation list). \<exists>sText.
     getMenuItemText sample_menu_env sample_overlays True (epa_aggregation m) [1] = Inr sText"
    by simp
  from getMenuItems_at_most_one [OF sample_menu_children sample_menu_siblings
      sample_menu_texts none, of False]
  obtain aMenuItems where
    g: "getMenuItems sample_menu_env sample_overlays sample_plugin False [1]
         = (sample_menu_plugin True, Resolved aMenuItems)"
    and one: "length aMenuItems = 1"
    and sub: "\<forall>oItem. aMenuItems = [oItem] \<longrightarrow>
          (\<exists>oMenuItem. oItem = oMenuItem \<and> mi_submenu oMenuItem \<noteq> None)"
    using sample_menu_available by (auto simp add: sample_menu_enhance)
  from one obtain oItem where "aMenuItems = [oItem]"
    by (cases aMenuItems) simp_all
  with g sub show ?thesis
    by blast
qed

section \<open>AdditionalElementsPlugin: the selection is sorted by label, descending\<close>

lemma jsLess_lexord:
  "jsLess a b \<longleftrightarrow> (a, b) \<in> lexord {(x, y). (of_char x :: nat) < of_char y}"
  by (induction a b rule: jsLess.induct) simp_all

lemma jsLess_irrefl: "\<not> jsLess a a"
  by (induction a) simp_all

lemma jsLess_trans: "jsLess a b \<Longrightarrow> jsLess b c \<Longrightarrow> jsLess a c"
  unfolding jsLess_lexord
  by (rule lexord_trans) (auto simp: trans_def)

lemma jsLess_total: "jsLess a b \<or> a = b \<or> jsLess b a"
proof -
  have "(x, y) \<in> {(x, y). (of_char x :: nat) < of_char y} \<or> x = y
        \<or> (y, x) \<in> {(x, y). (of_char x :: nat) < of_char y}" for x y :: char
    using of_char_eq_iff [of x y, where ?'a = nat] by auto
  then have "\<forall>x y :: char. (x, y) \<in> {(x, y). (of_char x :: nat) < of_char y} \<or> x = y
        \<or> (y, x) \<in> {(x, y). (of_char x :: nat) < of_char y}"
    by blast
  then show ?thesis
    unfolding jsLess_lexord by (rule lexord_linear)
qed

lemma not_jsLess_trans:
  assumes "\<not> jsLess a b" "\<not> jsLess b c"
  shows "\<not> jsLess a c"
proof
  assume ac: "jsLess a c"
  from jsLess_total [of b a] assms(1) consider "jsLess b a" | "a = b"
    by auto
  then show False
  proof cases
    case 1
    from 1 ac have "jsLess b c" by (rule jsLess_trans)
    with assms(2) show False ..
  next
    case 2
    with ac assms(2) show False by simp
  qed
qed

lemma compareLabels_le:
  "compareLabels x y \<le> 0 \<longleftrightarrow> \<not> jsLess (se_label x) (se_label y)"
  using jsLess_trans [of "se_label x" "se_label y" "se_label x"] jsLess_irrefl [of "se_label x"]
  by (auto simp: compareLabels_def)

lemma mset_arrayInsert: "mset (arrayInsert f x ys) = add_mset x (mset ys)"
  by (induction ys) simp_all

lemma mset_arraySort: "mset (arraySort f xs) = mset xs"
  by (induction xs) (simp_all add: arraySort_def mset_arrayInsert)

lemma set_arrayInsert: "set (arrayInsert f x ys) = insert x (set ys)"
  using mset_arrayInsert [of f x ys, THEN arg_cong, of set_mset] by simp

lemma set_arraySort: "set (arraySort f xs) = set xs"
  using mset_arraySort [of f xs, THEN arg_cong, of set_mset] by simp

lemma arraySort_Nil: "arraySort f xs = [] \<longleftrightarrow> xs = []"
  using mset_arraySort [of f xs] by (metis mset_zero_iff)

lemma descending_arrayInsert:
  "descending ys \<Longrightarrow> descending (arrayInsert compareLabels x ys)"
proof (induction ys)
  case Nil
  then show ?case by (simp add: descending_def)
next
  case (Cons y ys)
  show ?case
  proof (cases "compareLabels x y \<le> 0")
    case True
    then have xy: "\<not> jsLess (se_label x) (se_label y)"
      by (simp add: compareLabels_le)
    have "\<not> jsLess (se_label x) (se_label z)" if "z \<in> set ys" for z
    proof -
      from Cons.prems that have "\<not> jsLess (se_label y) (se_label z)"
        by (simp add: descending_def)
      with xy show ?thesis by (rule not_jsLess_trans)
    qed
    with True xy Cons.prems show ?thesis
      by (simp add: descending_def)
  next
    case False
    then have "jsLess (se_label x) (se_label y)"
      by (simp add: compareLabels_le)
    then have yx: "\<not> jsLess (se_label y) (se_label x)"
      using jsLess_trans [of "se_label x" "se_label y" "se_label x"] jsLess_irrefl by blast
    from Cons.prems have "descending ys"
      by (simp add: descending_def)
    then have "descending (arrayInsert compareLabels x ys)"
      by (rule Cons.IH)
    with False yx Cons.prems show ?thesis
      by (auto simp: descending_def set_arrayInsert)
  qed
qed

lemma descending_arraySort: "descending (arraySort compareLabels xs)"
proof (induction xs)
  case Nil
  show ?case by (simp add: arraySort_def descending_def)
next
  case (Cons x xs)
  then show ?case
    using descending_arrayInsert [of "arraySort compareLabels xs" x]
    by (simp add: arraySort_def)
qed

section \<open>AdditionalElementsPlugin: the commands of a selection\<close>

lemma succeeds_Inr: "succeeds r \<longleftrightarrow> (\<exists>v. r = Inr v)"
  by (cases r) (simp_all add: succeeds_def)

lemma invisible_commands:
  assumes "revealData env x = Inr u" "getCommandFor env ''reveal'' (Some x) = Inr oReveal"
    and "moveNeeded env x = Inr bMove"
    and "bMove \<longrightarrow> getCommandFor env ''move'' (Some x) = Inr oMove"
  shows "createCommandsForInvisibleElement env (Some c) x st
     = (st \<lparr> cs_requests := cs_requests st
                 @ (''reveal'', Some x) # (if bMove then [(''move'', Some x)] else []),
               cs_commands := cs_commands st @ oReveal # (if bMove then given oMove else []) \<rparr>,
        Inr ())"
  using assms
  by (cases bMove; cases oMove)
     (simp_all add: createCommandsForInvisibleElement_def createRevealCommandForInvisible_def
       createMoveCommandForInvisible_def andThen_def now_def request_def addCommand_def given_def)

lemma delegate_commands:
  assumes "delegateData env = Inr u" "libsMissing env = Inr bLibs"
    and "bLibs \<longrightarrow> getCommandFor env ''addLibrary'' None = Inr oLib"
    and "delegateSettings env x = Inr w"
    and "getCommandFor env ''addDelegateProperty'' (Some x) = Inr oAdd"
  shows "createCommandsForAddViaDelegate env (Some c) x st
     = (st \<lparr> cs_requests := cs_requests st
                 @ (if bLibs then [(''addLibrary'', None)] else [])
                 @ [(''addDelegateProperty'', Some x)],
               cs_commands := cs_commands st @ (if bLibs then given oLib else []) @ given oAdd \<rparr>,
        Inr ())"
  using assms
  by (cases bLibs; cases oLib; cases oAdd)
     (simp_all add: createCommandsForAddViaDelegate_def createCommandForAddLibrary_def
       createAddViaDelegateCommand_def andThen_def now_def request_def addCommand_def given_def)

lemma custom_commands:
  assumes "customSettings env x = Inr u" "getCommandFor env ''customAdd'' (Some x) = Inr oAdd"
  shows "createCommandsForCustomElement env (Some c) x st
     = (st \<lparr> cs_requests := cs_requests st @ [(''customAdd'', Some x)],
               cs_commands := cs_commands st @ given oAdd \<rparr>,
        Inr ())"
  using assms
  by (cases oAdd)
     (simp_all add: createCommandsForCustomElement_def andThen_def now_def request_def
       addCommand_def given_def)

lemma createCommandsFor_creatable:
  assumes "creatable env x"
  shows "createCommandsFor env (Some c) x st
     = (st \<lparr> cs_requests := cs_requests st @ requestsOf env x,
               cs_commands := cs_commands st @ commandsOf env x \<rparr>,
        Inr ())"
proof -
  consider (invisible) "se_type x = ''invisible''"
    | (delegate) "se_type x \<noteq> ''invisible''" "se_type x = ''delegate''"
    | (custom) "se_type x \<noteq> ''invisible''" "se_type x \<noteq> ''delegate''" "se_type x = ''custom''"
    | (other) "se_type x \<noteq> ''invisible''" "se_type x \<noteq> ''delegate''" "se_type x \<noteq> ''custom''"
    by blast
  then show ?thesis
  proof cases
    case invisible
    with assms obtain u oReveal bMove where
      a: "revealData env x = Inr u" "getCommandFor env ''reveal'' (Some x) = Inr oReveal"
         "moveNeeded env x = Inr bMove"
      and m: "bMove \<longrightarrow> succeeds (getCommandFor env ''move'' (Some x))"
      by (auto simp: creatable_def succeeds_Inr)
    define oMove where "oMove = answer env ''move'' (Some x)"
    from m have m': "bMove \<longrightarrow> getCommandFor env ''move'' (Some x) = Inr oMove"
      by (auto simp: succeeds_Inr oMove_def answer_def)
    from invisible a show ?thesis
      unfolding createCommandsFor_def
      by (simp add: invisible_commands [OF a m'] requestsOf_def commandsOf_def answer_def
          oMove_def)
  next
    case delegate
    with assms obtain u bLibs w oAdd where
      a: "delegateData env = Inr u" "libsMissing env = Inr bLibs"
      and b: "delegateSettings env x = Inr w"
         "getCommandFor env ''addDelegateProperty'' (Some x) = Inr oAdd"
      and l: "bLibs \<longrightarrow> succeeds (getCommandFor env ''addLibrary'' None)"
      by (auto simp: creatable_def succeeds_Inr)
    define oLib where "oLib = answer env ''addLibrary'' None"
    from l have l': "bLibs \<longrightarrow> getCommandFor env ''addLibrary'' None = Inr oLib"
      by (auto simp: succeeds_Inr oLib_def answer_def)
    from delegate a b show ?thesis
      unfolding createCommandsFor_def
      by (simp add: delegate_commands [OF a l' b] requestsOf_def commandsOf_def answer_def
          oLib_def)
  next
    case custom
    with assms obtain u oAdd where
      a: "customSettings env x = Inr u" "getCommandFor env ''customAdd'' (Some x) = Inr oAdd"
      by (auto simp: creatable_def succeeds_Inr)
    from custom a show ?thesis
      unfolding createCommandsFor_def
      by (simp add: custom_commands [OF a] requestsOf_def commandsOf_def answer_def)
  next
    case other
    then show ?thesis
      by (simp add: createCommandsFor_def requestsOf_def commandsOf_def now_def)
  qed
qed

lemma forEachSelected_creatable:
  assumes "\<forall>x \<in> set xs. creatable env x"
    and "oPromise st = (stNext, Inr ())"
  shows "forEachSelected env (Some c) oPromise xs st
     = (stNext \<lparr> cs_requests := cs_requests stNext @ concat (map (requestsOf env) xs),
                cs_commands := cs_commands stNext @ concat (map (commandsOf env) xs) \<rparr>,
        Inr ())"
  using assms
proof (induction xs arbitrary: oPromise stNext)
  case Nil
  then show ?case by simp
next
  case (Cons x xs)
  from Cons.prems have x: "creatable env x" and xs: "\<forall>x \<in> set xs. creatable env x"
    by simp_all
  let ?stAfter = "stNext \<lparr> cs_requests := cs_requests stNext @ requestsOf env x,
                     cs_commands := cs_commands stNext @ commandsOf env x \<rparr>"
  have p: "andThen oPromise (\<lambda>_. createCommandsFor env (Some c) x) st = (?stAfter, Inr ())"
    using Cons.prems(2) createCommandsFor_creatable [OF x, of c stNext]
    by (simp add: andThen_def)
  from Cons.IH [of "andThen oPromise (\<lambda>_. createCommandsFor env (Some c) x)" ?stAfter,
      OF xs p]
  show ?case
    by simp
qed

text \<open>
  Claim C8. When nothing fails for the selected elements and, for a selection that is
  not empty, the factory resolves with a composite command: \<open>_createCommands\<close> sorts
  the selection (the sorted array has the same elements and descends by label), asks
  the factory for one composite command and then, element by element in the sorted
  order, for the commands of that element; the composite command ends up holding the
  commands of the elements in that order (a reveal command and then a move command if
  one is needed; an add-library command if libraries are missing and then the
  \<open>addDelegateProperty\<close> command; the \<open>customAdd\<close> command), it is fired once and
  the promise resolves. For an empty selection the factory is not called, nothing is
  fired and the promise resolves.
\<close>

theorem createCommands_sequence:
  assumes "getSelectedElements env \<noteq> [] \<longrightarrow>
             getCommandFor env ''composite'' None = Inr (Some oCompositeCommand)"
    and "\<forall>x \<in> set (getSelectedElements env). creatable env x"
  shows "mset (arraySort compareLabels (getSelectedElements env))
           = mset (getSelectedElements env)
     \<and> descending (arraySort compareLabels (getSelectedElements env))
     \<and> createCommands env st
         = (if getSelectedElements env = [] then (st, Resolved ())
            else
              (st \<lparr> cs_requests := cs_requests st
                        @ (''composite'', None)
                          # concat (map (requestsOf env)
                                     (arraySort compareLabels (getSelectedElements env))),
                      cs_commands :=
                        concat (map (commandsOf env)
                                  (arraySort compareLabels (getSelectedElements env))),
                      cs_fired := cs_fired st
                        @ [(Some oCompositeCommand,
                            concat (map (commandsOf env)
                                      (arraySort compareLabels (getSelectedElements env))))] \<rparr>,
               Resolved ()))"
proof (intro conjI)
  let ?sorted = "arraySort compareLabels (getSelectedElements env)"
  show "mset ?sorted = mset (getSelectedElements env)"
    by (rule mset_arraySort)
  show "descending ?sorted"
    by (rule descending_arraySort)
  show "createCommands env st
         = (if getSelectedElements env = [] then (st, Resolved ())
            else
              (st \<lparr> cs_requests := cs_requests st
                        @ (''composite'', None) # concat (map (requestsOf env) ?sorted),
                      cs_commands := concat (map (commandsOf env) ?sorted),
                      cs_fired := cs_fired st
                        @ [(Some oCompositeCommand, concat (map (commandsOf env) ?sorted))] \<rparr>,
               Resolved ()))"
  proof (cases "getSelectedElements env = []")
    case True
    then show ?thesis
      by (simp add: createCommands_def arraySort_def)
  next
    case False
    then have ne: "length ?sorted > 0"
      by (simp add: arraySort_Nil)
    from False assms(1) have comp: "getCommandFor env ''composite'' None = Inr (Some oCompositeCommand)"
      by simp
    from assms(2) have all: "\<forall>x \<in> set ?sorted. creatable env x"
      by (simp add: set_arraySort)
    let ?st1 = "st \<lparr> cs_requests := cs_requests st @ [(''composite'', None)] \<rparr>"
    have start: "newComposite ?st1 = (?st1 \<lparr> cs_commands := [] \<rparr>, Inr ())"
      by (simp add: newComposite_def)
    note run = forEachSelected_creatable [where oPromise = newComposite and st = ?st1
        and c = oCompositeCommand, OF all start]
    from False ne comp show ?thesis
      by (simp add: createCommands_def Let_def andThen_def request_def run
          fireElementModified_def)
  qed
qed

lemma sample_command_composite:
  "getSelectedElements sample_command_env \<noteq> [] \<longrightarrow>
     getCommandFor sample_command_env ''composite'' None = Inr (Some ''composite'')"
  by (simp add: sample_command_env_def)

lemma sample_command_creatable:
  "\<forall>x \<in> set (getSelectedElements sample_command_env). creatable sample_command_env x"
  by (simp add: sample_command_env_def sample_selection_def creatable_def succeeds_def)

lemma sample_command_selected: "getSelectedElements sample_command_env \<noteq> []"
  by (simp add: sample_command_env_def sample_selection_def)

lemma sample_command_sorted:
  "map se_id (arraySort compareLabels (getSelectedElements sample_command_env)) = [3, 1, 2, 4]"
  by code_simp

lemma sample_command_requests:
  "concat (map (requestsOf sample_command_env)
             (arraySort compareLabels (getSelectedElements sample_command_env)))
     = [(''addLibrary'', None),
        (''addDelegateProperty'',
         Some \<lparr> se_label = ''Gamma'', se_type = ''delegate'', se_id = 3 \<rparr>),
        (''reveal'', Some \<lparr> se_label = ''Beta'', se_type = ''invisible'', se_id = 1 \<rparr>),
        (''move'', Some \<lparr> se_label = ''Beta'', se_type = ''invisible'', se_id = 1 \<rparr>),
        (''customAdd'', Some \<lparr> se_label = ''Alpha'', se_type = ''custom'', se_id = 2 \<rparr>),
        (''reveal'', Some \<lparr> se_label = ''Alpha'', se_type = ''invisible'', se_id = 4 \<rparr>)]"
  by code_simp

lemma sample_command_commands:
  "concat (map (commandsOf sample_command_env)
             (arraySort compareLabels (getSelectedElements sample_command_env)))
     = [Some ''addLibrary'', Some ''addDelegateProperty Gamma'', Some ''reveal Beta'',
        Some ''move Beta'', Some ''customAdd Alpha'', Some ''reveal Alpha'']"
  by code_simp

theorem createCommands_sequence_witness:
  "createCommands sample_command_env sample_command_state
     = (\<lparr> cs_requests =
            [(''composite'', None),
             (''addLibrary'', None),
             (''addDelegateProperty'',
              Some \<lparr> se_label = ''Gamma'', se_type = ''delegate'', se_id = 3 \<rparr>),
             (''reveal'', Some \<lparr> se_label = ''Beta'', se_type = ''invisible'', se_id = 1 \<rparr>),
             (''move'', Some \<lparr> se_label = ''Beta'', se_type = ''invisible'', se_id = 1 \<rparr>),
             (''customAdd'', Some \<lparr> se_label = ''Alpha'', se_type = ''custom'', se_id = 2 \<rparr>),
             (''reveal'', Some \<lparr> se_label = ''Alpha'', se_type = ''invisible'', se_id = 4 \<rparr>)],
          cs_commands =
            [Some ''addLibrary'', Some ''addDelegateProperty Gamma'', Some ''reveal Beta'',
             Some ''move Beta'', Some ''customAdd Alpha'', Some ''reveal Alpha''],
          cs_fired =
            [(Some ''composite'',
              [Some ''addLibrary'', Some ''addDelegateProperty Gamma'', Some ''reveal Beta'',
               Some ''move Beta'', Some ''customAdd Alpha'', Some ''reveal Alpha''])] \<rparr>,
        Resolved ())
   \<and> map se_id (arraySort compareLabels (getSelectedElements sample_command_env)) = [3, 1, 2, 4]
   \<and> descending (arraySort compareLabels (getSelectedElements sample_command_env))"
  using createCommands_sequence [OF sample_command_composite sample_command_creatable,
      of sample_command_state]
    sample_command_selected sample_command_sorted
  by (simp add: sample_command_requests sample_command_commands sample_command_state_def)

section \<open>AdditionalElementsPlugin: reveal entries\<close>

lemma invisibleChildren_collects:
  assumes "\<forall>oParent. Some oParent \<in> set aParents \<longrightarrow>
             succeeds (getInvisibleElements env oParent sAggregationName)"
  shows "invisibleChildren env sAggregationName aFound aParents
           = Inr (aFound @ invisibleOf env aParents sAggregationName)"
  using assms
proof (induction aParents arbitrary: aFound)
  case Nil
  then show ?case by (simp add: invisibleOf_def)
next
  case (Cons oParentOverlay rest)
  from Cons.prems have r: "\<forall>oParent. Some oParent \<in> set rest \<longrightarrow>
             succeeds (getInvisibleElements env oParent sAggregationName)"
    by simp
  show ?case
  proof (cases oParentOverlay)
    case None
    with Cons.IH [OF r, of aFound] show ?thesis
      by (simp add: invisibleOf_def)
  next
    case (Some oParent)
    with Cons.prems obtain aMore where
      m: "getInvisibleElements env oParent sAggregationName = Inr aMore"
      by (auto simp: succeeds_def split: sum.splits)
    with Some Cons.IH [OF r, of "aFound @ aMore"] show ?thesis
      by (simp add: invisibleOf_def)
  qed
qed

lemma invisibleToReveal_step:
  assumes "\<forall>sChangeType oSelector. succeeds (hasChangeHandler env sChangeType oSelector)"
  shows "\<exists>mNext. invisibleToReveal env ov mReveal oInvisibleElement = Inr mNext
     \<and> map re_element (elements mNext)
         = map re_element (elements mReveal)
           @ (if passesChecks env ov oInvisibleElement then [oInvisibleElement] else [])"
proof (cases "getOverlay env oInvisibleElement")
  case None
  then show ?thesis
    by (simp add: invisibleToReveal_def passesChecks_def)
next
  case o: (Some oOverlay)
  show ?thesis
  proof (cases "getDesignTimeMetadata env oOverlay")
    case None
    with o show ?thesis
      by (simp add: invisibleToReveal_def passesChecks_def)
  next
    case d: (Some oDesignTimeMetadata)
    show ?thesis
    proof (cases "getRevealAction env oDesignTimeMetadata oInvisibleElement")
      case None
      with o d show ?thesis
        by (simp add: invisibleToReveal_def passesChecks_def)
    next
      case a: (Some mRevealAction)
      show ?thesis
      proof (cases "ra_changeType mRevealAction")
        case None
        with o d a show ?thesis
          by (simp add: invisibleToReveal_def passesChecks_def)
      next
        case t: (Some sChangeType)
        from assms have "succeeds (hasChangeHandler env sChangeType
                (revealSelector env oOverlay mRevealAction oInvisibleElement))"
          by (elim allE)
        then obtain bHasChangeHandler where
          h: "hasChangeHandler env sChangeType
                (revealSelector env oOverlay mRevealAction oInvisibleElement)
              = Inr bHasChangeHandler"
          by (cases "hasChangeHandler env sChangeType
                (revealSelector env oOverlay mRevealAction oInvisibleElement)")
             (simp_all add: succeeds_def)
        from o d a t h show ?thesis
          by (simp add: invisibleToReveal_def passesChecks_def pushRevealed_def)
      qed
    qed
  qed
qed

lemma revealAll_filters:
  assumes "\<forall>sChangeType oSelector. succeeds (hasChangeHandler env sChangeType oSelector)"
  shows "\<exists>mLast. revealAll env ov mReveal aInvisibleElements = Inr mLast
     \<and> map re_element (elements mLast)
         = map re_element (elements mReveal) @ filter (passesChecks env ov) aInvisibleElements"
proof (induction aInvisibleElements arbitrary: mReveal)
  case Nil
  show ?case by simp
next
  case (Cons oInvisibleElement rest)
  from invisibleToReveal_step [OF assms, of ov mReveal oInvisibleElement] obtain mNext where
    n: "invisibleToReveal env ov mReveal oInvisibleElement = Inr mNext"
    and e: "map re_element (elements mNext)
         = map re_element (elements mReveal)
           @ (if passesChecks env ov oInvisibleElement then [oInvisibleElement] else [])"
    by (elim exE conjE)
  from Cons.IH [of mNext] obtain mLast where
    l: "revealAll env ov mNext rest = Inr mLast"
    and f: "map re_element (elements mLast)
         = map re_element (elements mNext) @ filter (passesChecks env ov) rest"
    by (elim exE conjE)
  from n l e f show ?case
    by simp
qed

lemma revealMapFor_step:
  assumes h: "\<forall>sChangeType oSelector. succeeds (hasChangeHandler env sChangeType oSelector)"
    and p: "\<forall>oParent. Some oParent \<in> set aParents \<longrightarrow>
              succeeds (getInvisibleElements env oParent k)"
    and m: "revealMapFor env ov aParents S mRevealMap"
  shows "\<exists>mNext. getRevealActionFromAggregations env ov aParents mRevealMap k = Inr mNext
     \<and> revealMapFor env ov aParents (insert k S) mNext"
proof -
  have c: "invisibleChildren env k [] aParents = Inr (invisibleOf env aParents k)"
    using invisibleChildren_collects [OF p, of "[]"] by simp
  from revealAll_filters [OF h, of ov "\<lparr> elements = [], controlTypeNames = [] \<rparr>"
      "invisibleOf env aParents k"]
  obtain mReveal where
    r: "revealAll env ov \<lparr> elements = [], controlTypeNames = [] \<rparr> (invisibleOf env aParents k)
          = Inr mReveal"
    and e: "map re_element (elements mReveal) = revealable env ov aParents k"
    by (auto simp: revealable_def)
  from m have d: "distinct (map fst mRevealMap)"
    and old: "\<And>j. case map_of mRevealMap j of
                None \<Rightarrow> j \<notin> S \<or> revealable env ov aParents j = []
              | Some mReveal \<Rightarrow>
                  j \<in> S \<and> elements mReveal \<noteq> []
                  \<and> map re_element (elements mReveal) = revealable env ov aParents j"
    by (simp_all add: revealMapFor_def)
  show ?thesis
  proof (cases "elements mReveal = []")
    case True
    with e have none: "revealable env ov aParents k = []"
      by simp
    have g: "getRevealActionFromAggregations env ov aParents mRevealMap k = Inr mRevealMap"
      using c r True by (simp add: getRevealActionFromAggregations_def)
    have "case map_of mRevealMap j of
                None \<Rightarrow> j \<notin> insert k S \<or> revealable env ov aParents j = []
              | Some mReveal \<Rightarrow>
                  j \<in> insert k S \<and> elements mReveal \<noteq> []
                  \<and> map re_element (elements mReveal) = revealable env ov aParents j" for j
      using old [of j] none by (cases "j = k") (auto split: option.splits)
    with d have "revealMapFor env ov aParents (insert k S) mRevealMap"
      by (simp add: revealMapFor_def)
    with g show ?thesis
      by simp
  next
    case False
    have g: "getRevealActionFromAggregations env ov aParents mRevealMap k
        = Inr (AList.update k mReveal mRevealMap)"
      using c r False by (simp add: getRevealActionFromAggregations_def)
    have "case map_of (AList.update k mReveal mRevealMap) j of
                None \<Rightarrow> j \<notin> insert k S \<or> revealable env ov aParents j = []
              | Some mReveal \<Rightarrow>
                  j \<in> insert k S \<and> elements mReveal \<noteq> []
                  \<and> map re_element (elements mReveal) = revealable env ov aParents j" for j
      using old [of j] False e
      by (cases "j = k") (auto simp: update_conv' split: option.splits)
    with d have "revealMapFor env ov aParents (insert k S) (AList.update k mReveal mRevealMap)"
      by (simp add: revealMapFor_def distinct_update)
    with g show ?thesis
      by simp
  qed
qed

lemma revealActionsOf_map:
  assumes h: "\<forall>sChangeType oSelector. succeeds (hasChangeHandler env sChangeType oSelector)"
    and p: "\<forall>k \<in> set aNames. \<forall>oParent. Some oParent \<in> set aParents \<longrightarrow>
              succeeds (getInvisibleElements env oParent k)"
    and m: "revealMapFor env ov aParents S mRevealMap"
  shows "\<exists>mLast. revealActionsOf env ov aParents mRevealMap aNames = Inr mLast
     \<and> revealMapFor env ov aParents (S \<union> set aNames) mLast"
  using p m
proof (induction aNames arbitrary: S mRevealMap)
  case Nil
  then show ?case by simp
next
  case (Cons k rest)
  from Cons.prems(1) have pk: "\<forall>oParent. Some oParent \<in> set aParents \<longrightarrow>
              succeeds (getInvisibleElements env oParent k)"
    and pr: "\<forall>k \<in> set rest. \<forall>oParent. Some oParent \<in> set aParents \<longrightarrow>
              succeeds (getInvisibleElements env oParent k)"
    by simp_all
  from revealMapFor_step [OF h pk Cons.prems(2)] obtain mNext where
    n: "getRevealActionFromAggregations env ov aParents mRevealMap k = Inr mNext"
    and mn: "revealMapFor env ov aParents (insert k S) mNext"
    by (elim exE conjE)
  from Cons.IH [OF pr mn] obtain mLast where
    l: "revealActionsOf env ov aParents mNext rest = Inr mLast"
    and ml: "revealMapFor env ov aParents (insert k S \<union> set rest) mLast"
    by (elim exE conjE)
  from n l ml show ?case
    by simp
qed

lemma revealMapFor_empty: "revealMapFor env ov aParents {} []"
  by (simp add: revealMapFor_def)

lemma getRevealActions_map:
  assumes "revealScope env bSibling oOverlay = Inr (aParents, aNames)"
    and "\<forall>sChangeType oSelector. succeeds (hasChangeHandler env sChangeType oSelector)"
    and "\<forall>k \<in> set aNames. \<forall>oParent. Some oParent \<in> set aParents \<longrightarrow>
              succeeds (getInvisibleElements env oParent k)"
  shows "\<exists>mRevealMap. getRevealActions env ov bSibling oOverlay = Resolved mRevealMap
     \<and> revealMapFor env ov aParents (set aNames) mRevealMap"
  using revealActionsOf_map [OF assms(2) assms(3) revealMapFor_empty, of ov] assms(1)
  by (auto simp: getRevealActions_def)

lemma map_of_mergeActions:
  "map_of (mergeActions mRevealMap mDelegate mCustom) k
     = (if k \<in> fst ` set mRevealMap \<union> fst ` set mDelegate \<union> fst ` set mCustom
        then Some \<lparr> reveal = map_of mRevealMap k,
                    addViaDelegate = map_of mDelegate k,
                    addViaCustom = map_of mCustom k \<rparr>
        else None)"
  by (simp add: mergeActions_def map_of_map_restrict restrict_map_def)

lemma distinct_mergeActions: "distinct (map fst (mergeActions mRevealMap mDelegate mCustom))"
  by (simp add: mergeActions_def comp_def)

text \<open>
  Claim C7 (amended). With \<open>bInvalidate\<close> unset and actions stored on the overlay,
  \<open>_getActions\<close> resolves with the stored map of the flag and computes nothing.
  Otherwise, when the three computations and the reads they make succeed, it resolves
  with a map with distinct aggregation names that it also stores on the overlay; an
  aggregation has no entry only if none of the three computations has one for it; an
  entry has the \<open>addViaDelegate\<close> and the \<open>addViaCustom\<close> of the aggregation as
  computed; and it has a \<open>reveal\<close> exactly when the aggregation is one of those looked
  at and at least one of its invisible elements passes the checks, the \<open>reveal\<close> then
  listing the elements that pass, in order: an aggregation whose list of revealable
  elements is empty has no \<open>reveal\<close>.
\<close>

theorem getActions_map:
  "(\<not> bInvalidate \<and> mAddActions ov oOverlay = Some mStored \<longrightarrow>
      getActions env ov bSibling oOverlay bInvalidate iFirst
        = (ov, Resolved (if bSibling then aa_asSibling mStored else aa_asChild mStored)))
   \<and> ((bInvalidate \<or> mAddActions ov oOverlay = None)
       \<and> revealScope env bSibling oOverlay = Inr (aParents, aNames)
       \<and> (\<forall>k \<in> set aNames. \<forall>oParent. Some oParent \<in> set aParents \<longrightarrow>
             succeeds (getInvisibleElements env oParent k))
       \<and> (\<forall>sChangeType oSelector. succeeds (hasChangeHandler env sChangeType oSelector))
       \<and> getAddViaDelegateActions env bSibling oOverlay = Resolved mDelegate
       \<and> getCustomAddActions env bSibling oOverlay = Resolved mCustom
       \<and> succeeds (checkInvalidAddActions env bSibling oOverlay)
      \<longrightarrow>
        (\<exists>mAllActions.
           getActions env ov bSibling oOverlay bInvalidate iFirst
             = (storeActions ov oOverlay bSibling mAllActions, Resolved mAllActions)
         \<and> distinct (map fst mAllActions)
         \<and> (\<forall>k. case map_of mAllActions k of
                   None \<Rightarrow>
                     (k \<notin> set aNames \<or> revealable env ov aParents k = [])
                     \<and> map_of mDelegate k = None \<and> map_of mCustom k = None
                 | Some mActions \<Rightarrow>
                     addViaDelegate mActions = map_of mDelegate k
                     \<and> addViaCustom mActions = map_of mCustom k
                     \<and> (case reveal mActions of
                          None \<Rightarrow> k \<notin> set aNames \<or> revealable env ov aParents k = []
                        | Some mReveal \<Rightarrow>
                            k \<in> set aNames \<and> elements mReveal \<noteq> []
                            \<and> map re_element (elements mReveal)
                                = revealable env ov aParents k))))"
proof (intro conjI impI)
  assume "\<not> bInvalidate \<and> mAddActions ov oOverlay = Some mStored"
  then show "getActions env ov bSibling oOverlay bInvalidate iFirst
        = (ov, Resolved (if bSibling then aa_asSibling mStored else aa_asChild mStored))"
    by (simp add: getActions_def)
next
  assume a: "(bInvalidate \<or> mAddActions ov oOverlay = None)
       \<and> revealScope env bSibling oOverlay = Inr (aParents, aNames)
       \<and> (\<forall>k \<in> set aNames. \<forall>oParent. Some oParent \<in> set aParents \<longrightarrow>
             succeeds (getInvisibleElements env oParent k))
       \<and> (\<forall>sChangeType oSelector. succeeds (hasChangeHandler env sChangeType oSelector))
       \<and> getAddViaDelegateActions env bSibling oOverlay = Resolved mDelegate
       \<and> getCustomAddActions env bSibling oOverlay = Resolved mCustom
       \<and> succeeds (checkInvalidAddActions env bSibling oOverlay)"
  then have fresh: "(if bInvalidate then None else mAddActions ov oOverlay) = None"
    and scope: "revealScope env bSibling oOverlay = Inr (aParents, aNames)"
    and inv: "\<forall>k \<in> set aNames. \<forall>oParent. Some oParent \<in> set aParents \<longrightarrow>
             succeeds (getInvisibleElements env oParent k)"
    and han: "\<forall>sChangeType oSelector. succeeds (hasChangeHandler env sChangeType oSelector)"
    and d: "getAddViaDelegateActions env bSibling oOverlay = Resolved mDelegate"
    and c: "getCustomAddActions env bSibling oOverlay = Resolved mCustom"
    and chk: "succeeds (checkInvalidAddActions env bSibling oOverlay)"
    by auto
  from chk obtain u where chk': "checkInvalidAddActions env bSibling oOverlay = Inr u"
    by (cases "checkInvalidAddActions env bSibling oOverlay") (simp_all add: succeeds_def)
  from getRevealActions_map [OF scope han inv, of ov] obtain mRevealMap where
    r: "getRevealActions env ov bSibling oOverlay = Resolved mRevealMap"
    and m: "revealMapFor env ov aParents (set aNames) mRevealMap"
    by (elim exE conjE)
  let ?all = "mergeActions mRevealMap mDelegate mCustom"
  have g: "getActions env ov bSibling oOverlay bInvalidate iFirst
        = (storeActions ov oOverlay bSibling ?all, Resolved ?all)"
    by (simp add: getActions_def fresh r d c chk')
  from m have old: "\<And>k. case map_of mRevealMap k of
                None \<Rightarrow> k \<notin> set aNames \<or> revealable env ov aParents k = []
              | Some mReveal \<Rightarrow>
                  k \<in> set aNames \<and> elements mReveal \<noteq> []
                  \<and> map re_element (elements mReveal) = revealable env ov aParents k"
    by (simp add: revealMapFor_def)
  have e: "case map_of ?all k of
                   None \<Rightarrow>
                     (k \<notin> set aNames \<or> revealable env ov aParents k = [])
                     \<and> map_of mDelegate k = None \<and> map_of mCustom k = None
                 | Some mActions \<Rightarrow>
                     addViaDelegate mActions = map_of mDelegate k
                     \<and> addViaCustom mActions = map_of mCustom k
                     \<and> (case reveal mActions of
                          None \<Rightarrow> k \<notin> set aNames \<or> revealable env ov aParents k = []
                        | Some mReveal \<Rightarrow>
                            k \<in> set aNames \<and> elements mReveal \<noteq> []
                            \<and> map re_element (elements mReveal)
                                = revealable env ov aParents k)" for k
  proof (cases "k \<in> fst ` set mRevealMap \<union> fst ` set mDelegate \<union> fst ` set mCustom")
    case True
    with old [of k] show ?thesis
      by (simp add: map_of_mergeActions)
  next
    case False
    then have "map_of mRevealMap k = None" "map_of mDelegate k = None" "map_of mCustom k = None"
      by (simp_all add: map_of_eq_None_iff)
    with False old [of k] show ?thesis
      by (simp add: map_of_mergeActions)
  qed
  from g e distinct_mergeActions [of mRevealMap mDelegate mCustom]
  show "\<exists>mAllActions.
           getActions env ov bSibling oOverlay bInvalidate iFirst
             = (storeActions ov oOverlay bSibling mAllActions, Resolved mAllActions)
         \<and> distinct (map fst mAllActions)
         \<and> (\<forall>k. case map_of mAllActions k of
                   None \<Rightarrow>
                     (k \<notin> set aNames \<or> revealable env ov aParents k = [])
                     \<and> map_of mDelegate k = None \<and> map_of mCustom k = None
                 | Some mActions \<Rightarrow>
                     addViaDelegate mActions = map_of mDelegate k
                     \<and> addViaCustom mActions = map_of mCustom k
                     \<and> (case reveal mActions of
                          None \<Rightarrow> k \<notin> set aNames \<or> revealable env ov aParents k = []
                        | Some mReveal \<Rightarrow>
                            k \<in> set aNames \<and> elements mReveal \<noteq> []
                            \<and> map re_element (elements mReveal)
                                = revealable env ov aParents k))"
    by blast
qed

lemma sample_action_stored:
  "\<not> False \<and> mAddActions sample_stored 1
                = Some \<lparr> aa_asSibling = [], aa_asChild = sample_actions \<rparr>"
  by (simp add: sample_stored_def)

lemma sample_action_fresh:
  "(True \<or> mAddActions sample_overlays 1 = None)
   \<and> revealScope sample_action_env False 1 = Inr ([Some 0, None], [''content'', ''footer''])
   \<and> (\<forall>k \<in> set [''content'', ''footer'']. \<forall>oParent. Some oParent \<in> set [Some 0, None] \<longrightarrow>
         succeeds (getInvisibleElements sample_action_env oParent k))
   \<and> (\<forall>sChangeType oSelector.
         succeeds (hasChangeHandler sample_action_env sChangeType oSelector))
   \<and> getAddViaDelegateActions sample_action_env False 1
       = Resolved [(''content'', ()), (''items'', ())]
   \<and> getCustomAddActions sample_action_env False 1 = Resolved []
   \<and> succeeds (checkInvalidAddActions sample_action_env False 1)"
  by (simp add: sample_action_env_def succeeds_def)

lemma sample_action_revealable:
  "revealable sample_action_env sample_overlays [Some 0, None] ''content'' = [5]"
  by code_simp

theorem getActions_map_witness:
  "getActions sample_action_env sample_stored True 1 False 0 = (sample_stored, Resolved [])
   \<and> (\<exists>mAllActions mActions mReveal.
         getActions sample_action_env sample_overlays False 1 True 0
           = (storeActions sample_overlays 1 False mAllActions, Resolved mAllActions)
       \<and> map_of mAllActions ''content'' = Some mActions
       \<and> addViaDelegate mActions = Some ()
       \<and> reveal mActions = Some mReveal
       \<and> map re_element (elements mReveal) = [5])"
proof
  from getActions_map [where iFirst = 0, THEN conjunct1, rule_format, OF sample_action_stored]
  show "getActions sample_action_env sample_stored True 1 False 0 = (sample_stored, Resolved [])"
    by simp
next
  from getActions_map [where iFirst = 0, THEN conjunct2, rule_format, OF sample_action_fresh]
  obtain mAllActions where
    g: "getActions sample_action_env sample_overlays False 1 True 0
          = (storeActions sample_overlays 1 False mAllActions, Resolved mAllActions)"
    and k: "case map_of mAllActions ''content'' of
              None \<Rightarrow>
                (''content'' \<notin> set [''content'', ''footer'']
                 \<or> revealable sample_action_env sample_overlays [Some 0, None] ''content'' = [])
                \<and> map_of [(''content'', ()), (''items'', ())] ''content'' = None
                \<and> map_of ([] :: (string \<times> unit) list) ''content'' = None
            | Some mActions \<Rightarrow>
                addViaDelegate mActions = map_of [(''content'', ()), (''items'', ())] ''content''
                \<and> addViaCustom mActions = map_of [] ''content''
                \<and> (case reveal mActions of
                     None \<Rightarrow> ''content'' \<notin> set [''content'', ''footer'']
                       \<or> revealable sample_action_env sample_overlays [Some 0, None]
                            ''content'' = []
                   | Some mReveal \<Rightarrow>
                       ''content'' \<in> set [''content'', ''footer''] \<and> elements mReveal \<noteq> []
                       \<and> map re_element (elements mReveal)
                           = revealable sample_action_env sample_overlays [Some 0, None]
                               ''content'')"
    by blast
  from k obtain mActions where
    a: "map_of mAllActions ''content'' = Some mActions"
    and d: "addViaDelegate mActions = Some ()"
    and r: "case reveal mActions of
              None \<Rightarrow> False
            | Some mReveal \<Rightarrow> map re_element (elements mReveal) = [5]"
    by (cases "map_of mAllActions ''content''")
       (auto simp: sample_action_revealable split: option.splits)
  from r obtain mReveal where
    r1: "reveal mActions = Some mReveal" and r2: "map re_element (elements mReveal) = [5]"
    by (cases "reveal mActions") simp_all
  show "\<exists>mAllActions mActions mReveal.
         getActions sample_action_env sample_overlays False 1 True 0
           = (storeActions sample_overlays 1 False mAllActions, Resolved mAllActions)
       \<and> map_of mAllActions ''content'' = Some mActions
       \<and> addViaDelegate mActions = Some ()
       \<and> reveal mActions = Some mReveal
       \<and> map re_element (elements mReveal) = [5]"
    by (intro exI conjI) (rule g, rule a, rule d, rule r1, rule r2)
qed

lemma sample_action_first:
  "snd (getActions sample_action_env sample_overlays False 1 True 0) = Resolved sample_actions"
  by code_simp

lemma sample_action_kept:
  "mAddActions (fst (getActions sample_action_env sample_overlays False 1 True 0)) 1
     = Some \<lparr> aa_asSibling = [], aa_asChild = sample_actions \<rparr>"
  by code_simp

lemma sample_action_second:
  "snd (getActions sample_action_env
          (fst (getActions sample_action_env sample_overlays False 1 True 0)) True 1 False 0)
     = Resolved []"
  by code_simp

lemma sample_action_reveal:
  "getRevealActions sample_action_env
     (fst (getActions sample_action_env sample_overlays False 1 True 0)) True 1
     = Resolved [(''content'',
                  \<lparr> elements =
                      [\<lparr> re_element = 5, re_designTimeMetadata = 25,
                         re_action = \<lparr> ra_changeType = Some ''unhideControl'',
                                       ra_changeOnRelevantContainer = False,
                                       ra_getAggregationName =
                                         Some DefaultGetAggregationName \<rparr> \<rparr>],
                    controlTypeNames = [''Field''] \<rparr>)]"
  by code_simp

lemma sample_action_invalidated:
  "snd (getActions sample_action_env
          (fst (getActions sample_action_env sample_overlays False 1 True 0)) True 1 True 0)
     = Resolved sample_actions"
  by code_simp

text \<open>
  Claim C7 as stated, for every overlay and flag, fails on an overlay whose child
  actions have been computed: a call for the sibling actions that does not invalidate
  resolves with the empty map stored beside them, although the reveal computation has
  an entry for \<open>content\<close> and the call that invalidates resolves with the merged map.
\<close>

theorem getActions_stored_counterexample:
  "snd (getActions sample_action_env sample_overlays False 1 True 0) = Resolved sample_actions
   \<and> mAddActions (fst (getActions sample_action_env sample_overlays False 1 True 0)) 1
       = Some \<lparr> aa_asSibling = [], aa_asChild = sample_actions \<rparr>
   \<and> snd (getActions sample_action_env
            (fst (getActions sample_action_env sample_overlays False 1 True 0)) True 1 False 0)
       = Resolved []
   \<and> getRevealActions sample_action_env
       (fst (getActions sample_action_env sample_overlays False 1 True 0)) True 1
       = Resolved [(''content'',
                    \<lparr> elements =
                        [\<lparr> re_element = 5, re_designTimeMetadata = 25,
                           re_action = \<lparr> ra_changeType = Some ''unhideControl'',
                                         ra_changeOnRelevantContainer = False,
                                         ra_getAggregationName =
                                           Some DefaultGetAggregationName \<rparr> \<rparr>],
                      controlTypeNames = [''Field''] \<rparr>)]
   \<and> snd (getActions sample_action_env
            (fst (getActions sample_action_env sample_overlays False 1 True 0)) True 1 True 0)
       = Resolved sample_actions"
  by (simp only: sample_action_first sample_action_kept sample_action_second
      sample_action_reveal sample_action_invalidated simp_thms)

end
